theory Spec2Isabelle
  imports Complex_Main "HOL-Library.Sublist" "HOL-Library.Multiset"
begin

section \<open>Domain model (types.ts)\<close>

text \<open>
  Every interface of the domain model is a record. Field \<open>f\<close> of interface \<open>T\<close> is the
  selector \<open>f_t\<close>, where \<open>t\<close> is a short tag of the interface (\<open>inv\<close> for Invoice,
  \<open>tx\<close> for Transaction, \<open>vnd\<close> for Vendor, ...): nearly every interface has an
  \<open>id\<close>, and record selectors are global names. The fields of \<open>AppState\<close> keep the
  names of the source. An optional field \<open>f?: T\<close> has type \<open>T option\<close>, and
  \<open>None\<close> is JavaScript's \<open>undefined\<close>.

  A JavaScript \<open>number\<close> is an IEEE 754 double. A finite double is modelled by the
  rational number it denotes (\<open>-0\<close> and \<open>0\<close> are one value); \<open>NaN\<close> and the
  infinities are outside the model. The section on doubles below defines the rounding of
  a rational to the nearest double and the four rounded operations; RECORD_PAYMENT, whose
  stored amounts and whose status depend on the rounding, is written with them. The vendor
  branches and the customer ledger are written with the sums of the rationals themselves.
  String unions of the source are datatypes.
\<close>

datatype InvoiceStatus = draft | sent | paid | overdue | partial
datatype TransactionType = credit | debit
datatype VehicleStatus = active_vehicle | maintenance | retired
datatype UserRole = Admin | Finance_Manager | Accountant | Operations_Manager | Viewer
datatype ExpenseStatus = approved | pending_approval
datatype ExpenseCategory = Fuel | Maintenance | Insurance | Toll | Freight | Driver | EMI
datatype EntryType = Manual | Auto
datatype ActiveStatus = Active | Inactive
datatype BookingStatus = pending | invoiced
datatype ShipmentStatus = active_shipment | completed
datatype MatchStatus = matched | unmatched
datatype NotificationType = success | error | info | warning
datatype EntityType = Invoice_entity | Payment_entity | Expense_entity | System_entity | Booking_entity

record Customer =
  id_cus :: string
  name_cus :: string
  email_cus :: string
  taxId_cus :: string
  creditLimit_cus :: rat
  status_cus :: ActiveStatus
  joinedDate_cus :: string
  address_cus :: "string option"
  contactPerson_cus :: "string option"
  phone_cus :: "string option"
  paymentTerms_cus :: "rat option"
  tdsRate_cus :: "rat option"
  relationshipManager_cus :: "string option"

record LineItem =
  id_li :: string
  description_li :: string
  quantity_li :: rat
  unitPrice_li :: rat
  taxRate_li :: "rat option"
  total_li :: rat

record Invoice =
  id_inv :: string
  customerId_inv :: string
  customerName_inv :: string
  invoiceNumber_inv :: string
  status_inv :: InvoiceStatus
  date_inv :: string
  dueDate_inv :: string
  amount_inv :: rat
  paidAmount_inv :: "rat option"
  adjustments_inv :: "rat option"
  taxAmount_inv :: "rat option"
  discount_inv :: "rat option"
  lineItems_inv :: "LineItem list"
  lastReminderSent_inv :: "string option"
  notes_inv :: "string option"

record Booking =
  id_bk :: string
  customerId_bk :: string
  customerName_bk :: string
  origin_bk :: string
  destination_bk :: string
  distance_bk :: rat
  vehicleId_bk :: string
  driverName_bk :: string
  driverPhone_bk :: string
  bookedDate_bk :: string
  completedDate_bk :: string
  amount_bk :: rat
  expense_bk :: rat
  status_bk :: BookingStatus
  podUrl_bk :: "string option"
  podVerified_bk :: bool
  vendorId_bk :: "string option"
  vendorName_bk :: "string option"

record Vehicle =
  id_veh :: string
  regNumber_veh :: string
  model_veh :: string
  status_veh :: VehicleStatus
  mileage_veh :: rat
  lastMaintenance_veh :: "string option"

record Expense =
  id_exp :: string
  vehicleId_exp :: string
  category_exp :: ExpenseCategory
  amount_exp :: rat
  date_exp :: string
  vendor_exp :: string
  vendorId_exp :: "string option"
  bookingId_exp :: "string option"
  costPerKm_exp :: "rat option"
  receiptUrl_exp :: "string option"
  status_exp :: ExpenseStatus
  entryType_exp :: "EntryType option"
  odometer_exp :: "rat option"

record Transaction =
  id_tx :: string
  customerId_tx :: "string option"
  vendorId_tx :: "string option"
  vendorName_tx :: "string option"
  date_tx :: string
  amount_tx :: rat
  type_tx :: TransactionType
  description_tx :: string
  referenceId_tx :: "string option"
  matched_tx :: bool
  paymentMode_tx :: "string option"
  referenceNo_tx :: "string option"
  category_tx :: "string option"

record Shipment =
  id_shp :: string
  route_shp :: string
  currentRate_shp :: rat
  breakevenRate_shp :: rat
  status_shp :: ShipmentStatus

record Vendor =
  id_vnd :: string
  name_vnd :: string
  code_vnd :: "string option"
  taxId_vnd :: "string option"
  lastActivity_vnd :: "string option"
  rating_vnd :: rat
  category_vnd :: string
  balance_vnd :: rat
  paymentTerms_vnd :: rat

record BankAccount =
  id_ba :: string
  bankName_ba :: string
  accountNumber_ba :: string
  balance_ba :: rat
  lastSynced_ba :: string

record BankTransaction =
  id_btx :: string
  bankAccountId_btx :: string
  date_btx :: string
  description_btx :: string
  amount_btx :: rat
  type_btx :: TransactionType
  status_btx :: MatchStatus

record UserProfile =
  companyName_prof :: string
  taxId_prof :: string
  address_prof :: string
  logoUrl_prof :: "string option"

record SystemUser =
  id_usr :: string
  name_usr :: string
  email_usr :: string
  role_usr :: UserRole
  status_usr :: ActiveStatus

record Notification =
  id_ntf :: string
  message_ntf :: string
  type_ntf :: NotificationType

record AuditLog =
  id_log :: string
  timestamp_log :: string
  userId_log :: string
  userName_log :: string
  userRole_log :: UserRole
  action_log :: string
  entityId_log :: string
  entityType_log :: EntityType
  details_log :: string
  oldValue_log :: "string option"
  newValue_log :: "string option"

record AppState =
  currentUser :: SystemUser
  customers :: "Customer list"
  invoices :: "Invoice list"
  bookings :: "Booking list"
  vehicles :: "Vehicle list"
  expenses :: "Expense list"
  transactions :: "Transaction list"
  shipments :: "Shipment list"
  vendors :: "Vendor list"
  bankAccounts :: "BankAccount list"
  bankFeed :: "BankTransaction list"
  users :: "SystemUser list"
  userProfile :: UserProfile
  notifications :: "Notification list"
  auditLogs :: "AuditLog list"
  isLoading :: bool
  searchQuery :: string

section \<open>Action vocabulary (types.ts)\<close>

text \<open>
  \<open>Partial<AppState>\<close> and \<open>Partial<UserProfile>\<close>: every field may be absent. The
  payload of \<open>ADD_NOTIFICATION\<close> is a Notification without its id. The payload of
  \<open>ADD_EXPENSE\<close> is an Expense without its status; it is an \<open>Expense\<close> here, whose
  status the reducer overwrites.
\<close>

record PartialAppState =
  currentUser_p :: "SystemUser option"
  customers_p :: "Customer list option"
  invoices_p :: "Invoice list option"
  bookings_p :: "Booking list option"
  vehicles_p :: "Vehicle list option"
  expenses_p :: "Expense list option"
  transactions_p :: "Transaction list option"
  shipments_p :: "Shipment list option"
  vendors_p :: "Vendor list option"
  bankAccounts_p :: "BankAccount list option"
  bankFeed_p :: "BankTransaction list option"
  users_p :: "SystemUser list option"
  userProfile_p :: "UserProfile option"
  notifications_p :: "Notification list option"
  auditLogs_p :: "AuditLog list option"
  isLoading_p :: "bool option"
  searchQuery_p :: "string option"

record PartialUserProfile =
  companyName_pp :: "string option"
  taxId_pp :: "string option"
  address_pp :: "string option"
  logoUrl_pp :: "string option option"

record PaymentPayload =
  invoiceId_pay :: string
  date_pay :: string
  reference_pay :: string
  amount_pay :: rat
  type_pay :: TransactionType
  category_pay :: string
  debitNoteNo_pay :: "string option"
  autoTds_pay :: "bool option"

record VendorPaymentPayload =
  vendorIds_vpay :: "string list"
  date_vpay :: string
  amount_vpay :: rat
  category_vpay :: string
  reference_vpay :: string
  autoTds_vpay :: bool
  bookingId_vpay :: "string option"

record NotificationPayload =
  message_np :: string
  type_np :: NotificationType

datatype Action =
    SET_LOADING bool
  | SET_DATA PartialAppState
  | SET_SEARCH_QUERY string
  | SWITCH_USER UserRole
  | ADD_INVOICE Invoice
  | DELETE_INVOICE string
  | ADD_EXPENSE Expense
  | APPROVE_EXPENSE string
  | MATCH_BANK_TRANSACTION string
  | UPDATE_PROFILE PartialUserProfile
  | RECORD_PAYMENT PaymentPayload
  | RECORD_VENDOR_PAYMENT VendorPaymentPayload
  | COMPLETE_TRIP string
  | UPDATE_INVOICE_STATUS string InvoiceStatus
  | SEND_REMINDERS "string list"
  | MARK_BOOKINGS_INVOICED "string list"
  | ADD_NOTIFICATION NotificationPayload
  | REMOVE_NOTIFICATION string
  | OTHER_ACTION string

section \<open>Doubles\<close>

text \<open>
  \<open>toDouble x\<close> is the double nearest to the rational \<open>x\<close>, a tie going to the even
  significand (the rounding of IEEE 754 binary64 that ECMAScript prescribes for \<open>+\<close>,
  \<open>-\<close>, \<open>*\<close>, \<open>/\<close> and for a decimal literal). A double with binary exponent \<open>e\<close> is
  a multiple of \<open>2 ^ (e - 52)\<close>; below \<open>2 ^ -1022\<close> the spacing stays that of the
  subnormals. A result of magnitude \<open>2 ^ 1024\<close> or more is an infinity in JavaScript and
  is outside the model. \<open>bitLength k\<close> is the number of binary digits of \<open>k\<close>, and
  \<open>floorLog2 x\<close> is the exponent \<open>e\<close> with \<open>2 ^ e \<le> x < 2 ^ (e + 1)\<close> of a positive
  \<open>x\<close>.
\<close>

function bitLength :: "int \<Rightarrow> int" where
  "bitLength k = (if k \<le> 0 then 0 else 1 + bitLength (k div 2))"
  by pat_completeness auto

termination
  by (relation "measure nat") auto

declare bitLength.simps [simp del]

definition floorLog2 :: "rat \<Rightarrow> int" where
  "floorLog2 x =
     (let p = fst (quotient_of x); q = snd (quotient_of x);
          a = bitLength p - 1; b = bitLength q - 1
      in if q * 2 ^ nat a \<le> p * 2 ^ nat b then a - b else a - b - 1)"

definition pow2 :: "int \<Rightarrow> rat" where
  "pow2 k = (if 0 \<le> k then 2 ^ nat k else 1 / 2 ^ nat (- k))"

definition roundTiesToEven :: "rat \<Rightarrow> int" where
  "roundTiesToEven x =
     (let n = \<lfloor>x\<rfloor>; r = x - of_int n
      in if r < 1 / 2 then n else if 1 / 2 < r then n + 1 else if even n then n else n + 1)"

definition toDouble :: "rat \<Rightarrow> rat" where
  "toDouble x =
     (if x = 0 then 0
      else let e = max (floorLog2 \<bar>x\<bar>) (- 1022); ulp = pow2 (e - 52)
           in of_int (roundTiesToEven (x / ulp)) * ulp)"

definition fadd :: "rat \<Rightarrow> rat \<Rightarrow> rat" where
  "fadd x y = toDouble (x + y)"

definition fsub :: "rat \<Rightarrow> rat \<Rightarrow> rat" where
  "fsub x y = toDouble (x - y)"

definition fmul :: "rat \<Rightarrow> rat \<Rightarrow> rat" where
  "fmul x y = toDouble (x * y)"

definition fdiv :: "rat \<Rightarrow> rat \<Rightarrow> rat" where
  "fdiv x y = toDouble (x / y)"

section \<open>What the reducer reads from outside\<close>

text \<open>
  The reducer reads the clock (\<open>Date.now()\<close>, \<open>new Date()\<close>) and \<open>Math.random()\<close>.
  \<open>Env\<close> holds what one call reads: every clock read of one call returns \<open>now\<close>
  (milliseconds since the epoch), and \<open>random\<close> is the one random draw of \<open>createLog\<close>.

  \<open>Platform\<close> holds the functions of the JavaScript runtime whose results the source
  only passes on: the string of a number in a template literal, \<open>toLocaleString\<close> for
  rupees, the renderings of a date, the parse of a date string (\<open>None\<close> is an invalid
  date, whose time is \<open>NaN\<close>) and \<open>toLowerCase\<close>.
\<close>

record Env =
  now :: int
  random :: rat

record Platform =
  numStr :: "rat \<Rightarrow> string"
  toLocaleStringINR :: "rat \<Rightarrow> string"
  toISOString :: "int \<Rightarrow> string"
  parseDate :: "string \<Rightarrow> int option"
  toLocaleDateString :: "int \<Rightarrow> string"
  toLocaleTimeString :: "int \<Rightarrow> string"
  toLowerCase :: "string \<Rightarrow> string"

definition formatINR :: "Platform \<Rightarrow> rat \<Rightarrow> string" where
  "formatINR P amount = toLocaleStringINR P amount"

definition dateNowStr :: "Platform \<Rightarrow> Env \<Rightarrow> string" where
  "dateNowStr P e = numStr P (of_int (now e))"

text \<open>\<open>x || 0\<close> on an optional number, and the truth value of an optional string.\<close>

definition or0 :: "rat option \<Rightarrow> rat" where
  "or0 x = (case x of None \<Rightarrow> 0 | Some v \<Rightarrow> v)"

definition truthy :: "string option \<Rightarrow> bool" where
  "truthy x = (case x of None \<Rightarrow> False | Some s \<Rightarrow> s \<noteq> [])"

definition orStr :: "string option \<Rightarrow> string \<Rightarrow> string" where
  "orStr x d = (case x of None \<Rightarrow> d | Some s \<Rightarrow> if s = [] then d else s)"

text \<open>\<open>Math.round\<close>: the nearest integer, a half rounds up.\<close>

definition Math_round :: "rat \<Rightarrow> rat" where
  "Math_round x = of_int \<lfloor>x + 1 / 2\<rfloor>"

definition InvoiceStatus_str :: "InvoiceStatus \<Rightarrow> string" where
  "InvoiceStatus_str s = (case s of draft \<Rightarrow> ''draft'' | sent \<Rightarrow> ''sent'' | paid \<Rightarrow> ''paid''
     | overdue \<Rightarrow> ''overdue'' | partial \<Rightarrow> ''partial'')"

definition TransactionType_str :: "TransactionType \<Rightarrow> string" where
  "TransactionType_str t = (case t of credit \<Rightarrow> ''credit'' | debit \<Rightarrow> ''debit'')"

definition UserRole_str :: "UserRole \<Rightarrow> string" where
  "UserRole_str r = (case r of Admin \<Rightarrow> ''Admin'' | Finance_Manager \<Rightarrow> ''Finance Manager''
     | Accountant \<Rightarrow> ''Accountant'' | Operations_Manager \<Rightarrow> ''Operations Manager''
     | Viewer \<Rightarrow> ''Viewer'')"

definition ExpenseCategory_str :: "ExpenseCategory \<Rightarrow> string" where
  "ExpenseCategory_str c = (case c of Fuel \<Rightarrow> ''Fuel'' | Maintenance \<Rightarrow> ''Maintenance''
     | Insurance \<Rightarrow> ''Insurance'' | Toll \<Rightarrow> ''Toll'' | Freight \<Rightarrow> ''Freight''
     | Driver \<Rightarrow> ''Driver'' | EMI \<Rightarrow> ''EMI'')"

text \<open>The rupee sign, as its three bytes in UTF-8.\<close>

definition rupee :: string where
  "rupee = [CHR 0xE2, CHR 0x82, CHR 0xB9]"

section \<open>The audit log builder (App.tsx, createLog)\<close>

definition createLog ::
  "Platform \<Rightarrow> Env \<Rightarrow> AppState \<Rightarrow> string \<Rightarrow> EntityType \<Rightarrow> string \<Rightarrow> string \<Rightarrow>
   string option \<Rightarrow> string option \<Rightarrow> AuditLog" where
  "createLog P e state actionType entityType entityId details oldVal newVal =
     \<lparr> id_log = ''log_'' @ dateNowStr P e @ ''_'' @ numStr P (random e),
       timestamp_log = toISOString P (now e),
       userId_log = id_usr (currentUser state),
       userName_log = name_usr (currentUser state),
       userRole_log = role_usr (currentUser state),
       action_log = actionType,
       entityId_log = entityId,
       entityType_log = entityType,
       details_log = details,
       oldValue_log = oldVal,
       newValue_log = newVal \<rparr>"

definition notif :: "Platform \<Rightarrow> Env \<Rightarrow> string \<Rightarrow> NotificationType \<Rightarrow> string \<Rightarrow> Notification" where
  "notif P e pre t msg = \<lparr> id_ntf = pre @ dateNowStr P e, message_ntf = msg, type_ntf = t \<rparr>"

section \<open>The reducer (App.tsx, appReducer)\<close>

subsection \<open>SET_DATA, SWITCH_USER, ADD_INVOICE, DELETE_INVOICE\<close>

definition orElse :: "'a option \<Rightarrow> 'a \<Rightarrow> 'a" where
  "orElse x d = (case x of None \<Rightarrow> d | Some v \<Rightarrow> v)"

definition set_data :: "AppState \<Rightarrow> PartialAppState \<Rightarrow> AppState" where
  "set_data state p =
     \<lparr> currentUser = orElse (currentUser_p p) (currentUser state),
       customers = orElse (customers_p p) (customers state),
       invoices = orElse (invoices_p p) (invoices state),
       bookings = orElse (bookings_p p) (bookings state),
       vehicles = orElse (vehicles_p p) (vehicles state),
       expenses = orElse (expenses_p p) (expenses state),
       transactions = orElse (transactions_p p) (transactions state),
       shipments = orElse (shipments_p p) (shipments state),
       vendors = orElse (vendors_p p) (vendors state),
       bankAccounts = orElse (bankAccounts_p p) (bankAccounts state),
       bankFeed = orElse (bankFeed_p p) (bankFeed state),
       users = orElse (users_p p) (users state),
       userProfile = orElse (userProfile_p p) (userProfile state),
       notifications = orElse (notifications_p p) (notifications state),
       auditLogs = orElse (auditLogs_p p) (auditLogs state),
       isLoading = orElse (isLoading_p p) (isLoading state),
       searchQuery = orElse (searchQuery_p p) (searchQuery state) \<rparr>"

definition switch_user :: "Platform \<Rightarrow> Env \<Rightarrow> AppState \<Rightarrow> UserRole \<Rightarrow> AppState" where
  "switch_user P e state targetRole =
     (let newUser =
        (if targetRole = Admin then
           \<lparr> id_usr = ''u1'', name_usr = ''John Smith'', email_usr = ''john@opt.com'',
             role_usr = Admin, status_usr = Active \<rparr>
         else if targetRole = Finance_Manager then
           \<lparr> id_usr = ''u2'', name_usr = ''Sarah Connor'', email_usr = ''sarah@opt.com'',
             role_usr = Finance_Manager, status_usr = Active \<rparr>
         else if targetRole = Accountant then
           \<lparr> id_usr = ''u4'', name_usr = ''Gary Green'', email_usr = ''gary@opt.com'',
             role_usr = Accountant, status_usr = Active \<rparr>
         else
           \<lparr> id_usr = ''u5'', name_usr = ''Mike Ops'', email_usr = ''mike@opt.com'',
             role_usr = Operations_Manager, status_usr = Active \<rparr>)
      in state\<lparr> currentUser := newUser,
           notifications := notifications state @
             [notif P e ''n_'' info (''Switched role to '' @ UserRole_str targetRole)] \<rparr>)"

definition add_invoice :: "Platform \<Rightarrow> Env \<Rightarrow> AppState \<Rightarrow> Invoice \<Rightarrow> AppState" where
  "add_invoice P e state payload =
     (let log = createLog P e state ''Create'' Invoice_entity (invoiceNumber_inv payload)
                  (''Created invoice for '' @ formatINR P (amount_inv payload)) None None
      in state\<lparr> invoices := payload # invoices state,
           auditLogs := log # auditLogs state \<rparr>)"

definition delete_invoice :: "Platform \<Rightarrow> Env \<Rightarrow> AppState \<Rightarrow> string \<Rightarrow> AppState" where
  "delete_invoice P e state payload =
     (if role_usr (currentUser state) = Accountant then
        state\<lparr> notifications := notifications state @
          [notif P e ''n_'' error ''Access Denied: Accountants cannot delete records.''] \<rparr>
      else
        let invToDelete = find (\<lambda>i. id_inv i = payload) (invoices state);
            log = createLog P e state ''Delete'' Invoice_entity
                    (orStr (map_option invoiceNumber_inv invToDelete) payload)
                    ''Deleted Invoice Record'' None None
        in state\<lparr> invoices := filter (\<lambda>i. id_inv i \<noteq> payload) (invoices state),
             auditLogs := log # auditLogs state,
             notifications := notifications state @
               [notif P e ''n_'' success ''Invoice deleted.''] \<rparr>)"

subsection \<open>ADD_EXPENSE, APPROVE_EXPENSE, MATCH_BANK_TRANSACTION, UPDATE_PROFILE,
  UPDATE_INVOICE_STATUS\<close>

definition add_expense :: "Platform \<Rightarrow> Env \<Rightarrow> AppState \<Rightarrow> Expense \<Rightarrow> AppState" where
  "add_expense P e state payload =
     (let threshold = 50000;
          isHighValue = (amount_exp payload > threshold);
          newExpense = payload\<lparr> status_exp := (if isHighValue then pending_approval else approved) \<rparr>;
          log = createLog P e state ''Create'' Expense_entity (id_exp newExpense)
                  (''Recorded expense '' @ rupee @ numStr P (amount_exp newExpense) @ '' ('' @
                   ExpenseCategory_str (category_exp newExpense) @ '')'')
                  None (Some (if isHighValue then ''Pending'' else ''Approved''));
          notifs = notifications state @
            [if isHighValue
             then notif P e ''n_'' warning (''Expense > '' @ rupee @ ''50k requires approval.'')
             else notif P e ''n_'' success ''Expense recorded successfully.'']
      in state\<lparr> expenses := newExpense # expenses state,
           auditLogs := log # auditLogs state,
           notifications := notifs \<rparr>)"

definition approve_expense :: "Platform \<Rightarrow> Env \<Rightarrow> AppState \<Rightarrow> string \<Rightarrow> AppState" where
  "approve_expense P e state payload =
     (case find (\<lambda>x. id_exp x = payload) (expenses state) of
        None \<Rightarrow> state
      | Some expense \<Rightarrow>
          let log = createLog P e state ''Approve'' Expense_entity (id_exp expense)
                      ''Approved high-value expense'' (Some ''pending_approval'') (Some ''approved'')
          in state\<lparr> expenses := map (\<lambda>x. if id_exp x = payload then x\<lparr> status_exp := approved \<rparr> else x)
                                  (expenses state),
               auditLogs := log # auditLogs state,
               notifications := notifications state @
                 [notif P e ''n_'' success ''Expense Approved.''] \<rparr>)"

definition match_bank_transaction :: "AppState \<Rightarrow> string \<Rightarrow> AppState" where
  "match_bank_transaction state payload =
     state\<lparr> bankFeed := map (\<lambda>t. if id_btx t = payload then t\<lparr> status_btx := matched \<rparr> else t)
                            (bankFeed state) \<rparr>"

definition update_profile :: "AppState \<Rightarrow> PartialUserProfile \<Rightarrow> AppState" where
  "update_profile state p =
     state\<lparr> userProfile :=
       \<lparr> companyName_prof = orElse (companyName_pp p) (companyName_prof (userProfile state)),
         taxId_prof = orElse (taxId_pp p) (taxId_prof (userProfile state)),
         address_prof = orElse (address_pp p) (address_prof (userProfile state)),
         logoUrl_prof = orElse (logoUrl_pp p) (logoUrl_prof (userProfile state)) \<rparr> \<rparr>"

definition update_invoice_status ::
  "Platform \<Rightarrow> Env \<Rightarrow> AppState \<Rightarrow> string \<Rightarrow> InvoiceStatus \<Rightarrow> AppState" where
  "update_invoice_status P e state pid pstatus =
     (let targetInv = find (\<lambda>i. id_inv i = pid) (invoices state);
          log = createLog P e state ''Update'' Invoice_entity
                  (orStr (map_option invoiceNumber_inv targetInv) [])
                  ''Status Change''
                  (map_option (\<lambda>i. InvoiceStatus_str (status_inv i)) targetInv)
                  (Some (InvoiceStatus_str pstatus))
      in state\<lparr> invoices := map (\<lambda>i. if id_inv i = pid then i\<lparr> status_inv := pstatus \<rparr> else i)
                              (invoices state),
           auditLogs := log # auditLogs state \<rparr>)"

subsection \<open>RECORD_PAYMENT\<close>

definition isNonCashAdjustment :: "string \<Rightarrow> bool" where
  "isNonCashAdjustment category =
     (category \<in> set [''TDS'', ''Discount'', ''Adjustment'', ''Credit note''])"

text \<open>
  \<open>Math.round((amount / 0.98) * 0.02)\<close> as RECORD_PAYMENT computes it: the literals are the
  doubles nearest to 0.98 and 0.02, the quotient and the product are rounded, and
  \<open>Math.round\<close> of a double is exact.
\<close>

definition tdsAmount :: "rat \<Rightarrow> rat" where
  "tdsAmount amount = Math_round (fmul (fdiv amount (toDouble 0.98)) (toDouble 0.02))"

definition autoTdsOn :: "PaymentPayload \<Rightarrow> bool" where
  "autoTdsOn p = (autoTds_pay p = Some True)"

definition mainDescription :: "Invoice \<Rightarrow> PaymentPayload \<Rightarrow> string" where
  "mainDescription invoice p =
     (if autoTdsOn p \<and> (category_pay p = ''Full payment'' \<or> category_pay p = ''Partial payment'')
      then ''Bank Receipt - '' @ invoiceNumber_inv invoice
      else category_pay p @ '' - '' @ invoiceNumber_inv invoice @ '' '' @
           (case debitNoteNo_pay p of
              None \<Rightarrow> []
            | Some dn \<Rightarrow> if dn = [] then [] else ''(DN: '' @ dn @ '')''))"

text \<open>Step 1 of the source: the main movement goes to the adjustments or to the paid amount
  (\<open>newPaid += amount\<close> and its three siblings, each one rounded operation).\<close>

definition mainPaid :: "Invoice \<Rightarrow> PaymentPayload \<Rightarrow> rat" where
  "mainPaid invoice p =
     (if isNonCashAdjustment (category_pay p) then or0 (paidAmount_inv invoice)
      else if type_pay p = credit then fadd (or0 (paidAmount_inv invoice)) (amount_pay p)
      else fsub (or0 (paidAmount_inv invoice)) (amount_pay p))"

definition mainAdjustments :: "Invoice \<Rightarrow> PaymentPayload \<Rightarrow> rat" where
  "mainAdjustments invoice p =
     (if isNonCashAdjustment (category_pay p) then
        (if type_pay p = credit then fadd (or0 (adjustments_inv invoice)) (amount_pay p)
         else fsub (or0 (adjustments_inv invoice)) (amount_pay p))
      else or0 (adjustments_inv invoice))"

definition mainTransaction :: "Platform \<Rightarrow> Env \<Rightarrow> Invoice \<Rightarrow> PaymentPayload \<Rightarrow> Transaction" where
  "mainTransaction P e invoice p =
     \<lparr> id_tx = ''tx_'' @ dateNowStr P e,
       customerId_tx = Some (customerId_inv invoice),
       vendorId_tx = None,
       vendorName_tx = None,
       date_tx = date_pay p,
       amount_tx = amount_pay p,
       type_tx = type_pay p,
       description_tx = mainDescription invoice p,
       referenceId_tx = Some (id_inv invoice),
       matched_tx = True,
       paymentMode_tx = None,
       referenceNo_tx = None,
       category_tx = None \<rparr>"

text \<open>Step 2 of the source: the automatic TDS entry.\<close>

definition tdsApplies :: "PaymentPayload \<Rightarrow> bool" where
  "tdsApplies p =
     (autoTdsOn p \<and> type_pay p = credit \<and> \<not> isNonCashAdjustment (category_pay p))"

definition tdsTransaction :: "Platform \<Rightarrow> Env \<Rightarrow> Invoice \<Rightarrow> PaymentPayload \<Rightarrow> Transaction" where
  "tdsTransaction P e invoice p =
     \<lparr> id_tx = ''tx_tds_'' @ dateNowStr P e @ ''_2'',
       customerId_tx = Some (customerId_inv invoice),
       vendorId_tx = None,
       vendorName_tx = None,
       date_tx = date_pay p,
       amount_tx = tdsAmount (amount_pay p),
       type_tx = credit,
       description_tx = ''TDS Deduction (2%) - '' @ invoiceNumber_inv invoice,
       referenceId_tx = Some (id_inv invoice),
       matched_tx = True,
       paymentMode_tx = None,
       referenceNo_tx = None,
       category_tx = None \<rparr>"

definition newAdjustments :: "Invoice \<Rightarrow> PaymentPayload \<Rightarrow> rat" where
  "newAdjustments invoice p =
     (if tdsApplies p then fadd (mainAdjustments invoice p) (tdsAmount (amount_pay p))
      else mainAdjustments invoice p)"

definition paymentTransactions ::
  "Platform \<Rightarrow> Env \<Rightarrow> Invoice \<Rightarrow> PaymentPayload \<Rightarrow> Transaction list" where
  "paymentTransactions P e invoice p =
     [mainTransaction P e invoice p] @
     (if tdsApplies p then [tdsTransaction P e invoice p] else [])"

text \<open>Step 3 of the source: balance and status. \<open>new Date() > new Date(invoice.dueDate)\<close>
  is false when the due date does not parse.\<close>

definition isOverdue :: "Platform \<Rightarrow> Env \<Rightarrow> Invoice \<Rightarrow> bool" where
  "isOverdue P e invoice =
     (case parseDate P (dueDate_inv invoice) of None \<Rightarrow> False | Some due \<Rightarrow> due < now e)"

definition paymentBalance :: "Invoice \<Rightarrow> PaymentPayload \<Rightarrow> rat" where
  "paymentBalance invoice p =
     (let totalCredits = fadd (mainPaid invoice p) (newAdjustments invoice p)
      in fsub (amount_inv invoice) totalCredits)"

definition newStatus :: "Platform \<Rightarrow> Env \<Rightarrow> Invoice \<Rightarrow> PaymentPayload \<Rightarrow> InvoiceStatus" where
  "newStatus P e invoice p =
     (let balance = paymentBalance invoice p in
      if balance \<le> 5 then paid
      else if balance < amount_inv invoice then sent
      else if isOverdue P e invoice then overdue else sent)"

definition record_payment :: "Platform \<Rightarrow> Env \<Rightarrow> AppState \<Rightarrow> PaymentPayload \<Rightarrow> AppState" where
  "record_payment P e state p =
     (case find (\<lambda>i. id_inv i = invoiceId_pay p) (invoices state) of
        None \<Rightarrow> state
      | Some invoice \<Rightarrow>
          let log = createLog P e state ''Record'' Payment_entity (invoiceNumber_inv invoice)
                      (''Recorded '' @ TransactionType_str (type_pay p) @ '' of '' @
                       formatINR P (amount_pay p) @ '' via '' @ category_pay p @ '' '' @
                       (if autoTdsOn p then ''(+TDS)'' else []))
                      (Some (InvoiceStatus_str (status_inv invoice)))
                      (Some (InvoiceStatus_str (newStatus P e invoice p)))
          in state\<lparr> invoices :=
                 map (\<lambda>i. if id_inv i = id_inv invoice
                          then i\<lparr> paidAmount_inv := Some (mainPaid invoice p),
                                 adjustments_inv := Some (newAdjustments invoice p),
                                 status_inv := newStatus P e invoice p \<rparr>
                          else i) (invoices state),
               transactions := paymentTransactions P e invoice p @ transactions state,
               notifications := notifications state @
                 [notif P e ''notif_'' success ''Payment recorded successfully.''],
               auditLogs := log # auditLogs state \<rparr>)"

subsection \<open>RECORD_VENDOR_PAYMENT\<close>

text \<open>
  The source copies the array of vendors (\<open>[...state.vendors]\<close>) and, for each id of the
  payload, assigns to the fields of the first vendor object with that id. On values this
  is the replacement of that element of the list; the objects themselves, which the
  input state shares, are the subject of the section on the object store below.
\<close>

fun update_first :: "('a \<Rightarrow> bool) \<Rightarrow> ('a \<Rightarrow> 'a) \<Rightarrow> 'a list \<Rightarrow> 'a list" where
  "update_first pr f [] = []"
| "update_first pr f (x # xs) = (if pr x then f x # xs else x # update_first pr f xs)"

text \<open>\<open>Math.round((amount / 0.98) * 0.02)\<close> on the rationals.\<close>

definition tdsOf :: "rat \<Rightarrow> rat" where
  "tdsOf amount = Math_round ((amount / 0.98) * 0.02)"

definition vendorTds :: "VendorPaymentPayload \<Rightarrow> rat" where
  "vendorTds p = (if autoTds_vpay p then tdsOf (amount_vpay p) else 0)"

definition vendorMainDesc :: "VendorPaymentPayload \<Rightarrow> string" where
  "vendorMainDesc p =
     (if autoTds_vpay p then
        ''Bank Payment - '' @ reference_vpay p @ '' '' @
        (case bookingId_vpay p of
           None \<Rightarrow> []
         | Some b \<Rightarrow> if b = [] then [] else ''(Trip: '' @ b @ '')'')
      else
        category_vpay p @ '' - '' @ reference_vpay p @
        (case bookingId_vpay p of
           None \<Rightarrow> []
         | Some b \<Rightarrow> if b = [] then [] else '' (Trip: '' @ b @ '')''))"

definition vendorMainTransaction ::
  "Platform \<Rightarrow> Env \<Rightarrow> VendorPaymentPayload \<Rightarrow> Vendor \<Rightarrow> string \<Rightarrow> Transaction" where
  "vendorMainTransaction P e p vendor vid =
     \<lparr> id_tx = ''vtx_'' @ dateNowStr P e @ ''_'' @ vid,
       customerId_tx = None,
       vendorId_tx = Some vid,
       vendorName_tx = Some (name_vnd vendor),
       date_tx = date_vpay p,
       amount_tx = amount_vpay p,
       type_tx = credit,
       description_tx = vendorMainDesc p,
       referenceId_tx = bookingId_vpay p,
       matched_tx = True,
       paymentMode_tx = None,
       referenceNo_tx = Some (reference_vpay p),
       category_tx = Some (category_vpay p) \<rparr>"

definition vendorTdsTransaction ::
  "Platform \<Rightarrow> Env \<Rightarrow> VendorPaymentPayload \<Rightarrow> Vendor \<Rightarrow> string \<Rightarrow> Transaction" where
  "vendorTdsTransaction P e p vendor vid =
     \<lparr> id_tx = ''vtx_tds_'' @ dateNowStr P e @ ''_'' @ vid,
       customerId_tx = None,
       vendorId_tx = Some vid,
       vendorName_tx = Some (name_vnd vendor),
       date_tx = date_vpay p,
       amount_tx = vendorTds p,
       type_tx = credit,
       description_tx = ''TDS (2%) on Payment '' @ reference_vpay p,
       referenceId_tx = bookingId_vpay p,
       matched_tx = True,
       paymentMode_tx = None,
       referenceNo_tx = None,
       category_tx = Some ''TDS'' \<rparr>"

definition payVendor :: "Platform \<Rightarrow> Env \<Rightarrow> VendorPaymentPayload \<Rightarrow> Vendor \<Rightarrow> Vendor" where
  "payVendor P e p vendor =
     vendor\<lparr> balance_vnd := max 0 (balance_vnd vendor - (amount_vpay p + vendorTds p)),
             lastActivity_vnd := Some (toISOString P (now e)) \<rparr>"

text \<open>The body of \<open>vendorIds.forEach\<close>, on the pair of the updated vendors and the new
  transactions.\<close>

definition vendorStep ::
  "Platform \<Rightarrow> Env \<Rightarrow> VendorPaymentPayload \<Rightarrow> Vendor list \<times> Transaction list \<Rightarrow> string \<Rightarrow>
   Vendor list \<times> Transaction list" where
  "vendorStep P e p acc vid =
     (case find (\<lambda>v. id_vnd v = vid) (fst acc) of
        None \<Rightarrow> acc
      | Some vendor \<Rightarrow>
          (update_first (\<lambda>v. id_vnd v = vid) (payVendor P e p) (fst acc),
           snd acc @ [vendorMainTransaction P e p vendor vid] @
           (if autoTds_vpay p \<and> vendorTds p > 0 then [vendorTdsTransaction P e p vendor vid]
            else [])))"

definition record_vendor_payment ::
  "Platform \<Rightarrow> Env \<Rightarrow> AppState \<Rightarrow> VendorPaymentPayload \<Rightarrow> AppState" where
  "record_vendor_payment P e state p =
     (let done = foldl (vendorStep P e p) (vendors state, []) (vendorIds_vpay p);
          log = createLog P e state ''Record'' Payment_entity
                  (numStr P (of_nat (length (vendorIds_vpay p))) @ '' Vendor(s)'')
                  (''Recorded '' @ category_vpay p @ '' of '' @ formatINR P (amount_vpay p) @
                   '' '' @ (if autoTds_vpay p then ''(+TDS)'' else []))
                  None None
      in state\<lparr> vendors := fst done,
           transactions := snd done @ transactions state,
           notifications := notifications state @
             [notif P e ''n_'' success ''Vendor payment recorded.''],
           auditLogs := log # auditLogs state \<rparr>)"

subsection \<open>COMPLETE_TRIP\<close>

text \<open>\<open>new Date().toISOString().split('T')[0]\<close>: the text before the first \<open>T\<close>.\<close>

definition isoDate :: "Platform \<Rightarrow> Env \<Rightarrow> string" where
  "isoDate P e = takeWhile (\<lambda>c. c \<noteq> CHR ''T'') (toISOString P (now e))"

definition freightExpense :: "Platform \<Rightarrow> Env \<Rightarrow> Booking \<Rightarrow> Expense" where
  "freightExpense P e booking =
     \<lparr> id_exp = ''exp_auto_'' @ dateNowStr P e,
       vehicleId_exp = vehicleId_bk booking,
       category_exp = Freight,
       amount_exp = expense_bk booking,
       date_exp = isoDate P e,
       vendor_exp = orStr (vendorName_bk booking) ''Unknown'',
       vendorId_exp = vendorId_bk booking,
       bookingId_exp = Some (id_bk booking),
       costPerKm_exp = None,
       receiptUrl_exp = None,
       status_exp = approved,
       entryType_exp = Some Auto,
       odometer_exp = None \<rparr>"

definition isFreightOf :: "string \<Rightarrow> Expense \<Rightarrow> bool" where
  "isFreightOf bookingId x = (bookingId_exp x = Some bookingId \<and> category_exp x = Freight)"

definition postToVendor :: "Platform \<Rightarrow> Env \<Rightarrow> Booking \<Rightarrow> Vendor \<Rightarrow> Vendor" where
  "postToVendor P e booking v =
     (if Some (id_vnd v) = vendorId_bk booking
      then v\<lparr> balance_vnd := balance_vnd v + expense_bk booking,
              lastActivity_vnd := Some (toISOString P (now e)) \<rparr>
      else v)"

definition complete_trip :: "Platform \<Rightarrow> Env \<Rightarrow> AppState \<Rightarrow> string \<Rightarrow> AppState" where
  "complete_trip P e state bookingId =
     (case find (\<lambda>b. id_bk b = bookingId) (bookings state) of
        None \<Rightarrow> state
      | Some booking \<Rightarrow>
          if \<not> truthy (vendorId_bk booking) then
            state\<lparr> notifications := notifications state @
              [notif P e ''n_'' error (''Trip '' @ bookingId @ '' has no vendor assigned.'')] \<rparr>
          else
            (case find (isFreightOf bookingId) (expenses state) of
               Some existingExpense \<Rightarrow>
                 state\<lparr> notifications := notifications state @
                   [notif P e ''n_'' warning (''Trip '' @ bookingId @ '' already posted to ledger.'')] \<rparr>
             | None \<Rightarrow>
                 let newExpense = freightExpense P e booking;
                     updatedVendors = map (postToVendor P e booking) (vendors state);
                     log = createLog P e state ''Post'' Expense_entity bookingId
                             (''Auto-posted freight charge of '' @ formatINR P (expense_bk booking))
                             (Some ''Pending'') (Some ''Posted'')
                 in state\<lparr> vendors := updatedVendors,
                      expenses := expenses state @ [newExpense],
                      auditLogs := log # auditLogs state,
                      notifications := notifications state @
                        [notif P e ''n_'' success
                           (''Trip '' @ bookingId @ '' posted to Vendor Ledger.'')] \<rparr>))"

subsection \<open>SEND_REMINDERS, MARK_BOOKINGS_INVOICED, ADD_NOTIFICATION, REMOVE_NOTIFICATION\<close>

definition remind :: "Platform \<Rightarrow> Env \<Rightarrow> Invoice \<Rightarrow> Invoice" where
  "remind P e i =
     (let currentNotes = orStr (notes_inv i) [];
          newNote = ''Reminder Sent: '' @ toLocaleDateString P (now e) @ '' '' @
                    toLocaleTimeString P (now e)
      in i\<lparr> lastReminderSent_inv := Some (toISOString P (now e)),
            notes_inv := Some (if currentNotes \<noteq> [] then currentNotes @ [CHR 0x0A] @ newNote
                               else newNote) \<rparr>)"

definition send_reminders :: "Platform \<Rightarrow> Env \<Rightarrow> AppState \<Rightarrow> string list \<Rightarrow> AppState" where
  "send_reminders P e state payload =
     (let ids = set payload;
          timestamp = toISOString P (now e);
          count = length (remdups payload)
      in if count = 0 then state
         else
           let log = createLog P e state ''Communicate'' Invoice_entity
                       (numStr P (of_nat count) @ '' items'') ''Sent bulk reminders''
                       None (Some timestamp)
           in state\<lparr> invoices := map (\<lambda>i. if id_inv i \<in> ids then remind P e i else i)
                                   (invoices state),
                auditLogs := log # auditLogs state,
                notifications := notifications state @
                  [notif P e ''notif_'' success
                     (''Reminders sent to '' @ numStr P (of_nat count) @ '' customers.'')] \<rparr>)"

definition mark_bookings_invoiced :: "AppState \<Rightarrow> string list \<Rightarrow> AppState" where
  "mark_bookings_invoiced state payload =
     state\<lparr> bookings := map (\<lambda>b. if id_bk b \<in> set payload then b\<lparr> status_bk := invoiced \<rparr> else b)
                            (bookings state) \<rparr>"

definition add_notification :: "Platform \<Rightarrow> Env \<Rightarrow> AppState \<Rightarrow> NotificationPayload \<Rightarrow> AppState" where
  "add_notification P e state payload =
     state\<lparr> notifications := notifications state @
       [notif P e ''notif_'' (type_np payload) (message_np payload)] \<rparr>"

definition remove_notification :: "AppState \<Rightarrow> string \<Rightarrow> AppState" where
  "remove_notification state payload =
     state\<lparr> notifications := filter (\<lambda>n. id_ntf n \<noteq> payload) (notifications state) \<rparr>"

subsection \<open>The switch on the action type\<close>

fun appReducer :: "Platform \<Rightarrow> Env \<Rightarrow> AppState \<Rightarrow> Action \<Rightarrow> AppState" where
  "appReducer P e state (SET_LOADING payload) = state\<lparr> isLoading := payload \<rparr>"
| "appReducer P e state (SET_DATA payload) = set_data state payload"
| "appReducer P e state (SET_SEARCH_QUERY payload) = state\<lparr> searchQuery := payload \<rparr>"
| "appReducer P e state (SWITCH_USER payload) = switch_user P e state payload"
| "appReducer P e state (ADD_INVOICE payload) = add_invoice P e state payload"
| "appReducer P e state (DELETE_INVOICE payload) = delete_invoice P e state payload"
| "appReducer P e state (ADD_EXPENSE payload) = add_expense P e state payload"
| "appReducer P e state (APPROVE_EXPENSE payload) = approve_expense P e state payload"
| "appReducer P e state (MATCH_BANK_TRANSACTION payload) = match_bank_transaction state payload"
| "appReducer P e state (UPDATE_PROFILE payload) = update_profile state payload"
| "appReducer P e state (RECORD_PAYMENT payload) = record_payment P e state payload"
| "appReducer P e state (RECORD_VENDOR_PAYMENT payload) = record_vendor_payment P e state payload"
| "appReducer P e state (COMPLETE_TRIP bookingId) = complete_trip P e state bookingId"
| "appReducer P e state (UPDATE_INVOICE_STATUS pid pstatus) =
     update_invoice_status P e state pid pstatus"
| "appReducer P e state (SEND_REMINDERS payload) = send_reminders P e state payload"
| "appReducer P e state (MARK_BOOKINGS_INVOICED payload) = mark_bookings_invoiced state payload"
| "appReducer P e state (ADD_NOTIFICATION payload) = add_notification P e state payload"
| "appReducer P e state (REMOVE_NOTIFICATION payload) = remove_notification state payload"
| "appReducer P e state (OTHER_ACTION tag) = state"

text \<open>Dispatching a list of actions, each with the environment of its own call.\<close>

fun dispatchAll :: "Platform \<Rightarrow> AppState \<Rightarrow> (Env \<times> Action) list \<Rightarrow> AppState" where
  "dispatchAll P state [] = state"
| "dispatchAll P state (ea # rest) = dispatchAll P (appReducer P (fst ea) state (snd ea)) rest"

section \<open>The customer ledger (CustomerLedger.tsx, ledgerData)\<close>

datatype LedgerEntryType = Manual_entry | Auto_entry | Adjustment_entry

record LedgerEntry =
  id_le :: string
  date_le :: string
  invoiceId_le :: "string option"
  invoiceNumber_le :: string
  customerId_le :: string
  customerName_le :: string
  entryType_le :: LedgerEntryType
  category_le :: string
  credit_le :: rat
  debit_le :: rat
  balance_le :: rat
  shortPayment_le :: "rat option"
  showShortPayment_le :: "bool option"
  isLinkedToPrevious_le :: "bool option"

text \<open>\<open>s.includes(q)\<close> and \<open>s.split(sep)[0]\<close> (for a separator that is not empty).\<close>

fun includesStr :: "string \<Rightarrow> string \<Rightarrow> bool" where
  "includesStr [] q = (q = [])"
| "includesStr (c # cs) q = (prefix q (c # cs) \<or> includesStr cs q)"

fun splitHead :: "string \<Rightarrow> string \<Rightarrow> string" where
  "splitHead sep [] = []"
| "splitHead sep (c # cs) = (if prefix sep (c # cs) then [] else c # splitHead sep cs)"

definition invoiceEntry :: "Invoice \<Rightarrow> LedgerEntry" where
  "invoiceEntry invoice =
     \<lparr> id_le = ''led_inv_'' @ id_inv invoice,
       date_le = date_inv invoice,
       invoiceId_le = Some (id_inv invoice),
       invoiceNumber_le = invoiceNumber_inv invoice,
       customerId_le = customerId_inv invoice,
       customerName_le = customerName_inv invoice,
       entryType_le = Auto_entry,
       category_le = ''Invoice'',
       credit_le = 0,
       debit_le = amount_inv invoice,
       balance_le = 0,
       shortPayment_le = Some 0,
       showShortPayment_le = None,
       isLinkedToPrevious_le = None \<rparr>"

definition isAdjustment :: "string \<Rightarrow> bool" where
  "isAdjustment categoryName =
     (categoryName \<in> set [''TDS'', ''Discount'', ''Adjustment'', ''Credit note''])"

definition shortPaymentOf :: "Invoice option \<Rightarrow> Transaction \<Rightarrow> rat" where
  "shortPaymentOf linkedInv t =
     (case linkedInv of
        None \<Rightarrow> 0
      | Some invoice \<Rightarrow>
          if type_tx t = credit \<or> isAdjustment (splitHead '' - '' (description_tx t)) then
            (let totalCredits = or0 (paidAmount_inv invoice) + or0 (adjustments_inv invoice);
                 currentBalance = amount_inv invoice - totalCredits
             in if currentBalance > 1 then currentBalance else 0)
          else 0)"

text \<open>The source reads \<open>t.customerId!\<close>; the rows come from transactions whose
  \<open>customerId\<close> is a string that is not empty.\<close>

definition transactionEntry :: "AppState \<Rightarrow> Transaction \<Rightarrow> LedgerEntry" where
  "transactionEntry state t =
     (let linkedInv = find (\<lambda>i. Some (id_inv i) = referenceId_tx t) (invoices state);
          categoryName = splitHead '' - '' (description_tx t)
      in \<lparr> id_le = ''led_tx_'' @ id_tx t,
           date_le = date_tx t,
           invoiceId_le = map_option id_inv linkedInv,
           invoiceNumber_le = orStr (map_option invoiceNumber_inv linkedInv) ''-'',
           customerId_le = (case customerId_tx t of None \<Rightarrow> [] | Some c \<Rightarrow> c),
           customerName_le = orStr (map_option customerName_inv linkedInv) ''Unknown'',
           entryType_le = (if isAdjustment categoryName then Adjustment_entry else Manual_entry),
           category_le = description_tx t,
           credit_le = (if type_tx t = credit then amount_tx t else 0),
           debit_le = (if type_tx t = debit then amount_tx t else 0),
           balance_le = 0,
           shortPayment_le = Some (shortPaymentOf linkedInv t),
           showShortPayment_le = None,
           isLinkedToPrevious_le = Some (includesStr categoryName ''TDS'') \<rparr>)"

definition invoiceEntries :: "AppState \<Rightarrow> string \<Rightarrow> LedgerEntry list" where
  "invoiceEntries state selectedCustomerId =
     map invoiceEntry
       (if selectedCustomerId = ''all'' then invoices state
        else filter (\<lambda>i. customerId_inv i = selectedCustomerId) (invoices state))"

definition transactionEntries :: "AppState \<Rightarrow> string \<Rightarrow> LedgerEntry list" where
  "transactionEntries state selectedCustomerId =
     map (transactionEntry state)
       (filter (\<lambda>t. truthy (customerId_tx t))
          (if selectedCustomerId = ''all'' then transactions state
           else filter (\<lambda>t. customerId_tx t = Some selectedCustomerId) (transactions state)))"

text \<open>
  The comparator of \<open>allEntries.sort\<close>. A date that does not parse makes the difference
  of the times \<open>NaN\<close>, which the comparator returns and \<open>sort\<close> reads as zero.
\<close>

definition ledgerCompare :: "Platform \<Rightarrow> LedgerEntry \<Rightarrow> LedgerEntry \<Rightarrow> int" where
  "ledgerCompare P a b =
     (case (parseDate P (date_le a), parseDate P (date_le b)) of
        (Some ta, Some tb) \<Rightarrow>
          (let dateDiff = ta - tb in
           if dateDiff \<noteq> 0 then dateDiff
           else if category_le a = ''Invoice'' \<and> category_le b \<noteq> ''Invoice'' then - 1
           else if category_le a \<noteq> ''Invoice'' \<and> category_le b = ''Invoice'' then 1
           else 0)
      | _ \<Rightarrow> 0)"

text \<open>
  \<open>Array.prototype.sort\<close> is stable. On a comparator that orders its arguments
  consistently every stable sort returns the same array, the one a stable insertion sort
  builds: each element goes before the first element of the sorted rest that does not
  compare below it.
\<close>

fun insertBy :: "('a \<Rightarrow> 'a \<Rightarrow> int) \<Rightarrow> 'a \<Rightarrow> 'a list \<Rightarrow> 'a list" where
  "insertBy cmp x [] = [x]"
| "insertBy cmp x (y # ys) = (if cmp x y \<le> 0 then x # y # ys else y # insertBy cmp x ys)"

definition sortBy :: "('a \<Rightarrow> 'a \<Rightarrow> int) \<Rightarrow> 'a list \<Rightarrow> 'a list" where
  "sortBy cmp xs = foldr (insertBy cmp) xs []"

fun runningBalance :: "rat \<Rightarrow> LedgerEntry list \<Rightarrow> LedgerEntry list" where
  "runningBalance r [] = []"
| "runningBalance r (entry # rest) =
     entry\<lparr> balance_le := r + debit_le entry - credit_le entry \<rparr> #
     runningBalance (r + debit_le entry - credit_le entry) rest"

definition matchesSearch :: "Platform \<Rightarrow> string \<Rightarrow> string \<Rightarrow> LedgerEntry \<Rightarrow> bool" where
  "matchesSearch P selectedCustomerId localSearch entry =
     (let q = toLowerCase P localSearch in
      includesStr (toLowerCase P (invoiceNumber_le entry)) q \<or>
      includesStr (toLowerCase P (category_le entry)) q \<or>
      (selectedCustomerId = ''all'' \<and> includesStr (toLowerCase P (customerName_le entry)) q))"

text \<open>The post-process over the reversed rows, with the set \<open>seenInvoices\<close>.\<close>

fun flagShortPayment :: "string set \<Rightarrow> LedgerEntry list \<Rightarrow> LedgerEntry list" where
  "flagShortPayment seenInvoices [] = []"
| "flagShortPayment seenInvoices (entry # rest) =
     (case invoiceId_le entry of
        None \<Rightarrow> entry\<lparr> showShortPayment_le := Some False \<rparr> # flagShortPayment seenInvoices rest
      | Some iid \<Rightarrow>
          if iid = [] then
            entry\<lparr> showShortPayment_le := Some False \<rparr> # flagShortPayment seenInvoices rest
          else if iid \<notin> seenInvoices then
            entry\<lparr> showShortPayment_le := Some (category_le entry \<noteq> ''Invoice'') \<rparr> #
            flagShortPayment (insert iid seenInvoices) rest
          else
            entry\<lparr> showShortPayment_le := Some False \<rparr> # flagShortPayment seenInvoices rest)"

text \<open>The rows in ascending order with their running balance, before the search filter.\<close>

definition ledgerAscending :: "Platform \<Rightarrow> AppState \<Rightarrow> string \<Rightarrow> LedgerEntry list" where
  "ledgerAscending P state selectedCustomerId =
     runningBalance 0
       (sortBy (ledgerCompare P)
          (invoiceEntries state selectedCustomerId @ transactionEntries state selectedCustomerId))"

definition ledgerData :: "Platform \<Rightarrow> AppState \<Rightarrow> string \<Rightarrow> string \<Rightarrow> LedgerEntry list" where
  "ledgerData P state selectedCustomerId localSearch =
     (let allEntries = ledgerAscending P state selectedCustomerId;
          searched = (if localSearch \<noteq> []
                      then filter (matchesSearch P selectedCustomerId localSearch) allEntries
                      else allEntries);
          reversed = rev searched
      in flagShortPayment {} reversed)"

text \<open>
  The order that the comparator decides, as a key, for rows whose dates parse: twice the
  time, plus one for a row whose category is not "Invoice". It serves the proofs.
\<close>

definition ledgerKey :: "Platform \<Rightarrow> LedgerEntry \<Rightarrow> int" where
  "ledgerKey P entry =
     2 * (case parseDate P (date_le entry) of None \<Rightarrow> 0 | Some t \<Rightarrow> t) +
     (if category_le entry = ''Invoice'' then 0 else 1)"

section \<open>RECORD_VENDOR_PAYMENT on the object store\<close>

text \<open>
  In the source the array \<open>state.vendors\<close> holds references to vendor objects.
  \<open>[...state.vendors]\<close> is a new array of the same references, and
  \<open>vendor.balance = ...\<close> writes to the object that \<open>find\<close> returned. Here a store
  maps a reference to its object, \<open>refs\<close> is the array of the state (and of its copy),
  and the loop returns the store after its writes. \<open>deref\<close> reads an array of
  references in a store.
\<close>

type_synonym vendorStore = "nat \<Rightarrow> Vendor option"

definition deref :: "vendorStore \<Rightarrow> nat list \<Rightarrow> Vendor list" where
  "deref h refs = List.map_filter h refs"

definition findRef :: "vendorStore \<Rightarrow> nat list \<Rightarrow> string \<Rightarrow> nat option" where
  "findRef h refs vid =
     find (\<lambda>r. case h r of None \<Rightarrow> False | Some v \<Rightarrow> id_vnd v = vid) refs"

definition vendorStepStore ::
  "Platform \<Rightarrow> Env \<Rightarrow> VendorPaymentPayload \<Rightarrow> nat list \<Rightarrow> vendorStore \<times> Transaction list \<Rightarrow>
   string \<Rightarrow> vendorStore \<times> Transaction list" where
  "vendorStepStore P e p refs acc vid =
     (case findRef (fst acc) refs vid of
        None \<Rightarrow> acc
      | Some r \<Rightarrow>
          (case fst acc r of
             None \<Rightarrow> acc
           | Some vendor \<Rightarrow>
               ((fst acc)(r \<mapsto> payVendor P e p vendor),
                snd acc @ [vendorMainTransaction P e p vendor vid] @
                (if autoTds_vpay p \<and> vendorTds p > 0 then [vendorTdsTransaction P e p vendor vid]
                 else []))))"

definition vendorLoopStore ::
  "Platform \<Rightarrow> Env \<Rightarrow> VendorPaymentPayload \<Rightarrow> nat list \<Rightarrow> vendorStore \<Rightarrow>
   vendorStore \<times> Transaction list" where
  "vendorLoopStore P e p refs h = foldl (vendorStepStore P e p refs) (h, []) (vendorIds_vpay p)"

text \<open>
  The whole branch on the store. The vendor array of the input state is \<open>refs\<close>, read
  in the store \<open>h\<close>; the other fields of the state are values. The result is the store
  after the writes of the loop, in which the input state still reads its vendors through
  \<open>refs\<close>, and the returned state, whose vendor array is the copy of \<open>refs\<close>.
\<close>

definition record_vendor_payment_store ::
  "Platform \<Rightarrow> Env \<Rightarrow> nat list \<Rightarrow> vendorStore \<Rightarrow> AppState \<Rightarrow> VendorPaymentPayload \<Rightarrow>
   vendorStore \<times> AppState" where
  "record_vendor_payment_store P e refs h state p =
     (let done = vendorLoopStore P e p refs h;
          log = createLog P e state ''Record'' Payment_entity
                  (numStr P (of_nat (length (vendorIds_vpay p))) @ '' Vendor(s)'')
                  (''Recorded '' @ category_vpay p @ '' of '' @ formatINR P (amount_vpay p) @
                   '' '' @ (if autoTds_vpay p then ''(+TDS)'' else []))
                  None None
      in (fst done,
          state\<lparr> vendors := deref (fst done) refs,
            transactions := snd done @ transactions state,
            notifications := notifications state @
              [notif P e ''n_'' success ''Vendor payment recorded.''],
            auditLogs := log # auditLogs state \<rparr>))"

section \<open>Concrete data for evaluating the model\<close>

text \<open>
  A small platform: a number prints as the decimal digits of its integral part, four
  dates parse, and \<open>toLowerCase\<close> leaves a string as it is.
\<close>

definition digitChar :: "nat \<Rightarrow> char" where
  "digitChar d = (if d = 0 then CHR ''0'' else if d = 1 then CHR ''1'' else if d = 2 then CHR ''2''
     else if d = 3 then CHR ''3'' else if d = 4 then CHR ''4'' else if d = 5 then CHR ''5''
     else if d = 6 then CHR ''6'' else if d = 7 then CHR ''7'' else if d = 8 then CHR ''8''
     else CHR ''9'')"

fun showNat :: "nat \<Rightarrow> string" where
  "showNat n = (if n < 10 then [digitChar n] else showNat (n div 10) @ [digitChar (n mod 10)])"

declare showNat.simps [simp del]

definition showInt :: "int \<Rightarrow> string" where
  "showInt i = (if i < 0 then ''-'' @ showNat (nat (- i)) else showNat (nat i))"

definition examplePlatform :: Platform where
  "examplePlatform =
     \<lparr> numStr = (\<lambda>r. showInt \<lfloor>r\<rfloor>),
       toLocaleStringINR = (\<lambda>r. ''Rs '' @ showInt \<lfloor>r\<rfloor>),
       toISOString = (\<lambda>t. ''2024-06-01T00:00:00.'' @ showInt (t mod 1000) @ ''Z''),
       parseDate = map_of [(''2024-05-01'', 1714521600000), (''2024-05-31'', 1717113600000),
                           (''2024-06-01'', 1717200000000), (''2024-06-30'', 1719705600000)],
       toLocaleDateString = (\<lambda>t. ''1/6/2024''),
       toLocaleTimeString = (\<lambda>t. ''12:00:00 am''),
       toLowerCase = (\<lambda>s. s) \<rparr>"

definition exampleEnv :: Env where
  "exampleEnv = \<lparr> now = 1717200000123, random = 1 / 4 \<rparr>"

definition laterEnv :: Env where
  "laterEnv = \<lparr> now = 1717200000124, random = 1 / 4 \<rparr>"

definition exampleUser :: SystemUser where
  "exampleUser = \<lparr> id_usr = ''u1'', name_usr = ''John Smith'', email_usr = ''john@opt.com'',
     role_usr = Admin, status_usr = Active \<rparr>"

definition accountantUser :: SystemUser where
  "accountantUser = \<lparr> id_usr = ''u4'', name_usr = ''Gary Green'', email_usr = ''gary@opt.com'',
     role_usr = Accountant, status_usr = Active \<rparr>"

definition exampleInvoice :: Invoice where
  "exampleInvoice =
     \<lparr> id_inv = ''inv_1'', customerId_inv = ''cus_1'', customerName_inv = ''Acme'',
       invoiceNumber_inv = ''INV-001'', status_inv = overdue, date_inv = ''2024-05-01'',
       dueDate_inv = ''2024-05-31'', amount_inv = 10000, paidAmount_inv = Some 0,
       adjustments_inv = Some 0, taxAmount_inv = None, discount_inv = None, lineItems_inv = [],
       lastReminderSent_inv = None, notes_inv = None \<rparr>"

definition emptyState :: AppState where
  "emptyState =
     \<lparr> currentUser = exampleUser, customers = [], invoices = [], bookings = [], vehicles = [],
       expenses = [], transactions = [], shipments = [], vendors = [], bankAccounts = [],
       bankFeed = [], users = [], userProfile = \<lparr> companyName_prof = [], taxId_prof = [],
       address_prof = [], logoUrl_prof = None \<rparr>, notifications = [], auditLogs = [],
       isLoading = False, searchQuery = [] \<rparr>"

definition invoiceState :: AppState where
  "invoiceState = emptyState\<lparr> invoices := [exampleInvoice] \<rparr>"

definition accountantState :: AppState where
  "accountantState = invoiceState\<lparr> currentUser := accountantUser \<rparr>"

definition fullPaymentTds :: PaymentPayload where
  "fullPaymentTds =
     \<lparr> invoiceId_pay = ''inv_1'', date_pay = ''2024-06-01'', reference_pay = ''UTR1'',
       amount_pay = 9800, type_pay = credit, category_pay = ''Full payment'',
       debitNoteNo_pay = None, autoTds_pay = Some True \<rparr>"

definition overPayment :: PaymentPayload where
  "overPayment =
     \<lparr> invoiceId_pay = ''inv_1'', date_pay = ''2024-06-01'', reference_pay = ''UTR2'',
       amount_pay = 12000, type_pay = credit, category_pay = ''Full payment'',
       debitNoteNo_pay = None, autoTds_pay = None \<rparr>"

text \<open>
  Amounts with paise. A decimal literal of the source is the double nearest to it:
  an invoice with 1000.10 received, and an advance of 980.20 with automatic TDS.
\<close>

definition centInvoice :: Invoice where
  "centInvoice = exampleInvoice\<lparr> paidAmount_inv := Some (toDouble 1000.10) \<rparr>"

definition centState :: AppState where
  "centState = emptyState\<lparr> invoices := [centInvoice] \<rparr>"

definition advanceTds :: PaymentPayload where
  "advanceTds =
     \<lparr> invoiceId_pay = ''inv_1'', date_pay = ''2024-06-01'', reference_pay = ''UTR4'',
       amount_pay = toDouble 980.20, type_pay = credit, category_pay = ''Advance payment'',
       debitNoteNo_pay = None, autoTds_pay = Some True \<rparr>"

text \<open>An invoice of 11281.28 with 1323.44 received, and a payment of 9952.84.\<close>

definition roundingInvoice :: Invoice where
  "roundingInvoice = exampleInvoice\<lparr> amount_inv := toDouble 11281.28,
     paidAmount_inv := Some (toDouble 1323.44) \<rparr>"

definition roundingState :: AppState where
  "roundingState = emptyState\<lparr> invoices := [roundingInvoice] \<rparr>"

definition roundingPayment :: PaymentPayload where
  "roundingPayment =
     \<lparr> invoiceId_pay = ''inv_1'', date_pay = ''2024-06-01'', reference_pay = ''UTR5'',
       amount_pay = toDouble 9952.84, type_pay = credit, category_pay = ''Partial payment'',
       debitNoteNo_pay = None, autoTds_pay = None \<rparr>"

text \<open>A debit of 500 (a reversal) on the example invoice, which is past due, on an invoice
  that is due on 30 June, and on an invoice whose due date does not parse.\<close>

definition reversal :: PaymentPayload where
  "reversal =
     \<lparr> invoiceId_pay = ''inv_1'', date_pay = ''2024-06-01'', reference_pay = ''UTR6'',
       amount_pay = 500, type_pay = debit, category_pay = ''Payment reversal'',
       debitNoteNo_pay = None, autoTds_pay = None \<rparr>"

definition notDueInvoice :: Invoice where
  "notDueInvoice = exampleInvoice\<lparr> dueDate_inv := ''2024-06-30'', status_inv := sent \<rparr>"

definition notDueState :: AppState where
  "notDueState = emptyState\<lparr> invoices := [notDueInvoice] \<rparr>"

definition undatedInvoice :: Invoice where
  "undatedInvoice = exampleInvoice\<lparr> dueDate_inv := [], status_inv := draft \<rparr>"

definition undatedState :: AppState where
  "undatedState = emptyState\<lparr> invoices := [undatedInvoice] \<rparr>"

definition exampleVendor :: Vendor where
  "exampleVendor =
     \<lparr> id_vnd = ''vnd_1'', name_vnd = ''Roadways'', code_vnd = None, taxId_vnd = None,
       lastActivity_vnd = None, rating_vnd = 4, category_vnd = ''Transporter'',
       balance_vnd = 5000, paymentTerms_vnd = 30 \<rparr>"

definition exampleBooking :: Booking where
  "exampleBooking =
     \<lparr> id_bk = ''BK-1'', customerId_bk = ''cus_1'', customerName_bk = ''Acme'',
       origin_bk = ''Pune'', destination_bk = ''Mumbai'', distance_bk = 150,
       vehicleId_bk = ''veh_1'', driverName_bk = ''Ravi'', driverPhone_bk = ''000'',
       bookedDate_bk = ''2024-05-01'', completedDate_bk = ''2024-05-31'', amount_bk = 8000,
       expense_bk = 5000, status_bk = pending, podUrl_bk = None, podVerified_bk = True,
       vendorId_bk = Some ''vnd_1'', vendorName_bk = Some ''Roadways'' \<rparr>"

definition tripState :: AppState where
  "tripState = emptyState\<lparr> bookings := [exampleBooking], vendors := [exampleVendor] \<rparr>"

definition manualFreight :: "string \<Rightarrow> Expense" where
  "manualFreight eid =
     \<lparr> id_exp = eid, vehicleId_exp = ''veh_1'', category_exp = Freight, amount_exp = 5000,
       date_exp = ''2024-05-31'', vendor_exp = ''Roadways'', vendorId_exp = Some ''vnd_1'',
       bookingId_exp = Some ''BK-1'', costPerKm_exp = None, receiptUrl_exp = None,
       status_exp = approved, entryType_exp = Some Manual, odometer_exp = None \<rparr>"

text \<open>The trip state after the freight of the booking was entered twice by hand
  (\<open>ADD_EXPENSE\<close> accepts both).\<close>

definition postedTwiceState :: AppState where
  "postedTwiceState = tripState\<lparr> expenses := [manualFreight ''exp_2'', manualFreight ''exp_1''] \<rparr>"

definition vendorPayment :: VendorPaymentPayload where
  "vendorPayment =
     \<lparr> vendorIds_vpay = [''vnd_1''], date_vpay = ''2024-06-01'', amount_vpay = 1000,
       category_vpay = ''Full payment'', reference_vpay = ''UTR3'', autoTds_vpay = True,
       bookingId_vpay = None \<rparr>"

definition strayVendorPayment :: VendorPaymentPayload where
  "strayVendorPayment = vendorPayment\<lparr> vendorIds_vpay := [''vnd_9'', ''vnd_8''] \<rparr>"

text \<open>An invoice of 30 June with an advance payment of 31 May that refers to it.\<close>

definition lateInvoice :: Invoice where
  "lateInvoice = exampleInvoice\<lparr> id_inv := ''inv_2'', invoiceNumber_inv := ''INV-002'',
     date_inv := ''2024-06-30'', dueDate_inv := ''2024-06-30'', status_inv := sent,
     paidAmount_inv := Some 4000 \<rparr>"

definition advanceTx :: Transaction where
  "advanceTx =
     \<lparr> id_tx = ''tx_1'', customerId_tx = Some ''cus_1'', vendorId_tx = None, vendorName_tx = None,
       date_tx = ''2024-05-31'', amount_tx = 4000, type_tx = credit,
       description_tx = ''Advance payment - INV-002 '', referenceId_tx = Some ''inv_2'',
       matched_tx = True, paymentMode_tx = None, referenceNo_tx = None, category_tx = None \<rparr>"

definition advanceState :: AppState where
  "advanceState = emptyState\<lparr> invoices := [lateInvoice], transactions := [advanceTx] \<rparr>"

text \<open>An invoice of 31 May with a payment of the same day and one of 1 June.\<close>

definition mayInvoice :: Invoice where
  "mayInvoice = exampleInvoice\<lparr> id_inv := ''inv_3'', invoiceNumber_inv := ''INV-003'',
     date_inv := ''2024-05-31'', dueDate_inv := ''2024-06-30'', status_inv := sent,
     paidAmount_inv := Some 7000 \<rparr>"

definition sameDayTx :: Transaction where
  "sameDayTx = advanceTx\<lparr> id_tx := ''tx_2'', amount_tx := 3000,
     description_tx := ''Partial payment - INV-003 '', referenceId_tx := Some ''inv_3'' \<rparr>"

definition juneTx :: Transaction where
  "juneTx = advanceTx\<lparr> id_tx := ''tx_3'', date_tx := ''2024-06-01'', amount_tx := 4000,
     description_tx := ''Partial payment - INV-003 '', referenceId_tx := Some ''inv_3'' \<rparr>"

definition ledgerState :: AppState where
  "ledgerState = emptyState\<lparr> invoices := [mayInvoice], transactions := [juneTx, sameDayTx] \<rparr>"

text \<open>A store with the example vendor at reference 0.\<close>

definition exampleStore :: vendorStore where
  "exampleStore = Map.empty(0 \<mapsto> exampleVendor)"

section \<open>Evaluation lemmas\<close>

lemma showNat_numeral [simp]:
  "showNat (numeral k) = (if numeral k < (10::nat) then [digitChar (numeral k)]
     else showNat (numeral k div 10) @ [digitChar (numeral k mod 10)])"
  by (rule showNat.simps)

lemma showNat_small [simp]: "n < 10 \<Longrightarrow> showNat n = [digitChar n]"
  by (simp add: showNat.simps)

lemma or0_Some [simp]: "or0 (Some x) = x"
  by (simp add: or0_def)

lemma or0_None [simp]: "or0 None = 0"
  by (simp add: or0_def)

section \<open>Looking up by id\<close>

lemma find_map_same_key:
  assumes "\<And>x. key (f x) = key x"
  shows "find (\<lambda>x. key x = k) (map (\<lambda>x. if key x = k then f x else x) xs)
         = map_option f (find (\<lambda>x. key x = k) xs)"
  using assms by (induction xs) auto

lemma find_key: "find (\<lambda>x. key x = k) xs = Some y \<Longrightarrow> key y = k"
  by (auto simp: find_Some_iff)

section \<open>RECORD_PAYMENT\<close>

lemma record_payment_found:
  assumes "find (\<lambda>i. id_inv i = invoiceId_pay p) (invoices state) = Some invoice"
  shows "find (\<lambda>i. id_inv i = invoiceId_pay p) (invoices (record_payment P e state p)) =
         Some (invoice\<lparr> paidAmount_inv := Some (mainPaid invoice p),
                        adjustments_inv := Some (newAdjustments invoice p),
                        status_inv := newStatus P e invoice p \<rparr>)"
proof -
  have k: "id_inv invoice = invoiceId_pay p"
    using assms by (rule find_key)
  show ?thesis
    using assms
    by (simp add: record_payment_def Let_def k
        find_map_same_key [where key = id_inv and k = "invoiceId_pay p"])
qed

lemma record_payment_transactions:
  assumes "find (\<lambda>i. id_inv i = invoiceId_pay p) (invoices state) = Some invoice"
  shows "transactions (record_payment P e state p) =
         paymentTransactions P e invoice p @ transactions state"
  using assms by (simp add: record_payment_def Let_def)

lemma tdsOf_round: "tdsOf n = of_int (round ((n / 0.98) * 0.02))"
  by (simp add: tdsOf_def Math_round_def round_def)

lemma example_invoice_found:
  "find (\<lambda>i. id_inv i = invoiceId_pay fullPaymentTds) (invoices invoiceState) = Some exampleInvoice"
  by (simp add: fullPaymentTds_def invoiceState_def emptyState_def exampleInvoice_def)

lemma cent_invoice_found:
  "find (\<lambda>i. id_inv i = invoiceId_pay advanceTds) (invoices centState) = Some centInvoice"
  by (simp add: advanceTds_def centState_def emptyState_def centInvoice_def exampleInvoice_def)

subsection \<open>Doubles of the examples\<close>

text \<open>
  The doubles nearest to 0.98, 0.02, 1000.10 and 980.20, and the sum that JavaScript
  prints as \<open>1980.3000000000002\<close>: it is neither the sum of the two doubles nor the
  double nearest to 1980.30.
\<close>

lemma toDouble_literals:
  "toDouble 0.98 = 2206763817411543 / 2251799813685248"
  "toDouble 0.02 = 5764607523034235 / 288230376151711744"
  "toDouble 1000.10 = 8796972631510221 / 8796093022208"
  "toDouble 980.20 = 4310965190184141 / 4398046511104"
  "toDouble 1980.30 = 8709451505939251 / 4398046511104"
  by code_simp+

lemma tdsAmount_9800: "tdsAmount 9800 = 200"
  by code_simp

lemma fadd_rounds:
  "fadd (toDouble 1000.10) (toDouble 980.20) = 2177362876484813 / 1099511627776"
  "toDouble 1000.10 + toDouble 980.20 = 17418903011878503 / 8796093022208"
  "fadd 9007199254740992 1 = 9007199254740992"
  by code_simp+

text \<open>
  C1, as stated, fails. An invoice has 1000.10 received; an advance payment of 980.20 is
  a credit of a cash category with \<open>autoTds\<close>. The TDS entry is written, but the main
  entry is described by its category, not as a bank receipt; and the stored paid amount
  is the rounded sum 1980.3000000000002, which is not the paid amount plus the payment.
\<close>

theorem C1_auto_tds_split_counterexample:
  "autoTds_pay advanceTds = Some True \<and> type_pay advanceTds = credit \<and>
   category_pay advanceTds = ''Advance payment'' \<and>
   map description_tx (transactions
     (appReducer examplePlatform exampleEnv centState (RECORD_PAYMENT advanceTds))) =
     [''Advance payment - INV-001 '', ''TDS Deduction (2%) - INV-001''] \<and>
   map_option paidAmount_inv (find (\<lambda>i. id_inv i = invoiceId_pay advanceTds)
     (invoices (appReducer examplePlatform exampleEnv centState (RECORD_PAYMENT advanceTds)))) =
     Some (Some (2177362876484813 / 1099511627776)) \<and>
   Some (2177362876484813 / 1099511627776) \<noteq>
     map_option (\<lambda>paidBefore. paidBefore + amount_pay advanceTds) (paidAmount_inv centInvoice)"
proof -
  have a: "autoTds_pay advanceTds = Some True \<and> type_pay advanceTds = credit \<and>
           category_pay advanceTds = ''Advance payment''"
    by (simp add: advanceTds_def)
  have txs: "transactions (appReducer examplePlatform exampleEnv centState (RECORD_PAYMENT advanceTds)) =
         paymentTransactions examplePlatform exampleEnv centInvoice advanceTds @ transactions centState"
    using record_payment_transactions [OF cent_invoice_found] by simp
  have b: "map description_tx (transactions
     (appReducer examplePlatform exampleEnv centState (RECORD_PAYMENT advanceTds))) =
     [''Advance payment - INV-001 '', ''TDS Deduction (2%) - INV-001'']"
    unfolding txs
    by (simp add: paymentTransactions_def tdsApplies_def autoTdsOn_def isNonCashAdjustment_def
        mainTransaction_def tdsTransaction_def mainDescription_def advanceTds_def
        centInvoice_def exampleInvoice_def centState_def emptyState_def)
  have paid: "mainPaid centInvoice advanceTds = 2177362876484813 / 1099511627776"
    by code_simp
  have c: "map_option paidAmount_inv (find (\<lambda>i. id_inv i = invoiceId_pay advanceTds)
     (invoices (appReducer examplePlatform exampleEnv centState (RECORD_PAYMENT advanceTds)))) =
     Some (Some (2177362876484813 / 1099511627776))"
    using record_payment_found [OF cent_invoice_found, of examplePlatform exampleEnv]
    by (simp add: paid)
  have d: "Some (2177362876484813 / 1099511627776) \<noteq>
     map_option (\<lambda>paidBefore. paidBefore + amount_pay advanceTds) (paidAmount_inv centInvoice)"
    by code_simp
  show ?thesis
    by (intro conjI a [THEN conjunct1] a [THEN conjunct2, THEN conjunct1]
        a [THEN conjunct2, THEN conjunct2] b c d)
qed

text \<open>
  C1, amended. When an invoice with the id of the payload is in the state, a credit of a
  cash category (none of TDS, Discount, Adjustment, Credit note) with \<open>autoTds\<close> stores
  the double sum of the paid amount and \<open>N\<close> as the paid amount, and the double sum of
  the adjustments and \<open>Math.round((N / 0.98) * 0.02)\<close> as the adjustments, and puts
  two transactions in front of the list: the main entry for \<open>N\<close>, described as
  "Bank Receipt - number" for a full or a partial payment and as "category - number "
  with the debit note otherwise, and the entry "TDS Deduction (2%) - number" for the
  rounded amount, both with the date of the payload and both matched. In every other
  case only the main entry is added, and the adjustments change by the main movement
  alone.
\<close>

theorem C1_auto_tds_split:
  assumes found: "find (\<lambda>i. id_inv i = invoiceId_pay p) (invoices state) = Some invoice"
  shows
    "(autoTds_pay p = Some True \<and> type_pay p = credit \<and>
      category_pay p \<notin> set [''TDS'', ''Discount'', ''Adjustment'', ''Credit note''] \<longrightarrow>
        map_option paidAmount_inv (find (\<lambda>i. id_inv i = invoiceId_pay p)
            (invoices (appReducer P e state (RECORD_PAYMENT p)))) =
          Some (Some (fadd (or0 (paidAmount_inv invoice)) (amount_pay p))) \<and>
        map_option adjustments_inv (find (\<lambda>i. id_inv i = invoiceId_pay p)
            (invoices (appReducer P e state (RECORD_PAYMENT p)))) =
          Some (Some (fadd (or0 (adjustments_inv invoice))
                  (Math_round (fmul (fdiv (amount_pay p) (toDouble 0.98)) (toDouble 0.02))))) \<and>
        transactions (appReducer P e state (RECORD_PAYMENT p)) =
          \<lparr> id_tx = ''tx_'' @ numStr P (of_int (now e)),
            customerId_tx = Some (customerId_inv invoice),
            vendorId_tx = None,
            vendorName_tx = None,
            date_tx = date_pay p,
            amount_tx = amount_pay p,
            type_tx = credit,
            description_tx =
              (if category_pay p = ''Full payment'' \<or> category_pay p = ''Partial payment''
               then ''Bank Receipt - '' @ invoiceNumber_inv invoice
               else category_pay p @ '' - '' @ invoiceNumber_inv invoice @ '' '' @
                    (case debitNoteNo_pay p of
                       None \<Rightarrow> []
                     | Some dn \<Rightarrow> if dn = [] then [] else ''(DN: '' @ dn @ '')'')),
            referenceId_tx = Some (id_inv invoice),
            matched_tx = True,
            paymentMode_tx = None,
            referenceNo_tx = None,
            category_tx = None \<rparr> #
          \<lparr> id_tx = ''tx_tds_'' @ numStr P (of_int (now e)) @ ''_2'',
            customerId_tx = Some (customerId_inv invoice),
            vendorId_tx = None,
            vendorName_tx = None,
            date_tx = date_pay p,
            amount_tx = Math_round (fmul (fdiv (amount_pay p) (toDouble 0.98)) (toDouble 0.02)),
            type_tx = credit,
            description_tx = ''TDS Deduction (2%) - '' @ invoiceNumber_inv invoice,
            referenceId_tx = Some (id_inv invoice),
            matched_tx = True,
            paymentMode_tx = None,
            referenceNo_tx = None,
            category_tx = None \<rparr> #
          transactions state)
     \<and>
     (\<not> (autoTds_pay p = Some True \<and> type_pay p = credit \<and>
         category_pay p \<notin> set [''TDS'', ''Discount'', ''Adjustment'', ''Credit note'']) \<longrightarrow>
        map_option adjustments_inv (find (\<lambda>i. id_inv i = invoiceId_pay p)
            (invoices (appReducer P e state (RECORD_PAYMENT p)))) =
          Some (Some
            (if category_pay p \<in> set [''TDS'', ''Discount'', ''Adjustment'', ''Credit note'']
             then (if type_pay p = credit then fadd (or0 (adjustments_inv invoice)) (amount_pay p)
                   else fsub (or0 (adjustments_inv invoice)) (amount_pay p))
             else or0 (adjustments_inv invoice))) \<and>
        transactions (appReducer P e state (RECORD_PAYMENT p)) =
          \<lparr> id_tx = ''tx_'' @ numStr P (of_int (now e)),
            customerId_tx = Some (customerId_inv invoice),
            vendorId_tx = None,
            vendorName_tx = None,
            date_tx = date_pay p,
            amount_tx = amount_pay p,
            type_tx = type_pay p,
            description_tx =
              (if autoTds_pay p = Some True \<and>
                  (category_pay p = ''Full payment'' \<or> category_pay p = ''Partial payment'')
               then ''Bank Receipt - '' @ invoiceNumber_inv invoice
               else category_pay p @ '' - '' @ invoiceNumber_inv invoice @ '' '' @
                    (case debitNoteNo_pay p of
                       None \<Rightarrow> []
                     | Some dn \<Rightarrow> if dn = [] then [] else ''(DN: '' @ dn @ '')'')),
            referenceId_tx = Some (id_inv invoice),
            matched_tx = True,
            paymentMode_tx = None,
            referenceNo_tx = None,
            category_tx = None \<rparr> #
          transactions state)"
proof -
  have inv: "find (\<lambda>i. id_inv i = invoiceId_pay p) (invoices (appReducer P e state (RECORD_PAYMENT p))) =
         Some (invoice\<lparr> paidAmount_inv := Some (mainPaid invoice p),
                        adjustments_inv := Some (newAdjustments invoice p),
                        status_inv := newStatus P e invoice p \<rparr>)"
    using record_payment_found [OF found] by simp
  have txs: "transactions (appReducer P e state (RECORD_PAYMENT p)) =
         paymentTransactions P e invoice p @ transactions state"
    using record_payment_transactions [OF found] by simp
  show ?thesis
    unfolding inv txs
    by (simp add: tdsApplies_def autoTdsOn_def newAdjustments_def mainPaid_def mainAdjustments_def
        paymentTransactions_def mainTransaction_def tdsTransaction_def mainDescription_def
        tdsAmount_def isNonCashAdjustment_def dateNowStr_def)
qed

theorem C1_auto_tds_split_witness:
  "map_option paidAmount_inv (find (\<lambda>i. id_inv i = invoiceId_pay fullPaymentTds)
     (invoices (appReducer examplePlatform exampleEnv invoiceState (RECORD_PAYMENT fullPaymentTds)))) =
     Some (Some 9800) \<and>
   map_option adjustments_inv (find (\<lambda>i. id_inv i = invoiceId_pay fullPaymentTds)
     (invoices (appReducer examplePlatform exampleEnv invoiceState (RECORD_PAYMENT fullPaymentTds)))) =
     Some (Some 200) \<and>
   map amount_tx (transactions
     (appReducer examplePlatform exampleEnv invoiceState (RECORD_PAYMENT fullPaymentTds))) =
     [9800, 200] \<and>
   map description_tx (transactions
     (appReducer examplePlatform exampleEnv invoiceState (RECORD_PAYMENT fullPaymentTds))) =
     [''Bank Receipt - INV-001'', ''TDS Deduction (2%) - INV-001''] \<and>
   map date_tx (transactions
     (appReducer examplePlatform exampleEnv invoiceState (RECORD_PAYMENT fullPaymentTds))) =
     [''2024-06-01'', ''2024-06-01''] \<and>
   map matched_tx (transactions
     (appReducer examplePlatform exampleEnv invoiceState (RECORD_PAYMENT fullPaymentTds))) =
     [True, True]"
proof -
  have hyp: "autoTds_pay fullPaymentTds = Some True \<and> type_pay fullPaymentTds = credit \<and>
             category_pay fullPaymentTds \<notin> set [''TDS'', ''Discount'', ''Adjustment'', ''Credit note'']"
    by (simp add: fullPaymentTds_def)
  note inst = C1_auto_tds_split [OF example_invoice_found, of examplePlatform exampleEnv,
      THEN conjunct1, rule_format, OF hyp]
  note paid = inst [THEN conjunct1]
  note adj = inst [THEN conjunct2, THEN conjunct1]
  note txs = inst [THEN conjunct2, THEN conjunct2, folded tdsAmount_def]
  have a: "map_option paidAmount_inv (find (\<lambda>i. id_inv i = invoiceId_pay fullPaymentTds)
     (invoices (appReducer examplePlatform exampleEnv invoiceState (RECORD_PAYMENT fullPaymentTds)))) =
     Some (Some 9800)"
    unfolding paid by code_simp
  have b: "map_option adjustments_inv (find (\<lambda>i. id_inv i = invoiceId_pay fullPaymentTds)
     (invoices (appReducer examplePlatform exampleEnv invoiceState (RECORD_PAYMENT fullPaymentTds)))) =
     Some (Some 200)"
    unfolding adj by code_simp
  have c: "map amount_tx (transactions
     (appReducer examplePlatform exampleEnv invoiceState (RECORD_PAYMENT fullPaymentTds))) =
     [9800, 200]"
    unfolding txs
    by (simp add: fullPaymentTds_def invoiceState_def emptyState_def tdsAmount_9800)
  have d: "map description_tx (transactions
     (appReducer examplePlatform exampleEnv invoiceState (RECORD_PAYMENT fullPaymentTds))) =
     [''Bank Receipt - INV-001'', ''TDS Deduction (2%) - INV-001'']"
    unfolding txs
    by (simp add: fullPaymentTds_def exampleInvoice_def invoiceState_def emptyState_def)
  have e: "map date_tx (transactions
     (appReducer examplePlatform exampleEnv invoiceState (RECORD_PAYMENT fullPaymentTds))) =
     [''2024-06-01'', ''2024-06-01'']"
    unfolding txs
    by (simp add: fullPaymentTds_def invoiceState_def emptyState_def)
  have f: "map matched_tx (transactions
     (appReducer examplePlatform exampleEnv invoiceState (RECORD_PAYMENT fullPaymentTds))) =
     [True, True]"
    unfolding txs
    by (simp add: invoiceState_def emptyState_def)
  show ?thesis
    by (intro conjI a b c d e f)
qed

lemma over_payment_found:
  "find (\<lambda>i. id_inv i = invoiceId_pay overPayment) (invoices invoiceState) = Some exampleInvoice"
  by (simp add: overPayment_def invoiceState_def emptyState_def exampleInvoice_def)

lemma rounding_invoice_found:
  "find (\<lambda>i. id_inv i = invoiceId_pay roundingPayment) (invoices roundingState) =
     Some roundingInvoice"
  by (simp add: roundingPayment_def roundingState_def emptyState_def roundingInvoice_def
      exampleInvoice_def)

lemma reversal_found:
  "find (\<lambda>i. id_inv i = invoiceId_pay reversal) (invoices invoiceState) = Some exampleInvoice"
  "find (\<lambda>i. id_inv i = invoiceId_pay reversal) (invoices notDueState) = Some notDueInvoice"
  "find (\<lambda>i. id_inv i = invoiceId_pay reversal) (invoices undatedState) = Some undatedInvoice"
  by (simp_all add: reversal_def invoiceState_def notDueState_def undatedState_def emptyState_def
      exampleInvoice_def notDueInvoice_def undatedInvoice_def)

text \<open>
  C2. After a payment on an invoice of the state, the stored paid amount and adjustments
  are the old ones with the signed movement and the TDS applied, with no floor. The
  status of the stored invoice follows from the balance
  \<open>b = amount - (paidAmount' + adjustments')\<close> that the code computes from the two
  stored fields (each operation rounded to a double): \<open>paid\<close> when \<open>b \<le> 5\<close>, else
  \<open>sent\<close> when \<open>0 < b < amount\<close>, else (then \<open>b \<ge> amount\<close>) \<open>overdue\<close> when the
  due date parses and lies before the clock reading, and \<open>sent\<close> otherwise. A negative
  balance is not floored, and its invoice is \<open>paid\<close>.
\<close>

theorem C2_status_from_updated_balance:
  assumes found: "find (\<lambda>i. id_inv i = invoiceId_pay p) (invoices state) = Some invoice"
  shows
    "\<exists>invoice'.
       find (\<lambda>i. id_inv i = invoiceId_pay p) (invoices (appReducer P e state (RECORD_PAYMENT p))) =
         Some invoice' \<and>
       amount_inv invoice' = amount_inv invoice \<and>
       paidAmount_inv invoice' =
         Some (if category_pay p \<in> set [''TDS'', ''Discount'', ''Adjustment'', ''Credit note'']
               then or0 (paidAmount_inv invoice)
               else if type_pay p = credit then fadd (or0 (paidAmount_inv invoice)) (amount_pay p)
               else fsub (or0 (paidAmount_inv invoice)) (amount_pay p)) \<and>
       adjustments_inv invoice' =
         Some (if category_pay p \<in> set [''TDS'', ''Discount'', ''Adjustment'', ''Credit note'']
               then (if type_pay p = credit
                     then fadd (or0 (adjustments_inv invoice)) (amount_pay p)
                     else fsub (or0 (adjustments_inv invoice)) (amount_pay p))
               else if autoTds_pay p = Some True \<and> type_pay p = credit
               then fadd (or0 (adjustments_inv invoice))
                      (Math_round (fmul (fdiv (amount_pay p) (toDouble 0.98)) (toDouble 0.02)))
               else or0 (adjustments_inv invoice)) \<and>
       (let b = fsub (amount_inv invoice')
                  (fadd (or0 (paidAmount_inv invoice')) (or0 (adjustments_inv invoice')))
        in status_inv invoice' =
             (if b \<le> 5 then paid
              else if 0 < b \<and> b < amount_inv invoice' then sent
              else if (case parseDate P (dueDate_inv invoice) of
                         None \<Rightarrow> False
                       | Some due \<Rightarrow> due < now e)
                   then overdue else sent) \<and>
           (\<not> b \<le> 5 \<and> \<not> (0 < b \<and> b < amount_inv invoice') \<longrightarrow> amount_inv invoice' \<le> b) \<and>
           (b < 0 \<longrightarrow> status_inv invoice' = paid))"
proof -
  have inv: "find (\<lambda>i. id_inv i = invoiceId_pay p) (invoices (appReducer P e state (RECORD_PAYMENT p))) =
         Some (invoice\<lparr> paidAmount_inv := Some (mainPaid invoice p),
                        adjustments_inv := Some (newAdjustments invoice p),
                        status_inv := newStatus P e invoice p \<rparr>)"
    using record_payment_found [OF found] by simp
  have paid': "mainPaid invoice p =
         (if category_pay p \<in> set [''TDS'', ''Discount'', ''Adjustment'', ''Credit note'']
          then or0 (paidAmount_inv invoice)
          else if type_pay p = credit then fadd (or0 (paidAmount_inv invoice)) (amount_pay p)
          else fsub (or0 (paidAmount_inv invoice)) (amount_pay p))"
    by (simp add: mainPaid_def isNonCashAdjustment_def)
  have adj': "newAdjustments invoice p =
         (if category_pay p \<in> set [''TDS'', ''Discount'', ''Adjustment'', ''Credit note'']
          then (if type_pay p = credit
                then fadd (or0 (adjustments_inv invoice)) (amount_pay p)
                else fsub (or0 (adjustments_inv invoice)) (amount_pay p))
          else if autoTds_pay p = Some True \<and> type_pay p = credit
          then fadd (or0 (adjustments_inv invoice))
                 (Math_round (fmul (fdiv (amount_pay p) (toDouble 0.98)) (toDouble 0.02)))
          else or0 (adjustments_inv invoice))"
    by (simp add: newAdjustments_def mainAdjustments_def tdsApplies_def autoTdsOn_def
        tdsAmount_def isNonCashAdjustment_def)
  have status: "newStatus P e invoice p =
         (let b = fsub (amount_inv invoice) (fadd (mainPaid invoice p) (newAdjustments invoice p))
          in if b \<le> 5 then paid
             else if 0 < b \<and> b < amount_inv invoice then sent
             else if (case parseDate P (dueDate_inv invoice) of
                        None \<Rightarrow> False
                      | Some due \<Rightarrow> due < now e)
                  then overdue else sent)"
    by (simp add: newStatus_def paymentBalance_def isOverdue_def Let_def)
  show ?thesis
    unfolding inv paid' [symmetric] adj' [symmetric]
    by (rule exI [where x = "invoice\<lparr> paidAmount_inv := Some (mainPaid invoice p),
                        adjustments_inv := Some (newAdjustments invoice p),
                        status_inv := newStatus P e invoice p \<rparr>"])
       (simp add: status Let_def)
qed

theorem C2_status_from_updated_balance_witness:
  "(\<exists>invoice'.
      find (\<lambda>i. id_inv i = invoiceId_pay overPayment) (invoices (appReducer examplePlatform exampleEnv invoiceState (RECORD_PAYMENT overPayment))) = Some invoice' \<and>
      fsub (amount_inv invoice') (fadd (or0 (paidAmount_inv invoice')) (or0 (adjustments_inv invoice'))) = - 2000 \<and>
      status_inv invoice' = paid) \<and>
   (\<exists>invoice'.
      find (\<lambda>i. id_inv i = invoiceId_pay roundingPayment) (invoices (appReducer examplePlatform exampleEnv roundingState (RECORD_PAYMENT roundingPayment))) = Some invoice' \<and>
      fsub (amount_inv invoice') (fadd (or0 (paidAmount_inv invoice')) (or0 (adjustments_inv invoice'))) = 5 \<and>
      status_inv invoice' = paid) \<and>
   (\<exists>invoice'.
      find (\<lambda>i. id_inv i = invoiceId_pay reversal) (invoices (appReducer examplePlatform exampleEnv invoiceState (RECORD_PAYMENT reversal))) = Some invoice' \<and>
      fsub (amount_inv invoice') (fadd (or0 (paidAmount_inv invoice')) (or0 (adjustments_inv invoice'))) = 10500 \<and>
      status_inv invoice' = overdue) \<and>
   (\<exists>invoice'.
      find (\<lambda>i. id_inv i = invoiceId_pay reversal) (invoices (appReducer examplePlatform exampleEnv notDueState (RECORD_PAYMENT reversal))) = Some invoice' \<and>
      fsub (amount_inv invoice') (fadd (or0 (paidAmount_inv invoice')) (or0 (adjustments_inv invoice'))) = 10500 \<and>
      status_inv invoice' = sent) \<and>
   (\<exists>invoice'.
      find (\<lambda>i. id_inv i = invoiceId_pay reversal) (invoices (appReducer examplePlatform exampleEnv undatedState (RECORD_PAYMENT reversal))) = Some invoice' \<and>
      fsub (amount_inv invoice') (fadd (or0 (paidAmount_inv invoice')) (or0 (adjustments_inv invoice'))) = 10500 \<and>
      status_inv invoice' = sent)"
proof -
  from C2_status_from_updated_balance [OF over_payment_found, of examplePlatform exampleEnv]
  obtain i1 where
    f1: "find (\<lambda>i. id_inv i = invoiceId_pay overPayment) (invoices (appReducer examplePlatform exampleEnv invoiceState (RECORD_PAYMENT overPayment))) = Some i1"
    and a1: "amount_inv i1 = amount_inv exampleInvoice"
    and p1: "paidAmount_inv i1 =
         Some (if category_pay overPayment \<in> set [''TDS'', ''Discount'', ''Adjustment'', ''Credit note'']
               then or0 (paidAmount_inv exampleInvoice)
               else if type_pay overPayment = credit then fadd (or0 (paidAmount_inv exampleInvoice)) (amount_pay overPayment)
               else fsub (or0 (paidAmount_inv exampleInvoice)) (amount_pay overPayment))"
    and d1: "adjustments_inv i1 =
         Some (if category_pay overPayment \<in> set [''TDS'', ''Discount'', ''Adjustment'', ''Credit note'']
               then (if type_pay overPayment = credit
                     then fadd (or0 (adjustments_inv exampleInvoice)) (amount_pay overPayment)
                     else fsub (or0 (adjustments_inv exampleInvoice)) (amount_pay overPayment))
               else if autoTds_pay overPayment = Some True \<and> type_pay overPayment = credit
               then fadd (or0 (adjustments_inv exampleInvoice))
                      (Math_round (fmul (fdiv (amount_pay overPayment) (toDouble 0.98)) (toDouble 0.02)))
               else or0 (adjustments_inv exampleInvoice))"
    and s1: "let b = fsub (amount_inv i1) (fadd (or0 (paidAmount_inv i1)) (or0 (adjustments_inv i1)))
        in status_inv i1 =
             (if b \<le> 5 then paid
              else if 0 < b \<and> b < amount_inv i1 then sent
              else if (case parseDate examplePlatform (dueDate_inv exampleInvoice) of
                         None \<Rightarrow> False
                       | Some due \<Rightarrow> due < now exampleEnv)
                   then overdue else sent) \<and>
           (\<not> b \<le> 5 \<and> \<not> (0 < b \<and> b < amount_inv i1) \<longrightarrow> amount_inv i1 \<le> b) \<and>
           (b < 0 \<longrightarrow> status_inv i1 = paid)"
    by blast
  note st1 = s1 [unfolded Let_def a1 p1 d1, THEN conjunct1]
  have b1: "fsub (amount_inv i1) (fadd (or0 (paidAmount_inv i1)) (or0 (adjustments_inv i1))) = - 2000"
    unfolding a1 p1 d1 by code_simp
  have v1: "status_inv i1 = paid"
    unfolding st1 by code_simp
  have w1: "\<exists>invoice'.
      find (\<lambda>i. id_inv i = invoiceId_pay overPayment) (invoices (appReducer examplePlatform exampleEnv invoiceState (RECORD_PAYMENT overPayment))) = Some invoice' \<and>
      fsub (amount_inv invoice') (fadd (or0 (paidAmount_inv invoice')) (or0 (adjustments_inv invoice'))) = - 2000 \<and>
      status_inv invoice' = paid"
    using f1 b1 v1 by blast
  from C2_status_from_updated_balance [OF rounding_invoice_found, of examplePlatform exampleEnv]
  obtain i2 where
    f2: "find (\<lambda>i. id_inv i = invoiceId_pay roundingPayment) (invoices (appReducer examplePlatform exampleEnv roundingState (RECORD_PAYMENT roundingPayment))) = Some i2"
    and a2: "amount_inv i2 = amount_inv roundingInvoice"
    and p2: "paidAmount_inv i2 =
         Some (if category_pay roundingPayment \<in> set [''TDS'', ''Discount'', ''Adjustment'', ''Credit note'']
               then or0 (paidAmount_inv roundingInvoice)
               else if type_pay roundingPayment = credit then fadd (or0 (paidAmount_inv roundingInvoice)) (amount_pay roundingPayment)
               else fsub (or0 (paidAmount_inv roundingInvoice)) (amount_pay roundingPayment))"
    and d2: "adjustments_inv i2 =
         Some (if category_pay roundingPayment \<in> set [''TDS'', ''Discount'', ''Adjustment'', ''Credit note'']
               then (if type_pay roundingPayment = credit
                     then fadd (or0 (adjustments_inv roundingInvoice)) (amount_pay roundingPayment)
                     else fsub (or0 (adjustments_inv roundingInvoice)) (amount_pay roundingPayment))
               else if autoTds_pay roundingPayment = Some True \<and> type_pay roundingPayment = credit
               then fadd (or0 (adjustments_inv roundingInvoice))
                      (Math_round (fmul (fdiv (amount_pay roundingPayment) (toDouble 0.98)) (toDouble 0.02)))
               else or0 (adjustments_inv roundingInvoice))"
    and s2: "let b = fsub (amount_inv i2) (fadd (or0 (paidAmount_inv i2)) (or0 (adjustments_inv i2)))
        in status_inv i2 =
             (if b \<le> 5 then paid
              else if 0 < b \<and> b < amount_inv i2 then sent
              else if (case parseDate examplePlatform (dueDate_inv roundingInvoice) of
                         None \<Rightarrow> False
                       | Some due \<Rightarrow> due < now exampleEnv)
                   then overdue else sent) \<and>
           (\<not> b \<le> 5 \<and> \<not> (0 < b \<and> b < amount_inv i2) \<longrightarrow> amount_inv i2 \<le> b) \<and>
           (b < 0 \<longrightarrow> status_inv i2 = paid)"
    by blast
  note st2 = s2 [unfolded Let_def a2 p2 d2, THEN conjunct1]
  have b2: "fsub (amount_inv i2) (fadd (or0 (paidAmount_inv i2)) (or0 (adjustments_inv i2))) = 5"
    unfolding a2 p2 d2 by code_simp
  have v2: "status_inv i2 = paid"
    unfolding st2 by code_simp
  have w2: "\<exists>invoice'.
      find (\<lambda>i. id_inv i = invoiceId_pay roundingPayment) (invoices (appReducer examplePlatform exampleEnv roundingState (RECORD_PAYMENT roundingPayment))) = Some invoice' \<and>
      fsub (amount_inv invoice') (fadd (or0 (paidAmount_inv invoice')) (or0 (adjustments_inv invoice'))) = 5 \<and>
      status_inv invoice' = paid"
    using f2 b2 v2 by blast
  from C2_status_from_updated_balance [OF reversal_found(1), of examplePlatform exampleEnv]
  obtain i3 where
    f3: "find (\<lambda>i. id_inv i = invoiceId_pay reversal) (invoices (appReducer examplePlatform exampleEnv invoiceState (RECORD_PAYMENT reversal))) = Some i3"
    and a3: "amount_inv i3 = amount_inv exampleInvoice"
    and p3: "paidAmount_inv i3 =
         Some (if category_pay reversal \<in> set [''TDS'', ''Discount'', ''Adjustment'', ''Credit note'']
               then or0 (paidAmount_inv exampleInvoice)
               else if type_pay reversal = credit then fadd (or0 (paidAmount_inv exampleInvoice)) (amount_pay reversal)
               else fsub (or0 (paidAmount_inv exampleInvoice)) (amount_pay reversal))"
    and d3: "adjustments_inv i3 =
         Some (if category_pay reversal \<in> set [''TDS'', ''Discount'', ''Adjustment'', ''Credit note'']
               then (if type_pay reversal = credit
                     then fadd (or0 (adjustments_inv exampleInvoice)) (amount_pay reversal)
                     else fsub (or0 (adjustments_inv exampleInvoice)) (amount_pay reversal))
               else if autoTds_pay reversal = Some True \<and> type_pay reversal = credit
               then fadd (or0 (adjustments_inv exampleInvoice))
                      (Math_round (fmul (fdiv (amount_pay reversal) (toDouble 0.98)) (toDouble 0.02)))
               else or0 (adjustments_inv exampleInvoice))"
    and s3: "let b = fsub (amount_inv i3) (fadd (or0 (paidAmount_inv i3)) (or0 (adjustments_inv i3)))
        in status_inv i3 =
             (if b \<le> 5 then paid
              else if 0 < b \<and> b < amount_inv i3 then sent
              else if (case parseDate examplePlatform (dueDate_inv exampleInvoice) of
                         None \<Rightarrow> False
                       | Some due \<Rightarrow> due < now exampleEnv)
                   then overdue else sent) \<and>
           (\<not> b \<le> 5 \<and> \<not> (0 < b \<and> b < amount_inv i3) \<longrightarrow> amount_inv i3 \<le> b) \<and>
           (b < 0 \<longrightarrow> status_inv i3 = paid)"
    by blast
  note st3 = s3 [unfolded Let_def a3 p3 d3, THEN conjunct1]
  have b3: "fsub (amount_inv i3) (fadd (or0 (paidAmount_inv i3)) (or0 (adjustments_inv i3))) = 10500"
    unfolding a3 p3 d3 by code_simp
  have v3: "status_inv i3 = overdue"
    unfolding st3 by code_simp
  have w3: "\<exists>invoice'.
      find (\<lambda>i. id_inv i = invoiceId_pay reversal) (invoices (appReducer examplePlatform exampleEnv invoiceState (RECORD_PAYMENT reversal))) = Some invoice' \<and>
      fsub (amount_inv invoice') (fadd (or0 (paidAmount_inv invoice')) (or0 (adjustments_inv invoice'))) = 10500 \<and>
      status_inv invoice' = overdue"
    using f3 b3 v3 by blast
  from C2_status_from_updated_balance [OF reversal_found(2), of examplePlatform exampleEnv]
  obtain i4 where
    f4: "find (\<lambda>i. id_inv i = invoiceId_pay reversal) (invoices (appReducer examplePlatform exampleEnv notDueState (RECORD_PAYMENT reversal))) = Some i4"
    and a4: "amount_inv i4 = amount_inv notDueInvoice"
    and p4: "paidAmount_inv i4 =
         Some (if category_pay reversal \<in> set [''TDS'', ''Discount'', ''Adjustment'', ''Credit note'']
               then or0 (paidAmount_inv notDueInvoice)
               else if type_pay reversal = credit then fadd (or0 (paidAmount_inv notDueInvoice)) (amount_pay reversal)
               else fsub (or0 (paidAmount_inv notDueInvoice)) (amount_pay reversal))"
    and d4: "adjustments_inv i4 =
         Some (if category_pay reversal \<in> set [''TDS'', ''Discount'', ''Adjustment'', ''Credit note'']
               then (if type_pay reversal = credit
                     then fadd (or0 (adjustments_inv notDueInvoice)) (amount_pay reversal)
                     else fsub (or0 (adjustments_inv notDueInvoice)) (amount_pay reversal))
               else if autoTds_pay reversal = Some True \<and> type_pay reversal = credit
               then fadd (or0 (adjustments_inv notDueInvoice))
                      (Math_round (fmul (fdiv (amount_pay reversal) (toDouble 0.98)) (toDouble 0.02)))
               else or0 (adjustments_inv notDueInvoice))"
    and s4: "let b = fsub (amount_inv i4) (fadd (or0 (paidAmount_inv i4)) (or0 (adjustments_inv i4)))
        in status_inv i4 =
             (if b \<le> 5 then paid
              else if 0 < b \<and> b < amount_inv i4 then sent
              else if (case parseDate examplePlatform (dueDate_inv notDueInvoice) of
                         None \<Rightarrow> False
                       | Some due \<Rightarrow> due < now exampleEnv)
                   then overdue else sent) \<and>
           (\<not> b \<le> 5 \<and> \<not> (0 < b \<and> b < amount_inv i4) \<longrightarrow> amount_inv i4 \<le> b) \<and>
           (b < 0 \<longrightarrow> status_inv i4 = paid)"
    by blast
  note st4 = s4 [unfolded Let_def a4 p4 d4, THEN conjunct1]
  have b4: "fsub (amount_inv i4) (fadd (or0 (paidAmount_inv i4)) (or0 (adjustments_inv i4))) = 10500"
    unfolding a4 p4 d4 by code_simp
  have v4: "status_inv i4 = sent"
    unfolding st4 by code_simp
  have w4: "\<exists>invoice'.
      find (\<lambda>i. id_inv i = invoiceId_pay reversal) (invoices (appReducer examplePlatform exampleEnv notDueState (RECORD_PAYMENT reversal))) = Some invoice' \<and>
      fsub (amount_inv invoice') (fadd (or0 (paidAmount_inv invoice')) (or0 (adjustments_inv invoice'))) = 10500 \<and>
      status_inv invoice' = sent"
    using f4 b4 v4 by blast
  from C2_status_from_updated_balance [OF reversal_found(3), of examplePlatform exampleEnv]
  obtain i5 where
    f5: "find (\<lambda>i. id_inv i = invoiceId_pay reversal) (invoices (appReducer examplePlatform exampleEnv undatedState (RECORD_PAYMENT reversal))) = Some i5"
    and a5: "amount_inv i5 = amount_inv undatedInvoice"
    and p5: "paidAmount_inv i5 =
         Some (if category_pay reversal \<in> set [''TDS'', ''Discount'', ''Adjustment'', ''Credit note'']
               then or0 (paidAmount_inv undatedInvoice)
               else if type_pay reversal = credit then fadd (or0 (paidAmount_inv undatedInvoice)) (amount_pay reversal)
               else fsub (or0 (paidAmount_inv undatedInvoice)) (amount_pay reversal))"
    and d5: "adjustments_inv i5 =
         Some (if category_pay reversal \<in> set [''TDS'', ''Discount'', ''Adjustment'', ''Credit note'']
               then (if type_pay reversal = credit
                     then fadd (or0 (adjustments_inv undatedInvoice)) (amount_pay reversal)
                     else fsub (or0 (adjustments_inv undatedInvoice)) (amount_pay reversal))
               else if autoTds_pay reversal = Some True \<and> type_pay reversal = credit
               then fadd (or0 (adjustments_inv undatedInvoice))
                      (Math_round (fmul (fdiv (amount_pay reversal) (toDouble 0.98)) (toDouble 0.02)))
               else or0 (adjustments_inv undatedInvoice))"
    and s5: "let b = fsub (amount_inv i5) (fadd (or0 (paidAmount_inv i5)) (or0 (adjustments_inv i5)))
        in status_inv i5 =
             (if b \<le> 5 then paid
              else if 0 < b \<and> b < amount_inv i5 then sent
              else if (case parseDate examplePlatform (dueDate_inv undatedInvoice) of
                         None \<Rightarrow> False
                       | Some due \<Rightarrow> due < now exampleEnv)
                   then overdue else sent) \<and>
           (\<not> b \<le> 5 \<and> \<not> (0 < b \<and> b < amount_inv i5) \<longrightarrow> amount_inv i5 \<le> b) \<and>
           (b < 0 \<longrightarrow> status_inv i5 = paid)"
    by blast
  note st5 = s5 [unfolded Let_def a5 p5 d5, THEN conjunct1]
  have b5: "fsub (amount_inv i5) (fadd (or0 (paidAmount_inv i5)) (or0 (adjustments_inv i5))) = 10500"
    unfolding a5 p5 d5 by code_simp
  have v5: "status_inv i5 = sent"
    unfolding st5 by code_simp
  have w5: "\<exists>invoice'.
      find (\<lambda>i. id_inv i = invoiceId_pay reversal) (invoices (appReducer examplePlatform exampleEnv undatedState (RECORD_PAYMENT reversal))) = Some invoice' \<and>
      fsub (amount_inv invoice') (fadd (or0 (paidAmount_inv invoice')) (or0 (adjustments_inv invoice'))) = 10500 \<and>
      status_inv invoice' = sent"
    using f5 b5 v5 by blast
  show ?thesis
    by (intro conjI w1 w2 w3 w4 w5)
qed

section \<open>DELETE_INVOICE\<close>

text \<open>
  C7. Under the role Accountant, \<open>DELETE_INVOICE\<close> returns the state with one error
  notification appended and nothing else changed, whatever the id. Under every other
  role the invoices with the id are removed, one audit entry of the acting user with
  the verb "Delete" is put in front of the log, and a success notification is appended.
\<close>

theorem C7_delete_invoice_gate:
  "(role_usr (currentUser state) = Accountant \<longrightarrow>
      appReducer P e state (DELETE_INVOICE iid) =
        state\<lparr> notifications := notifications state @
          [\<lparr> id_ntf = ''n_'' @ dateNowStr P e,
             message_ntf = ''Access Denied: Accountants cannot delete records.'',
             type_ntf = error \<rparr>] \<rparr>)
   \<and>
   (role_usr (currentUser state) \<noteq> Accountant \<longrightarrow>
      invoices (appReducer P e state (DELETE_INVOICE iid)) =
        filter (\<lambda>i. id_inv i \<noteq> iid) (invoices state) \<and>
      (\<exists>log. auditLogs (appReducer P e state (DELETE_INVOICE iid)) = log # auditLogs state \<and>
             action_log log = ''Delete'' \<and> entityType_log log = Invoice_entity \<and>
             userId_log log = id_usr (currentUser state) \<and>
             userRole_log log = role_usr (currentUser state)) \<and>
      notifications (appReducer P e state (DELETE_INVOICE iid)) =
        notifications state @ [\<lparr> id_ntf = ''n_'' @ dateNowStr P e,
                                  message_ntf = ''Invoice deleted.'', type_ntf = success \<rparr>])"
  by (simp add: delete_invoice_def notif_def createLog_def Let_def)

theorem C7_delete_invoice_gate_witness:
  "invoices (appReducer examplePlatform exampleEnv accountantState (DELETE_INVOICE ''inv_1'')) =
     [exampleInvoice] \<and>
   auditLogs (appReducer examplePlatform exampleEnv accountantState (DELETE_INVOICE ''inv_1'')) = [] \<and>
   map type_ntf (notifications
     (appReducer examplePlatform exampleEnv accountantState (DELETE_INVOICE ''inv_1''))) = [error] \<and>
   invoices (appReducer examplePlatform exampleEnv invoiceState (DELETE_INVOICE ''inv_1'')) = [] \<and>
   length (auditLogs (appReducer examplePlatform exampleEnv invoiceState (DELETE_INVOICE ''inv_1''))) = 1"
proof -
  have acc: "role_usr (currentUser accountantState) = Accountant"
    by (simp add: accountantState_def accountantUser_def)
  have adm: "role_usr (currentUser invoiceState) \<noteq> Accountant"
    by (simp add: invoiceState_def emptyState_def exampleUser_def)
  note denied = C7_delete_invoice_gate [of accountantState examplePlatform exampleEnv "''inv_1''",
      THEN conjunct1, rule_format, OF acc]
  note deleted = C7_delete_invoice_gate [of invoiceState examplePlatform exampleEnv "''inv_1''",
      THEN conjunct2, rule_format, OF adm]
  have a: "invoices (appReducer examplePlatform exampleEnv accountantState (DELETE_INVOICE ''inv_1'')) =
     [exampleInvoice]"
    unfolding denied by (simp add: accountantState_def invoiceState_def)
  have b: "auditLogs (appReducer examplePlatform exampleEnv accountantState (DELETE_INVOICE ''inv_1'')) = []"
    unfolding denied by (simp add: accountantState_def invoiceState_def emptyState_def)
  have c: "map type_ntf (notifications
     (appReducer examplePlatform exampleEnv accountantState (DELETE_INVOICE ''inv_1''))) = [error]"
    unfolding denied by (simp add: accountantState_def invoiceState_def emptyState_def)
  have d: "invoices (appReducer examplePlatform exampleEnv invoiceState (DELETE_INVOICE ''inv_1'')) = []"
    using deleted [THEN conjunct1] by (simp add: invoiceState_def exampleInvoice_def)
  obtain log where
    "auditLogs (appReducer examplePlatform exampleEnv invoiceState (DELETE_INVOICE ''inv_1'')) =
       log # auditLogs invoiceState"
    using deleted [THEN conjunct2, THEN conjunct1] by blast
  then have f: "length (auditLogs
      (appReducer examplePlatform exampleEnv invoiceState (DELETE_INVOICE ''inv_1''))) = 1"
    by (simp add: invoiceState_def emptyState_def)
  show ?thesis
    by (intro conjI a b c d f)
qed


section \<open>Ids that are not in the state\<close>

lemma unknown_id_guarded:
  "find (\<lambda>i. id_inv i = invoiceId_pay p) (invoices state) = None \<Longrightarrow>
     appReducer P e state (RECORD_PAYMENT p) = state"
  "find (\<lambda>x. id_exp x = eid) (expenses state) = None \<Longrightarrow>
     appReducer P e state (APPROVE_EXPENSE eid) = state"
  "find (\<lambda>b. id_bk b = bid) (bookings state) = None \<Longrightarrow>
     appReducer P e state (COMPLETE_TRIP bid) = state"
  by (simp_all add: record_payment_def approve_expense_def complete_trip_def)

text \<open>
  C4. \<open>RECORD_PAYMENT\<close>, \<open>APPROVE_EXPENSE\<close> and \<open>COMPLETE_TRIP\<close> return the state
  unchanged on an id that is not in it (\<open>unknown_id_guarded\<close>). \<open>DELETE_INVOICE\<close> has
  no such guard: under a role other than Accountant, and for an id that no invoice of
  the state has, it leaves the invoices as they are, and still puts an audit entry
  "Delete" in front of the log and appends the notification "Invoice deleted.".
\<close>

theorem C4_delete_unknown_invoice:
  assumes "role_usr (currentUser state) \<noteq> Accountant"
      and "find (\<lambda>i. id_inv i = iid) (invoices state) = None"
  shows "appReducer P e state (DELETE_INVOICE iid) \<noteq> state \<and>
         invoices (appReducer P e state (DELETE_INVOICE iid)) = invoices state \<and>
         auditLogs (appReducer P e state (DELETE_INVOICE iid)) =
           createLog P e state ''Delete'' Invoice_entity iid ''Deleted Invoice Record'' None None #
           auditLogs state \<and>
         notifications (appReducer P e state (DELETE_INVOICE iid)) =
           notifications state @ [notif P e ''n_'' success ''Invoice deleted.'']"
proof -
  have none: "\<forall>i \<in> set (invoices state). id_inv i \<noteq> iid"
    using assms(2) by (simp add: find_None_iff)
  then have same: "filter (\<lambda>i. id_inv i \<noteq> iid) (invoices state) = invoices state"
    by (simp add: filter_id_conv)
  have logs: "auditLogs (appReducer P e state (DELETE_INVOICE iid)) =
           createLog P e state ''Delete'' Invoice_entity iid ''Deleted Invoice Record'' None None #
           auditLogs state"
    using assms by (simp add: delete_invoice_def Let_def orStr_def)
  have "auditLogs (appReducer P e state (DELETE_INVOICE iid)) \<noteq> auditLogs state"
    unfolding logs by simp
  then have "appReducer P e state (DELETE_INVOICE iid) \<noteq> state"
    by auto
  moreover have "invoices (appReducer P e state (DELETE_INVOICE iid)) = invoices state"
    using assms(1) same by (simp add: delete_invoice_def Let_def)
  moreover have "notifications (appReducer P e state (DELETE_INVOICE iid)) =
           notifications state @ [notif P e ''n_'' success ''Invoice deleted.'']"
    using assms(1) by (simp add: delete_invoice_def Let_def)
  ultimately show ?thesis
    using logs by simp
qed

theorem C4_delete_unknown_invoice_witness:
  "appReducer examplePlatform exampleEnv invoiceState (DELETE_INVOICE ''inv_9'') \<noteq> invoiceState \<and>
   invoices (appReducer examplePlatform exampleEnv invoiceState (DELETE_INVOICE ''inv_9'')) =
     [exampleInvoice] \<and>
   map action_log (auditLogs
     (appReducer examplePlatform exampleEnv invoiceState (DELETE_INVOICE ''inv_9''))) = [''Delete''] \<and>
   map entityId_log (auditLogs
     (appReducer examplePlatform exampleEnv invoiceState (DELETE_INVOICE ''inv_9''))) = [''inv_9''] \<and>
   map message_ntf (notifications
     (appReducer examplePlatform exampleEnv invoiceState (DELETE_INVOICE ''inv_9''))) =
     [''Invoice deleted.'']"
proof -
  have adm: "role_usr (currentUser invoiceState) \<noteq> Accountant"
    by (simp add: invoiceState_def emptyState_def exampleUser_def)
  have none: "find (\<lambda>i. id_inv i = ''inv_9'') (invoices invoiceState) = None"
    by (simp add: invoiceState_def exampleInvoice_def)
  note inst = C4_delete_unknown_invoice [OF adm none, of examplePlatform exampleEnv]
  have a: "invoices (appReducer examplePlatform exampleEnv invoiceState (DELETE_INVOICE ''inv_9'')) =
     [exampleInvoice]"
    using inst [THEN conjunct2, THEN conjunct1] by (simp add: invoiceState_def)
  have b: "map action_log (auditLogs
     (appReducer examplePlatform exampleEnv invoiceState (DELETE_INVOICE ''inv_9''))) = [''Delete'']"
    unfolding inst [THEN conjunct2, THEN conjunct2, THEN conjunct1]
    by (simp add: createLog_def invoiceState_def emptyState_def)
  have c: "map entityId_log (auditLogs
     (appReducer examplePlatform exampleEnv invoiceState (DELETE_INVOICE ''inv_9''))) = [''inv_9'']"
    unfolding inst [THEN conjunct2, THEN conjunct2, THEN conjunct1]
    by (simp add: createLog_def invoiceState_def emptyState_def)
  have d: "map message_ntf (notifications
     (appReducer examplePlatform exampleEnv invoiceState (DELETE_INVOICE ''inv_9''))) =
     [''Invoice deleted.'']"
    unfolding inst [THEN conjunct2, THEN conjunct2, THEN conjunct2]
    by (simp add: notif_def invoiceState_def emptyState_def)
  show ?thesis
    by (intro conjI inst [THEN conjunct1] a b c d)
qed

section \<open>RECORD_VENDOR_PAYMENT\<close>

lemma vendorStep_unknown:
  "find (\<lambda>v. id_vnd v = vid) (fst acc) = None \<Longrightarrow> vendorStep P e p acc vid = acc"
  by (simp add: vendorStep_def)

lemma foldl_vendorStep_unknown:
  "\<forall>vid \<in> set ids. find (\<lambda>v. id_vnd v = vid) vs = None \<Longrightarrow>
     foldl (vendorStep P e p) (vs, txs) ids = (vs, txs)"
  by (induction ids) (simp_all add: vendorStep_unknown)

text \<open>
  C10. When no id of the payload is the id of a vendor of the state (the empty list of
  ids included), \<open>RECORD_VENDOR_PAYMENT\<close> returns the state with its vendors and its
  transactions as they were, and with exactly one audit entry for the batch in front of
  the log and exactly one success notification appended.
\<close>

theorem C10_vendor_payment_without_vendor:
  assumes "\<forall>vid \<in> set (vendorIds_vpay p). \<forall>v \<in> set (vendors state). id_vnd v \<noteq> vid"
  shows "appReducer P e state (RECORD_VENDOR_PAYMENT p) =
           state\<lparr> notifications := notifications state @
                    [\<lparr> id_ntf = ''n_'' @ dateNowStr P e, message_ntf = ''Vendor payment recorded.'',
                       type_ntf = success \<rparr>],
                  auditLogs :=
                    createLog P e state ''Record'' Payment_entity
                      (numStr P (of_nat (length (vendorIds_vpay p))) @ '' Vendor(s)'')
                      (''Recorded '' @ category_vpay p @ '' of '' @ formatINR P (amount_vpay p) @
                       '' '' @ (if autoTds_vpay p then ''(+TDS)'' else []))
                      None None # auditLogs state \<rparr> \<and>
         vendors (appReducer P e state (RECORD_VENDOR_PAYMENT p)) = vendors state \<and>
         transactions (appReducer P e state (RECORD_VENDOR_PAYMENT p)) = transactions state \<and>
         length (auditLogs (appReducer P e state (RECORD_VENDOR_PAYMENT p))) =
           length (auditLogs state) + 1 \<and>
         length (notifications (appReducer P e state (RECORD_VENDOR_PAYMENT p))) =
           length (notifications state) + 1"
proof -
  have "\<forall>vid \<in> set (vendorIds_vpay p). find (\<lambda>v. id_vnd v = vid) (vendors state) = None"
    using assms by (auto simp: find_None_iff)
  then have "foldl (vendorStep P e p) (vendors state, []) (vendorIds_vpay p) = (vendors state, [])"
    by (rule foldl_vendorStep_unknown)
  then show ?thesis
    by (simp add: record_vendor_payment_def Let_def notif_def)
qed

theorem C10_vendor_payment_without_vendor_witness:
  "vendors (appReducer examplePlatform exampleEnv tripState (RECORD_VENDOR_PAYMENT strayVendorPayment)) =
     [exampleVendor] \<and>
   transactions (appReducer examplePlatform exampleEnv tripState
     (RECORD_VENDOR_PAYMENT strayVendorPayment)) = [] \<and>
   length (auditLogs (appReducer examplePlatform exampleEnv tripState
     (RECORD_VENDOR_PAYMENT strayVendorPayment))) = 1 \<and>
   length (notifications (appReducer examplePlatform exampleEnv tripState
     (RECORD_VENDOR_PAYMENT strayVendorPayment))) = 1"
proof -
  have stray: "\<forall>vid \<in> set (vendorIds_vpay strayVendorPayment).
                 \<forall>v \<in> set (vendors tripState). id_vnd v \<noteq> vid"
    by (simp add: strayVendorPayment_def vendorPayment_def tripState_def exampleVendor_def)
  note inst = C10_vendor_payment_without_vendor [OF stray, of examplePlatform exampleEnv]
  have a: "vendors (appReducer examplePlatform exampleEnv tripState
      (RECORD_VENDOR_PAYMENT strayVendorPayment)) = [exampleVendor]"
    using inst [THEN conjunct2, THEN conjunct1] by (simp add: tripState_def)
  have b: "transactions (appReducer examplePlatform exampleEnv tripState
      (RECORD_VENDOR_PAYMENT strayVendorPayment)) = []"
    using inst [THEN conjunct2, THEN conjunct2, THEN conjunct1]
    by (simp add: tripState_def emptyState_def)
  have c: "length (auditLogs (appReducer examplePlatform exampleEnv tripState
      (RECORD_VENDOR_PAYMENT strayVendorPayment))) = 1"
    using inst [THEN conjunct2, THEN conjunct2, THEN conjunct2, THEN conjunct1]
    by (simp add: tripState_def emptyState_def)
  have d: "length (notifications (appReducer examplePlatform exampleEnv tripState
      (RECORD_VENDOR_PAYMENT strayVendorPayment))) = 1"
    using inst [THEN conjunct2, THEN conjunct2, THEN conjunct2, THEN conjunct2]
    by (simp add: tripState_def emptyState_def)
  show ?thesis
    by (intro conjI a b c d)
qed


section \<open>The floor of the vendor balance\<close>

lemma update_first_all:
  "\<forall>x \<in> set xs. Q x \<Longrightarrow> (\<And>x. Q (f x)) \<Longrightarrow> \<forall>x \<in> set (update_first pr f xs). Q x"
  by (induction xs) auto

lemma find_update_first:
  "find pr xs = Some x \<Longrightarrow> pr (f x) \<Longrightarrow> find pr (update_first pr f xs) = Some (f x)"
  by (induction xs) (auto split: if_splits)

lemma payVendor_floor: "0 \<le> balance_vnd (payVendor P e p v)"
  by (simp add: payVendor_def)

lemma vendorStep_floor:
  assumes "\<forall>v \<in> set (fst acc). 0 \<le> balance_vnd v"
  shows "\<forall>v \<in> set (fst (vendorStep P e p acc vid)). 0 \<le> balance_vnd v"
proof (cases "find (\<lambda>v. id_vnd v = vid) (fst acc)")
  case None
  then show ?thesis
    using assms by (simp add: vendorStep_def)
next
  case (Some vendor)
  have "\<forall>v \<in> set (update_first (\<lambda>v. id_vnd v = vid) (payVendor P e p) (fst acc)). 0 \<le> balance_vnd v"
    using assms by (rule update_first_all) (rule payVendor_floor)
  then show ?thesis
    using Some by (simp add: vendorStep_def)
qed

lemma foldl_vendorStep_floor:
  "\<forall>v \<in> set (fst acc). 0 \<le> balance_vnd v \<Longrightarrow>
     \<forall>v \<in> set (fst (foldl (vendorStep P e p) acc ids)). 0 \<le> balance_vnd v"
proof (induction ids arbitrary: acc)
  case Nil
  then show ?case by simp
next
  case (Cons vid ids)
  have "\<forall>v \<in> set (fst (vendorStep P e p acc vid)). 0 \<le> balance_vnd v"
    using Cons.prems by (rule vendorStep_floor)
  then show ?case
    using Cons.IH by simp
qed

lemma record_vendor_payment_floor:
  assumes "\<forall>v \<in> set (vendors state). 0 \<le> balance_vnd v"
  shows "\<forall>v \<in> set (vendors (record_vendor_payment P e state p)). 0 \<le> balance_vnd v"
proof -
  have "\<forall>v \<in> set (fst (foldl (vendorStep P e p) (vendors state, []) (vendorIds_vpay p))).
          0 \<le> balance_vnd v"
    using assms by (intro foldl_vendorStep_floor) simp
  then show ?thesis
    by (simp add: record_vendor_payment_def Let_def)
qed

lemma record_vendor_payment_bookings:
  "bookings (record_vendor_payment P e state p) = bookings state"
  by (simp add: record_vendor_payment_def Let_def)

lemma complete_trip_bookings:
  "bookings (complete_trip P e state bid) = bookings state"
  by (simp add: complete_trip_def Let_def split: option.splits)

lemma find_in_set: "find pr xs = Some x \<Longrightarrow> x \<in> set xs"
  by (auto simp: find_Some_iff)

lemma complete_trip_vendors:
  "vendors (complete_trip P e state bid) = vendors state \<or>
   (\<exists>booking \<in> set (bookings state).
      vendors (complete_trip P e state bid) = map (postToVendor P e booking) (vendors state))"
proof (cases "find (\<lambda>b. id_bk b = bid) (bookings state)")
  case None
  then show ?thesis by (simp add: complete_trip_def)
next
  case (Some booking)
  then have "booking \<in> set (bookings state)"
    by (rule find_in_set)
  then show ?thesis
    using Some by (auto simp: complete_trip_def Let_def split: option.splits)
qed

lemma postToVendor_floor:
  "0 \<le> expense_bk booking \<Longrightarrow> 0 \<le> balance_vnd v \<Longrightarrow> 0 \<le> balance_vnd (postToVendor P e booking v)"
  by (simp add: postToVendor_def)

lemma complete_trip_floor:
  assumes "\<forall>v \<in> set (vendors state). 0 \<le> balance_vnd v"
      and "\<forall>b \<in> set (bookings state). 0 \<le> expense_bk b"
  shows "\<forall>v \<in> set (vendors (complete_trip P e state bid)). 0 \<le> balance_vnd v"
  using complete_trip_vendors [of P e state bid] assms
  by (auto simp: postToVendor_floor)

lemma dispatchAll_floor:
  assumes "\<forall>ea \<in> set eas. (\<exists>p. snd ea = RECORD_VENDOR_PAYMENT p) \<or> (\<exists>b. snd ea = COMPLETE_TRIP b)"
      and "\<forall>v \<in> set (vendors state). 0 \<le> balance_vnd v"
      and "\<forall>b \<in> set (bookings state). 0 \<le> expense_bk b"
  shows "\<forall>v \<in> set (vendors (dispatchAll P state eas)). 0 \<le> balance_vnd v"
  using assms
proof (induction eas arbitrary: state)
  case Nil
  then show ?case by simp
next
  case (Cons ea eas)
  let ?next = "appReducer P (fst ea) state (snd ea)"
  from Cons.prems(1) consider
    (pay) p where "snd ea = RECORD_VENDOR_PAYMENT p" | (trip) b where "snd ea = COMPLETE_TRIP b"
    by auto
  then have step: "(\<forall>v \<in> set (vendors ?next). 0 \<le> balance_vnd v) \<and> bookings ?next = bookings state"
  proof cases
    case pay
    then show ?thesis
      using Cons.prems(2) by (simp add: record_vendor_payment_floor record_vendor_payment_bookings)
  next
    case trip
    then show ?thesis
      using Cons.prems(2,3) by (simp add: complete_trip_floor complete_trip_bookings)
  qed
  have "\<forall>v \<in> set (vendors (dispatchAll P ?next eas)). 0 \<le> balance_vnd v"
    using Cons.prems(1,3) step by (intro Cons.IH) simp_all
  then show ?case by simp
qed

lemma vendorStep_found:
  assumes "find (\<lambda>v. id_vnd v = vid) vs = Some vendor"
  shows "find (\<lambda>v. id_vnd v = vid) (fst (vendorStep P e p (vs, txs) vid)) =
           Some (payVendor P e p vendor)"
proof -
  have "id_vnd vendor = vid"
    using assms by (rule find_key)
  then have "id_vnd (payVendor P e p vendor) = vid"
    by (simp add: payVendor_def)
  then show ?thesis
    using assms by (simp add: vendorStep_def find_update_first)
qed

text \<open>
  C5. From a state whose vendor balances and whose booking expenses are not negative,
  no sequence of \<open>RECORD_VENDOR_PAYMENT\<close> and \<open>COMPLETE_TRIP\<close> actions makes a vendor
  balance negative. A payment to one vendor of the state sets its balance to
  \<open>max(0, balance - (amount + tdsAmount))\<close>, and \<open>COMPLETE_TRIP\<close> leaves each balance
  as it is or adds the expense of a booking to it.
\<close>

theorem C5_vendor_balance_floor:
  assumes "\<forall>v \<in> set (vendors state). 0 \<le> balance_vnd v"
      and "\<forall>b \<in> set (bookings state). 0 \<le> expense_bk b"
      and "\<forall>ea \<in> set eas. (\<exists>p. snd ea = RECORD_VENDOR_PAYMENT p) \<or> (\<exists>b. snd ea = COMPLETE_TRIP b)"
  shows "(\<forall>v \<in> set (vendors (dispatchAll P state eas)). 0 \<le> balance_vnd v) \<and>
         (\<forall>e p vid vendor.
            vendorIds_vpay p = [vid] \<and> find (\<lambda>v. id_vnd v = vid) (vendors state) = Some vendor \<longrightarrow>
            find (\<lambda>v. id_vnd v = vid) (vendors (appReducer P e state (RECORD_VENDOR_PAYMENT p))) =
              Some (vendor\<lparr>
                balance_vnd := max 0 (balance_vnd vendor -
                  (amount_vpay p +
                   (if autoTds_vpay p then of_int (round ((amount_vpay p / 0.98) * 0.02)) else 0))),
                lastActivity_vnd := Some (toISOString P (now e)) \<rparr>)) \<and>
         (\<forall>e bid.
            list_all2 (\<lambda>v v'. balance_vnd v' = balance_vnd v \<or>
                              (\<exists>b \<in> set (bookings state). balance_vnd v' = balance_vnd v + expense_bk b))
              (vendors state) (vendors (appReducer P e state (COMPLETE_TRIP bid))))"
proof -
  have inv: "\<forall>v \<in> set (vendors (dispatchAll P state eas)). 0 \<le> balance_vnd v"
    using assms(3,1,2) by (rule dispatchAll_floor)
  have pay: "find (\<lambda>v. id_vnd v = vid) (vendors (appReducer P e state (RECORD_VENDOR_PAYMENT p))) =
              Some (vendor\<lparr>
                balance_vnd := max 0 (balance_vnd vendor -
                  (amount_vpay p +
                   (if autoTds_vpay p then of_int (round ((amount_vpay p / 0.98) * 0.02)) else 0))),
                lastActivity_vnd := Some (toISOString P (now e)) \<rparr>)"
    if "vendorIds_vpay p = [vid]" "find (\<lambda>v. id_vnd v = vid) (vendors state) = Some vendor"
    for e p vid vendor
    using that vendorStep_found [OF that(2), of P e p "[]"]
    by (simp add: record_vendor_payment_def Let_def payVendor_def vendorTds_def tdsOf_round)
  have trip: "list_all2 (\<lambda>v v'. balance_vnd v' = balance_vnd v \<or>
                              (\<exists>b \<in> set (bookings state). balance_vnd v' = balance_vnd v + expense_bk b))
              (vendors state) (vendors (appReducer P e state (COMPLETE_TRIP bid)))" for e bid
  proof -
    from complete_trip_vendors [of P e state bid] consider
      (same) "vendors (complete_trip P e state bid) = vendors state" |
      (posted) booking where "booking \<in> set (bookings state)"
        "vendors (complete_trip P e state bid) = map (postToVendor P e booking) (vendors state)"
      by blast
    then show ?thesis
    proof cases
      case same
      then show ?thesis by (simp add: list_all2_same)
    next
      case posted
      have "balance_vnd (postToVendor P e booking v) = balance_vnd v \<or>
            (\<exists>b \<in> set (bookings state).
               balance_vnd (postToVendor P e booking v) = balance_vnd v + expense_bk b)" for v
        using posted(1) by (cases "Some (id_vnd v) = vendorId_bk booking")
          (auto simp: postToVendor_def)
      then show ?thesis
        using posted(2) by (simp add: list_all2_map2 list_all2_same)
    qed
  qed
  show ?thesis
    using inv pay trip by blast
qed


lemma all_to_map: "\<forall>x \<in> set xs. Q x \<Longrightarrow> map Q xs = replicate (length xs) True"
  by (induction xs) auto

lemma round_tds_1000: "round ((1000 :: rat) / 49) = 20"
  by (simp add: round_def floor_eq_iff)

theorem C5_vendor_balance_floor_witness:
  "map (\<lambda>v. 0 \<le> balance_vnd v)
     (vendors (dispatchAll examplePlatform tripState
        [(exampleEnv, RECORD_VENDOR_PAYMENT vendorPayment),
         (exampleEnv, COMPLETE_TRIP ''BK-1''),
         (laterEnv, RECORD_VENDOR_PAYMENT (vendorPayment\<lparr> amount_vpay := 20000 \<rparr>))])) = [True] \<and>
   map_option balance_vnd (find (\<lambda>v. id_vnd v = ''vnd_1'')
     (vendors (appReducer examplePlatform exampleEnv tripState (RECORD_VENDOR_PAYMENT vendorPayment)))) =
     Some 3980"
proof -
  let ?eas = "[(exampleEnv, RECORD_VENDOR_PAYMENT vendorPayment),
         (exampleEnv, COMPLETE_TRIP ''BK-1''),
         (laterEnv, RECORD_VENDOR_PAYMENT (vendorPayment\<lparr> amount_vpay := 20000 \<rparr>))]"
  have bal: "\<forall>v \<in> set (vendors tripState). 0 \<le> balance_vnd v"
    by (simp add: tripState_def exampleVendor_def)
  have exp: "\<forall>b \<in> set (bookings tripState). 0 \<le> expense_bk b"
    by (simp add: tripState_def exampleBooking_def)
  have acts: "\<forall>ea \<in> set ?eas.
      (\<exists>p. snd ea = RECORD_VENDOR_PAYMENT p) \<or> (\<exists>b. snd ea = COMPLETE_TRIP b)"
    by simp
  note inst = C5_vendor_balance_floor [OF bal exp acts, of examplePlatform]
  have len: "length (vendors (dispatchAll examplePlatform tripState ?eas)) = 1"
    by (simp add: record_vendor_payment_def complete_trip_def vendorStep_def Let_def
        tripState_def emptyState_def exampleVendor_def exampleBooking_def vendorPayment_def
        truthy_def isFreightOf_def payVendor_def)
  have a: "map (\<lambda>v. 0 \<le> balance_vnd v) (vendors (dispatchAll examplePlatform tripState ?eas)) = [True]"
    unfolding all_to_map [OF inst [THEN conjunct1]] len by simp
  have found: "vendorIds_vpay vendorPayment = [''vnd_1''] \<and>
      find (\<lambda>v. id_vnd v = ''vnd_1'') (vendors tripState) = Some exampleVendor"
    by (simp add: vendorPayment_def tripState_def exampleVendor_def)
  have b: "map_option balance_vnd (find (\<lambda>v. id_vnd v = ''vnd_1'')
     (vendors (appReducer examplePlatform exampleEnv tripState (RECORD_VENDOR_PAYMENT vendorPayment)))) =
     Some 3980"
    using inst [THEN conjunct2, THEN conjunct1, rule_format, OF found, of exampleEnv]
    by (simp add: vendorPayment_def exampleVendor_def round_tds_1000)
  show ?thesis
    by (intro conjI a b)
qed

section \<open>COMPLETE_TRIP twice\<close>

lemma complete_trip_posts:
  assumes "find (\<lambda>b. id_bk b = bid) (bookings state) = Some booking"
      and "truthy (vendorId_bk booking)"
      and "find (isFreightOf bid) (expenses state) = None"
  shows "complete_trip P e state bid =
           state\<lparr> vendors := map (postToVendor P e booking) (vendors state),
                  expenses := expenses state @ [freightExpense P e booking],
                  auditLogs :=
                    createLog P e state ''Post'' Expense_entity bid
                      (''Auto-posted freight charge of '' @ formatINR P (expense_bk booking))
                      (Some ''Pending'') (Some ''Posted'') # auditLogs state,
                  notifications := notifications state @
                    [notif P e ''n_'' success (''Trip '' @ bid @ '' posted to Vendor Ledger.'')] \<rparr>"
  using assms by (simp add: complete_trip_def Let_def)

lemma complete_trip_already_posted:
  assumes "find (\<lambda>b. id_bk b = bid) (bookings state) = Some booking"
      and "truthy (vendorId_bk booking)"
      and "find (isFreightOf bid) (expenses state) = Some x"
  shows "complete_trip P e state bid =
           state\<lparr> notifications := notifications state @
             [notif P e ''n_'' warning (''Trip '' @ bid @ '' already posted to ledger.'')] \<rparr>"
  using assms by (simp add: complete_trip_def Let_def)

lemma freightExpense_isFreightOf:
  "id_bk booking = bid \<Longrightarrow> isFreightOf bid (freightExpense P e booking)"
  by (simp add: isFreightOf_def freightExpense_def)

lemma find_append_None:
  "find pr xs = None \<Longrightarrow> pr y \<Longrightarrow> find pr (xs @ [y]) = Some y"
  by (induction xs) (auto split: if_splits)

lemma filter_append_None:
  "find pr xs = None \<Longrightarrow> pr y \<Longrightarrow> filter pr (xs @ [y]) = [y]"
  by (induction xs) (auto split: if_splits)

text \<open>The second of two dispatches of \<open>COMPLETE_TRIP\<close> for a booking with a vendor
  only appends the warning, whatever the state was.\<close>

lemma complete_trip_second:
  assumes "find (\<lambda>b. id_bk b = bid) (bookings state) = Some booking"
      and "truthy (vendorId_bk booking)"
  shows "complete_trip P e2 (complete_trip P e1 state bid) bid =
           (complete_trip P e1 state bid)\<lparr> notifications :=
              notifications (complete_trip P e1 state bid) @
              [notif P e2 ''n_'' warning (''Trip '' @ bid @ '' already posted to ledger.'')] \<rparr>"
proof -
  let ?s1 = "complete_trip P e1 state bid"
  have bk: "find (\<lambda>b. id_bk b = bid) (bookings ?s1) = Some booking"
    using assms(1) by (simp add: complete_trip_bookings)
  have key: "id_bk booking = bid"
    using assms(1) by (rule find_key)
  have "\<exists>x. find (isFreightOf bid) (expenses ?s1) = Some x"
  proof (cases "find (isFreightOf bid) (expenses state)")
    case None
    then have "expenses ?s1 = expenses state @ [freightExpense P e1 booking]"
      using assms by (simp add: complete_trip_posts)
    then show ?thesis
      using None key by (simp add: find_append_None freightExpense_isFreightOf)
  next
    case (Some x)
    then have "expenses ?s1 = expenses state"
      using assms by (simp add: complete_trip_already_posted)
    then show ?thesis
      using Some by simp
  qed
  then obtain x where "find (isFreightOf bid) (expenses ?s1) = Some x" ..
  with bk assms(2) show ?thesis
    by (rule complete_trip_already_posted)
qed


lemma trip_booking_found:
  "find (\<lambda>b. id_bk b = ''BK-1'') (bookings tripState) = Some exampleBooking"
  "find (\<lambda>b. id_bk b = ''BK-1'') (bookings postedTwiceState) = Some exampleBooking"
  "truthy (vendorId_bk exampleBooking)"
  by (simp_all add: postedTwiceState_def tripState_def exampleBooking_def truthy_def)

text \<open>Two \<open>ADD_EXPENSE\<close> actions lead from the trip state to those expenses.\<close>

lemma postedTwiceState_reachable:
  "expenses (dispatchAll examplePlatform tripState
     [(exampleEnv, ADD_EXPENSE (manualFreight ''exp_1'')),
      (laterEnv, ADD_EXPENSE (manualFreight ''exp_2''))]) = expenses postedTwiceState"
  by (simp add: add_expense_def Let_def postedTwiceState_def tripState_def emptyState_def
      manualFreight_def)

text \<open>
  C6, as stated, fails on a state that already holds Freight expenses of the booking:
  with two of them in the state, two dispatches of \<open>COMPLETE_TRIP\<close> leave two Freight
  expenses of the booking and the vendors as they were.
\<close>

theorem C6_complete_trip_twice_counterexample:
  "find (\<lambda>b. id_bk b = ''BK-1'') (bookings postedTwiceState) = Some exampleBooking \<and>
   vendorId_bk exampleBooking = Some ''vnd_1'' \<and>
   length (filter (isFreightOf ''BK-1'')
     (expenses (appReducer examplePlatform laterEnv
        (appReducer examplePlatform exampleEnv postedTwiceState (COMPLETE_TRIP ''BK-1''))
        (COMPLETE_TRIP ''BK-1'')))) = 2 \<and>
   vendors (appReducer examplePlatform laterEnv
        (appReducer examplePlatform exampleEnv postedTwiceState (COMPLETE_TRIP ''BK-1''))
        (COMPLETE_TRIP ''BK-1'')) = vendors postedTwiceState \<and>
   map balance_vnd (vendors postedTwiceState) = [5000]"
  by (simp add: complete_trip_def Let_def postedTwiceState_def tripState_def emptyState_def
      exampleBooking_def exampleVendor_def manualFreight_def truthy_def isFreightOf_def)

text \<open>
  C6, amended. For a booking of the state that has a vendor and no Freight expense yet,
  two dispatches of \<open>COMPLETE_TRIP\<close> leave exactly one Freight expense of the booking,
  the one the first dispatch posted, and add the expense of the booking once to the
  balance of every vendor with the id of the booking's vendor. For a booking that has a
  vendor and a Freight expense already, both dispatches leave the expenses and the
  vendors as they were. In both cases the state after the second dispatch is the state
  after the first with one warning notification appended: expenses, vendors,
  transactions and invoices are the same.
\<close>

theorem C6_complete_trip_twice:
  assumes found: "find (\<lambda>b. id_bk b = bid) (bookings state) = Some booking"
      and vendor: "truthy (vendorId_bk booking)"
  shows
    "(let s1 = appReducer P e1 state (COMPLETE_TRIP bid);
          s2 = appReducer P e2 s1 (COMPLETE_TRIP bid)
      in (find (isFreightOf bid) (expenses state) = None \<longrightarrow>
            filter (isFreightOf bid) (expenses s2) = [freightExpense P e1 booking] \<and>
            vendors s2 = map (postToVendor P e1 booking) (vendors state) \<and>
            map balance_vnd (vendors s2) =
              map (\<lambda>v. if Some (id_vnd v) = vendorId_bk booking
                       then balance_vnd v + expense_bk booking else balance_vnd v) (vendors state)) \<and>
         (find (isFreightOf bid) (expenses state) \<noteq> None \<longrightarrow>
            expenses s2 = expenses state \<and> vendors s2 = vendors state) \<and>
         s2 = s1\<lparr> notifications := notifications s1 @
                [\<lparr> id_ntf = ''n_'' @ dateNowStr P e2,
                   message_ntf = ''Trip '' @ bid @ '' already posted to ledger.'',
                   type_ntf = warning \<rparr>] \<rparr> \<and>
         expenses s2 = expenses s1 \<and> vendors s2 = vendors s1 \<and>
         transactions s2 = transactions s1 \<and> invoices s2 = invoices s1)"
proof -
  let ?s1 = "complete_trip P e1 state bid"
  let ?s2 = "complete_trip P e2 ?s1 bid"
  have second: "?s2 = ?s1\<lparr> notifications := notifications ?s1 @
                [\<lparr> id_ntf = ''n_'' @ dateNowStr P e2,
                   message_ntf = ''Trip '' @ bid @ '' already posted to ledger.'',
                   type_ntf = warning \<rparr>] \<rparr>"
    using complete_trip_second [OF found vendor, of P e2 e1] by (simp add: notif_def)
  have same: "expenses ?s2 = expenses ?s1" "vendors ?s2 = vendors ?s1"
    "transactions ?s2 = transactions ?s1" "invoices ?s2 = invoices ?s1"
    by (subst second, simp)+
  have key: "id_bk booking = bid"
    using found by (rule find_key)
  have fresh: "filter (isFreightOf bid) (expenses ?s2) = [freightExpense P e1 booking] \<and>
            vendors ?s2 = map (postToVendor P e1 booking) (vendors state) \<and>
            map balance_vnd (vendors ?s2) =
              map (\<lambda>v. if Some (id_vnd v) = vendorId_bk booking
                       then balance_vnd v + expense_bk booking else balance_vnd v) (vendors state)"
    if none: "find (isFreightOf bid) (expenses state) = None"
  proof -
    have e: "expenses ?s1 = expenses state @ [freightExpense P e1 booking]"
      and v: "vendors ?s1 = map (postToVendor P e1 booking) (vendors state)"
      using found vendor none by (simp_all add: complete_trip_posts)
    have "filter (isFreightOf bid) (expenses ?s1) = [freightExpense P e1 booking]"
      unfolding e by (rule filter_append_None [OF none freightExpense_isFreightOf [OF key]])
    moreover have "map balance_vnd (map (postToVendor P e1 booking) (vendors state)) =
              map (\<lambda>v. if Some (id_vnd v) = vendorId_bk booking
                       then balance_vnd v + expense_bk booking else balance_vnd v) (vendors state)"
      by (simp add: postToVendor_def)
    ultimately show ?thesis
      using same v by simp
  qed
  have posted: "expenses ?s2 = expenses state \<and> vendors ?s2 = vendors state"
    if "find (isFreightOf bid) (expenses state) \<noteq> None"
  proof -
    from that obtain x where "find (isFreightOf bid) (expenses state) = Some x"
      by auto
    with found vendor have "expenses ?s1 = expenses state" "vendors ?s1 = vendors state"
      by (simp_all add: complete_trip_already_posted)
    then show ?thesis
      using same by simp
  qed
  show ?thesis
    unfolding Let_def appReducer.simps
    using fresh posted second same by blast
qed

theorem C6_complete_trip_twice_witness:
  "map amount_exp (filter (isFreightOf ''BK-1'')
     (expenses (appReducer examplePlatform laterEnv
        (appReducer examplePlatform exampleEnv tripState (COMPLETE_TRIP ''BK-1''))
        (COMPLETE_TRIP ''BK-1'')))) = [5000] \<and>
   map balance_vnd (vendors (appReducer examplePlatform laterEnv
        (appReducer examplePlatform exampleEnv tripState (COMPLETE_TRIP ''BK-1''))
        (COMPLETE_TRIP ''BK-1''))) = [10000] \<and>
   expenses (appReducer examplePlatform laterEnv
        (appReducer examplePlatform exampleEnv postedTwiceState (COMPLETE_TRIP ''BK-1''))
        (COMPLETE_TRIP ''BK-1'')) = expenses postedTwiceState"
proof -
  have none: "find (isFreightOf ''BK-1'') (expenses tripState) = None"
    by (simp add: tripState_def emptyState_def)
  have some: "find (isFreightOf ''BK-1'') (expenses postedTwiceState) \<noteq> None"
    by (simp add: postedTwiceState_def manualFreight_def isFreightOf_def)
  note fresh = C6_complete_trip_twice [OF trip_booking_found(1) trip_booking_found(3),
      of examplePlatform exampleEnv laterEnv, unfolded Let_def, THEN conjunct1, rule_format, OF none]
  note posted = C6_complete_trip_twice [OF trip_booking_found(2) trip_booking_found(3),
      of examplePlatform exampleEnv laterEnv, unfolded Let_def, THEN conjunct2, THEN conjunct1,
      rule_format, OF some]
  have a: "map amount_exp (filter (isFreightOf ''BK-1'')
     (expenses (appReducer examplePlatform laterEnv
        (appReducer examplePlatform exampleEnv tripState (COMPLETE_TRIP ''BK-1''))
        (COMPLETE_TRIP ''BK-1'')))) = [5000]"
    unfolding fresh [THEN conjunct1] by (simp add: freightExpense_def exampleBooking_def)
  have b: "map balance_vnd (vendors (appReducer examplePlatform laterEnv
        (appReducer examplePlatform exampleEnv tripState (COMPLETE_TRIP ''BK-1''))
        (COMPLETE_TRIP ''BK-1''))) = [10000]"
    unfolding fresh [THEN conjunct2, THEN conjunct2]
    by (simp add: tripState_def exampleVendor_def exampleBooking_def)
  show ?thesis
    by (intro conjI a b posted [THEN conjunct1])
qed

section \<open>The customer ledger: sorting\<close>

lemma ledgerCompare_key:
  assumes "parseDate P (date_le a) \<noteq> None" "parseDate P (date_le b) \<noteq> None"
  shows "(ledgerCompare P a b \<le> 0) = (ledgerKey P a \<le> ledgerKey P b)"
proof -
  from assms obtain ta tb
    where ta: "parseDate P (date_le a) = Some ta" and tb: "parseDate P (date_le b) = Some tb"
    by auto
  consider "ta < tb" | "tb < ta" | "ta = tb"
    by linarith
  then show ?thesis
  proof cases
    case 1
    then show ?thesis
      by (simp add: ledgerCompare_def ledgerKey_def Let_def ta tb)
  next
    case 2
    then show ?thesis
      by (simp add: ledgerCompare_def ledgerKey_def Let_def ta tb)
  next
    case 3
    then show ?thesis
      by (simp add: ledgerCompare_def ledgerKey_def Let_def ta tb)
  qed
qed

lemma insertBy_insort_key:
  assumes "parseDate P (date_le x) \<noteq> None" "\<forall>y \<in> set ys. parseDate P (date_le y) \<noteq> None"
  shows "insertBy (ledgerCompare P) x ys = insort_key (ledgerKey P) x ys"
  using assms by (induction ys) (simp_all add: ledgerCompare_key)

lemma sortBy_sort_key:
  assumes "\<forall>y \<in> set xs. parseDate P (date_le y) \<noteq> None"
  shows "sortBy (ledgerCompare P) xs = sort_key (ledgerKey P) xs"
  using assms
proof (induction xs)
  case Nil
  then show ?case by (simp add: sortBy_def)
next
  case (Cons x xs)
  then have "sortBy (ledgerCompare P) xs = sort_key (ledgerKey P) xs"
    by simp
  moreover have "\<forall>y \<in> set (sort_key (ledgerKey P) xs). parseDate P (date_le y) \<noteq> None"
    using Cons.prems by simp
  ultimately show ?case
    using Cons.prems by (simp add: sortBy_def insertBy_insort_key)
qed

lemma ledgerKey_time:
  assumes "parseDate P (date_le a) = Some ta" "parseDate P (date_le b) = Some tb"
      and "ledgerKey P a \<le> ledgerKey P b"
  shows "ta \<le> tb"
  using assms by (auto simp: ledgerKey_def split: if_splits)

lemma sorted_two_keys:
  assumes "sorted (map f xs)" "k1 < k2"
  shows "filter (\<lambda>x. f x = k1 \<or> f x = k2) xs = filter (\<lambda>x. f x = k1) xs @ filter (\<lambda>x. f x = k2) xs"
  using assms
proof (induction xs)
  case Nil
  then show ?case by simp
next
  case (Cons x xs)
  show ?case
  proof (cases "f x = k2")
    case True
    then have "\<forall>y \<in> set xs. f y \<noteq> k1"
      using Cons.prems by auto
    then have "filter (\<lambda>x. f x = k1) xs = []"
      by (simp add: filter_empty_conv)
    then show ?thesis
      using Cons True by simp
  next
    case False
    then show ?thesis
      using Cons by auto
  qed
qed

lemma ledgerKey_of_time:
  assumes "parseDate P (date_le r) \<noteq> None"
  shows "(parseDate P (date_le r) = Some t) = (ledgerKey P r = 2 * t \<or> ledgerKey P r = 2 * t + 1)"
  using assms by (auto simp: ledgerKey_def)

lemma ledgerKey_even:
  assumes "parseDate P (date_le r) \<noteq> None"
  shows "(ledgerKey P r = 2 * t) = (parseDate P (date_le r) = Some t \<and> category_le r = ''Invoice'')"
    and "(ledgerKey P r = 2 * t + 1) = (parseDate P (date_le r) = Some t \<and> category_le r \<noteq> ''Invoice'')"
proof -
  from assms obtain y where y: "parseDate P (date_le r) = Some y"
    by auto
  have odd: "2 * y + 1 \<noteq> 2 * t" "2 * y \<noteq> 2 * t + 1"
    by presburger+
  show "(ledgerKey P r = 2 * t) = (parseDate P (date_le r) = Some t \<and> category_le r = ''Invoice'')"
    using odd by (simp add: ledgerKey_def y)
  show "(ledgerKey P r = 2 * t + 1) = (parseDate P (date_le r) = Some t \<and> category_le r \<noteq> ''Invoice'')"
    using odd by (simp add: ledgerKey_def y)
qed

lemma filter_cong_set: "(\<And>x. x \<in> set xs \<Longrightarrow> p x = q x) \<Longrightarrow> filter p xs = filter q xs"
  by (rule filter_cong) simp_all

text \<open>The rows of one date in the sorted array: those of category "Invoice" in their
  order before the sort, then the others in their order before the sort.\<close>

lemma sortBy_same_date:
  assumes valid: "\<forall>y \<in> set xs. parseDate P (date_le y) \<noteq> None"
  shows "filter (\<lambda>r. parseDate P (date_le r) = Some t) (sortBy (ledgerCompare P) xs) =
         filter (\<lambda>r. parseDate P (date_le r) = Some t \<and> category_le r = ''Invoice'') xs @
         filter (\<lambda>r. parseDate P (date_le r) = Some t \<and> category_le r \<noteq> ''Invoice'') xs"
proof -
  let ?s = "sort_key (ledgerKey P) xs"
  have valid': "\<forall>y \<in> set ?s. parseDate P (date_le y) \<noteq> None"
    using valid by simp
  have "filter (\<lambda>r. parseDate P (date_le r) = Some t) ?s =
        filter (\<lambda>r. ledgerKey P r = 2 * t \<or> ledgerKey P r = 2 * t + 1) ?s"
    using valid' by (intro filter_cong_set) (simp add: ledgerKey_of_time)
  also have "\<dots> = filter (\<lambda>r. ledgerKey P r = 2 * t) ?s @ filter (\<lambda>r. ledgerKey P r = 2 * t + 1) ?s"
    by (rule sorted_two_keys) simp_all
  also have "\<dots> = filter (\<lambda>r. ledgerKey P r = 2 * t) xs @ filter (\<lambda>r. ledgerKey P r = 2 * t + 1) xs"
    by (simp only: sort_key_stable)
  also have "filter (\<lambda>r. ledgerKey P r = 2 * t) xs =
             filter (\<lambda>r. parseDate P (date_le r) = Some t \<and> category_le r = ''Invoice'') xs"
    using valid by (intro filter_cong_set) (simp add: ledgerKey_even)
  also have "filter (\<lambda>r. ledgerKey P r = 2 * t + 1) xs =
             filter (\<lambda>r. parseDate P (date_le r) = Some t \<and> category_le r \<noteq> ''Invoice'') xs"
    using valid by (intro filter_cong_set) (simp add: ledgerKey_even)
  finally show ?thesis
    by (simp add: sortBy_sort_key [OF valid])
qed

lemma sortBy_ascending:
  assumes valid: "\<forall>y \<in> set xs. parseDate P (date_le y) \<noteq> None"
  shows "sorted_wrt (\<lambda>a b. \<exists>ta tb. parseDate P (date_le a) = Some ta \<and>
                              parseDate P (date_le b) = Some tb \<and> ta \<le> tb)
           (sortBy (ledgerCompare P) xs)"
proof -
  let ?s = "sort_key (ledgerKey P) xs"
  have "sorted (map (ledgerKey P) ?s)"
    by simp
  then have keys: "sorted_wrt (\<lambda>a b. ledgerKey P a \<le> ledgerKey P b) ?s"
    by (simp add: sorted_map)
  have "sorted_wrt (\<lambda>a b. \<exists>ta tb. parseDate P (date_le a) = Some ta \<and>
                              parseDate P (date_le b) = Some tb \<and> ta \<le> tb) ?s"
  proof (rule sorted_wrt_mono_rel [OF _ keys])
    fix a b
    assume a: "a \<in> set ?s" and b: "b \<in> set ?s" and le: "ledgerKey P a \<le> ledgerKey P b"
    from a valid obtain ta where ta: "parseDate P (date_le a) = Some ta"
      by fastforce
    from b valid obtain tb where tb: "parseDate P (date_le b) = Some tb"
      by fastforce
    have "ta \<le> tb"
      using ta tb le by (rule ledgerKey_time)
    then show "\<exists>ta tb. parseDate P (date_le a) = Some ta \<and>
                              parseDate P (date_le b) = Some tb \<and> ta \<le> tb"
      using ta tb by simp
  qed
  then show ?thesis
    by (simp add: sortBy_sort_key [OF valid])
qed

lemma mset_sortBy:
  assumes valid: "\<forall>y \<in> set xs. parseDate P (date_le y) \<noteq> None"
  shows "mset (sortBy (ledgerCompare P) xs) = mset xs"
  by (simp add: sortBy_sort_key [OF valid])

section \<open>The customer ledger: running balance\<close>

lemma length_runningBalance [simp]: "length (runningBalance r xs) = length xs"
  by (induction xs arbitrary: r) simp_all

lemma runningBalance_strip:
  "map (\<lambda>x. x\<lparr> balance_le := 0 \<rparr>) (runningBalance r xs) = map (\<lambda>x. x\<lparr> balance_le := 0 \<rparr>) xs"
  by (induction xs arbitrary: r) simp_all

lemma runningBalance_nth:
  "k < length xs \<Longrightarrow>
     runningBalance r xs ! k =
       (xs ! k)\<lparr> balance_le := r + (\<Sum>x \<leftarrow> take (Suc k) xs. debit_le x - credit_le x) \<rparr>"
proof (induction xs arbitrary: r k)
  case Nil
  then show ?case by simp
next
  case (Cons x xs)
  show ?case
  proof (cases k)
    case 0
    then show ?thesis by simp
  next
    case (Suc j)
    then have "j < length xs"
      using Cons.prems by simp
    then show ?thesis
      using Suc Cons.IH [of j "r + debit_le x - credit_le x"] by (simp add: algebra_simps)
  qed
qed

lemma runningBalance_net:
  "map (\<lambda>x. debit_le x - credit_le x) (runningBalance r xs) = map (\<lambda>x. debit_le x - credit_le x) xs"
  by (induction xs arbitrary: r) simp_all

lemma runningBalance_accumulates:
  assumes "k < length xs"
  shows "balance_le (runningBalance 0 xs ! k) =
           (\<Sum>x \<leftarrow> take (Suc k) (runningBalance 0 xs). debit_le x - credit_le x)"
proof -
  have "map (\<lambda>x. debit_le x - credit_le x) (take (Suc k) (runningBalance 0 xs)) =
        map (\<lambda>x. debit_le x - credit_le x) (take (Suc k) xs)"
    by (simp only: take_map [symmetric] runningBalance_net)
  then show ?thesis
    using assms by (simp add: runningBalance_nth)
qed


lemma runningBalance_dates:
  "map date_le (runningBalance r xs) = map date_le xs"
  by (induction xs arbitrary: r) simp_all

lemma runningBalance_sorted_wrt:
  "sorted_wrt (\<lambda>a b. Q (date_le a) (date_le b)) (runningBalance r xs) =
   sorted_wrt (\<lambda>a b. Q (date_le a) (date_le b)) xs"
proof -
  have eq: "sorted_wrt (\<lambda>a b. Q (date_le a) (date_le b)) ys = sorted_wrt Q (map date_le ys)" for ys
    by (simp add: sorted_wrt_map)
  show ?thesis
    unfolding eq runningBalance_dates ..
qed

section \<open>The customer ledger: rows before the sort\<close>

lemma invoiceEntries_fields:
  "r \<in> set (invoiceEntries state sel) \<Longrightarrow>
     category_le r = ''Invoice'' \<and> balance_le r = 0 \<and> showShortPayment_le r = None"
  by (auto simp: invoiceEntries_def invoiceEntry_def)

lemma transactionEntries_fields:
  "r \<in> set (transactionEntries state sel) \<Longrightarrow> balance_le r = 0 \<and> showShortPayment_le r = None"
  by (auto simp: transactionEntries_def transactionEntry_def Let_def)

lemma rows_fields:
  "r \<in> set (invoiceEntries state sel @ transactionEntries state sel) \<Longrightarrow>
     balance_le r = 0 \<and> showShortPayment_le r = None"
  using invoiceEntries_fields transactionEntries_fields by fastforce

lemma runningBalance_flags:
  "map showShortPayment_le (runningBalance r xs) = map showShortPayment_le xs"
  by (induction xs arbitrary: r) simp_all

section \<open>The customer ledger: the short payment flag\<close>

lemma length_flagShortPayment [simp]: "length (flagShortPayment seen xs) = length xs"
  by (induction xs arbitrary: seen) (simp_all split: option.splits)

lemma flagShortPayment_strip:
  "map (\<lambda>r. r\<lparr> showShortPayment_le := None \<rparr>) (flagShortPayment seen xs) =
   map (\<lambda>r. r\<lparr> showShortPayment_le := None \<rparr>) xs"
  by (induction xs arbitrary: seen) (simp_all split: option.splits)

lemma flagShortPayment_keeps:
  "map invoiceId_le (flagShortPayment seen xs) = map invoiceId_le xs"
  "map category_le (flagShortPayment seen xs) = map category_le xs"
  by (induction xs arbitrary: seen) (simp_all split: option.splits)

lemma all_less_Suc_shift: "(\<forall>j < Suc k. Q j) = (Q 0 \<and> (\<forall>j < k. Q (Suc j)))"
  by (metis less_Suc_eq_0_disj Suc_less_eq zero_less_Suc)

lemma flagShortPayment_nth:
  "k < length xs \<Longrightarrow>
     showShortPayment_le (flagShortPayment seen xs ! k) =
       Some (\<exists>iid. invoiceId_le (xs ! k) = Some iid \<and> iid \<noteq> [] \<and> iid \<notin> seen \<and>
                   (\<forall>j < k. invoiceId_le (xs ! j) \<noteq> Some iid) \<and>
                   category_le (xs ! k) \<noteq> ''Invoice'')"
proof (induction xs arbitrary: seen k)
  case Nil
  then show ?case by simp
next
  case (Cons x xs)
  show ?case
  proof (cases k)
    case 0
    then show ?thesis
      by (auto split: option.splits)
  next
    case (Suc j)
    then have j: "j < length xs"
      using Cons.prems by simp
    show ?thesis
    proof (cases "invoiceId_le x")
      case None
      then show ?thesis
        using Suc Cons.IH [OF j, of seen] by (simp add: all_less_Suc_shift)
    next
      case (Some iid0)
      show ?thesis
      proof (cases "iid0 = []")
        case True
        then show ?thesis
          using Some Suc Cons.IH [OF j, of seen] by (auto simp: all_less_Suc_shift)
      next
        case False
        show ?thesis
        proof (cases "iid0 \<in> seen")
          case True
          then show ?thesis
            using Some False Suc Cons.IH [OF j, of seen] by (auto simp: all_less_Suc_shift)
        next
          case notseen: False
          then show ?thesis
            using Some False Suc Cons.IH [OF j, of "insert iid0 seen"]
            by (auto simp: all_less_Suc_shift)
        qed
      qed
    qed
  qed
qed


section \<open>The customer ledger on the example states\<close>

lemma advance_rows:
  "invoiceEntries advanceState ''all'' = [invoiceEntry lateInvoice]"
  "transactionEntries advanceState ''all'' = [transactionEntry advanceState advanceTx]"
  by (simp_all add: invoiceEntries_def transactionEntries_def advanceState_def emptyState_def
      advanceTx_def truthy_def)

lemma advance_sorted:
  "sortBy (ledgerCompare examplePlatform)
     [invoiceEntry lateInvoice, transactionEntry advanceState advanceTx] =
   [transactionEntry advanceState advanceTx, invoiceEntry lateInvoice]"
  by (simp add: sortBy_def ledgerCompare_def examplePlatform_def invoiceEntry_def
      transactionEntry_def Let_def lateInvoice_def exampleInvoice_def advanceTx_def)

lemma advance_ledger:
  "ledgerData examplePlatform advanceState ''all'' [] =
     [(invoiceEntry lateInvoice)\<lparr> balance_le := 6000, showShortPayment_le := Some False \<rparr>,
      (transactionEntry advanceState advanceTx)\<lparr> balance_le := - 4000,
         showShortPayment_le := Some False \<rparr>]"
  by (simp add: ledgerData_def ledgerAscending_def advance_rows advance_sorted Let_def)
     (simp add: invoiceEntry_def transactionEntry_def Let_def lateInvoice_def exampleInvoice_def
        advanceTx_def advanceState_def emptyState_def)

lemma ledger_rows:
  "invoiceEntries ledgerState ''all'' = [invoiceEntry mayInvoice]"
  "transactionEntries ledgerState ''all'' =
     [transactionEntry ledgerState juneTx, transactionEntry ledgerState sameDayTx]"
  by (simp_all add: invoiceEntries_def transactionEntries_def ledgerState_def emptyState_def
      juneTx_def sameDayTx_def advanceTx_def truthy_def)

lemma ledger_rows_valid:
  "\<forall>r \<in> set (invoiceEntries ledgerState ''all'' @ transactionEntries ledgerState ''all'').
     parseDate examplePlatform (date_le r) \<noteq> None"
  by (simp add: ledger_rows examplePlatform_def invoiceEntry_def transactionEntry_def Let_def
      mayInvoice_def juneTx_def sameDayTx_def advanceTx_def)

lemma ledger_sorted:
  "sortBy (ledgerCompare examplePlatform)
     [invoiceEntry mayInvoice, transactionEntry ledgerState juneTx,
      transactionEntry ledgerState sameDayTx] =
   [invoiceEntry mayInvoice, transactionEntry ledgerState sameDayTx,
    transactionEntry ledgerState juneTx]"
  by (simp add: sortBy_def ledgerCompare_def examplePlatform_def invoiceEntry_def
      transactionEntry_def Let_def mayInvoice_def exampleInvoice_def juneTx_def sameDayTx_def
      advanceTx_def)

lemma ledger_ascending:
  "ledgerAscending examplePlatform ledgerState ''all'' =
     [(invoiceEntry mayInvoice)\<lparr> balance_le := 10000 \<rparr>,
      (transactionEntry ledgerState sameDayTx)\<lparr> balance_le := 7000 \<rparr>,
      (transactionEntry ledgerState juneTx)\<lparr> balance_le := 3000 \<rparr>]"
  by (simp add: ledgerAscending_def ledger_rows ledger_sorted)
     (simp add: invoiceEntry_def transactionEntry_def Let_def mayInvoice_def exampleInvoice_def
        juneTx_def sameDayTx_def advanceTx_def)

lemma ledger_data:
  "ledgerData examplePlatform ledgerState ''all'' [] =
     [(transactionEntry ledgerState juneTx)\<lparr> balance_le := 3000, showShortPayment_le := Some True \<rparr>,
      (transactionEntry ledgerState sameDayTx)\<lparr> balance_le := 7000,
         showShortPayment_le := Some False \<rparr>,
      (invoiceEntry mayInvoice)\<lparr> balance_le := 10000, showShortPayment_le := Some False \<rparr>]"
  by (simp add: ledgerData_def ledger_ascending Let_def)
     (simp add: invoiceEntry_def transactionEntry_def Let_def mayInvoice_def exampleInvoice_def
        juneTx_def sameDayTx_def advanceTx_def ledgerState_def emptyState_def)


section \<open>The customer ledger: order, running balance and reversal\<close>

lemma ledgerAscending_strip:
  assumes valid: "\<forall>r \<in> set (invoiceEntries state sel @ transactionEntries state sel).
                    parseDate P (date_le r) \<noteq> None"
  shows "map (\<lambda>r. r\<lparr> balance_le := 0 \<rparr>) (ledgerAscending P state sel) =
         sortBy (ledgerCompare P) (invoiceEntries state sel @ transactionEntries state sel)"
proof -
  let ?rows = "invoiceEntries state sel @ transactionEntries state sel"
  have "set (sortBy (ledgerCompare P) ?rows) = set ?rows"
    using mset_sortBy [OF valid] by (rule mset_eq_setD)
  then have "\<forall>r \<in> set (sortBy (ledgerCompare P) ?rows). r\<lparr> balance_le := 0 \<rparr> = r"
    using rows_fields [of _ state sel] by simp
  then have "map (\<lambda>r. r\<lparr> balance_le := 0 \<rparr>) (sortBy (ledgerCompare P) ?rows) =
             sortBy (ledgerCompare P) ?rows"
    by (simp add: map_idI)
  then show ?thesis
    by (simp add: ledgerAscending_def runningBalance_strip)
qed

lemma ledgerAscending_no_flag:
  assumes valid: "\<forall>r \<in> set (invoiceEntries state sel @ transactionEntries state sel).
                    parseDate P (date_le r) \<noteq> None"
  shows "\<forall>r \<in> set (ledgerAscending P state sel). showShortPayment_le r = None"
proof -
  let ?rows = "invoiceEntries state sel @ transactionEntries state sel"
  have "set (sortBy (ledgerCompare P) ?rows) = set ?rows"
    using mset_sortBy [OF valid] by (rule mset_eq_setD)
  then have "\<forall>f \<in> set (map showShortPayment_le (sortBy (ledgerCompare P) ?rows)). f = None"
    using rows_fields [of _ state sel] by simp
  then have "\<forall>f \<in> set (map showShortPayment_le (ledgerAscending P state sel)). f = None"
    by (simp only: ledgerAscending_def runningBalance_flags)
  then show ?thesis
    by simp
qed

text \<open>
  C8. When every date of the rows parses: the ledger in ascending order holds the
  invoice rows and the rows of the transactions with a customer, each once; it is sorted
  by date; the rows of one date are the invoice rows, then the transaction rows, each
  group in the order it had before the sort (a transaction whose whole description is
  "Invoice" stands with its date between the two groups); the balance of a row is the
  sum of debit minus credit over the rows up to it; and the returned list is the
  reversal of these rows, or of those that match the search when there is one, with
  the short payment flag as the only other change.
\<close>

theorem C8_ledger_ordering:
  assumes valid: "\<forall>r \<in> set (invoiceEntries state sel @ transactionEntries state sel).
                    parseDate P (date_le r) \<noteq> None"
  shows
    "mset (map (\<lambda>r. r\<lparr> balance_le := 0 \<rparr>) (ledgerAscending P state sel)) =
       mset (invoiceEntries state sel @ transactionEntries state sel) \<and>
     sorted_wrt (\<lambda>a b. \<exists>ta tb. parseDate P (date_le a) = Some ta \<and>
                            parseDate P (date_le b) = Some tb \<and> ta \<le> tb)
       (ledgerAscending P state sel) \<and>
     (\<forall>t. filter (\<lambda>r. parseDate P (date_le r) = Some t)
            (map (\<lambda>r. r\<lparr> balance_le := 0 \<rparr>) (ledgerAscending P state sel)) =
          filter (\<lambda>r. parseDate P (date_le r) = Some t) (invoiceEntries state sel) @
          filter (\<lambda>r. parseDate P (date_le r) = Some t \<and> category_le r = ''Invoice'')
            (transactionEntries state sel) @
          filter (\<lambda>r. parseDate P (date_le r) = Some t \<and> category_le r \<noteq> ''Invoice'')
            (transactionEntries state sel)) \<and>
     (\<forall>k < length (ledgerAscending P state sel).
        balance_le (ledgerAscending P state sel ! k) =
          (\<Sum>x \<leftarrow> take (Suc k) (ledgerAscending P state sel). debit_le x - credit_le x)) \<and>
     map (\<lambda>r. r\<lparr> showShortPayment_le := None \<rparr>) (ledgerData P state sel search) =
       rev (if search \<noteq> [] then filter (matchesSearch P sel search) (ledgerAscending P state sel)
            else ledgerAscending P state sel)"
proof -
  let ?inv = "invoiceEntries state sel"
  let ?tx = "transactionEntries state sel"
  let ?asc = "ledgerAscending P state sel"
  note strip = ledgerAscending_strip [OF valid]
  have perm: "mset (map (\<lambda>r. r\<lparr> balance_le := 0 \<rparr>) ?asc) = mset (?inv @ ?tx)"
    unfolding strip by (rule mset_sortBy [OF valid])
  have asc: "sorted_wrt (\<lambda>a b. \<exists>ta tb. parseDate P (date_le a) = Some ta \<and>
                            parseDate P (date_le b) = Some tb \<and> ta \<le> tb) ?asc"
    unfolding ledgerAscending_def runningBalance_sorted_wrt
      [where Q = "\<lambda>da db. \<exists>ta tb. parseDate P da = Some ta \<and> parseDate P db = Some tb \<and> ta \<le> tb"]
    by (rule sortBy_ascending [OF valid])
  have inv_all: "filter (\<lambda>r. parseDate P (date_le r) = Some t \<and> category_le r = ''Invoice'') ?inv =
                 filter (\<lambda>r. parseDate P (date_le r) = Some t) ?inv" for t
    by (rule filter_cong_set) (simp add: invoiceEntries_fields)
  have inv_none: "filter (\<lambda>r. parseDate P (date_le r) = Some t \<and> category_le r \<noteq> ''Invoice'') ?inv = []"
    for t
    by (simp add: filter_empty_conv invoiceEntries_fields)
  have ties: "filter (\<lambda>r. parseDate P (date_le r) = Some t) (map (\<lambda>r. r\<lparr> balance_le := 0 \<rparr>) ?asc) =
          filter (\<lambda>r. parseDate P (date_le r) = Some t) ?inv @
          filter (\<lambda>r. parseDate P (date_le r) = Some t \<and> category_le r = ''Invoice'') ?tx @
          filter (\<lambda>r. parseDate P (date_le r) = Some t \<and> category_le r \<noteq> ''Invoice'') ?tx" for t
    unfolding strip sortBy_same_date [OF valid]
    by (simp only: filter_append inv_all inv_none append_Nil append_assoc)
  have bal: "balance_le (?asc ! k) = (\<Sum>x \<leftarrow> take (Suc k) ?asc. debit_le x - credit_le x)"
    if "k < length ?asc" for k
    using that unfolding ledgerAscending_def
    by (intro runningBalance_accumulates) simp
  have flags: "\<forall>r \<in> set ?asc. r\<lparr> showShortPayment_le := None \<rparr> = r"
    using ledgerAscending_no_flag [OF valid] by simp
  let ?searched = "if search \<noteq> [] then filter (matchesSearch P sel search) ?asc else ?asc"
  have "\<forall>r \<in> set (rev ?searched). r\<lparr> showShortPayment_le := None \<rparr> = r"
    using flags by simp
  then have "map (\<lambda>r. r\<lparr> showShortPayment_le := None \<rparr>) (rev ?searched) = rev ?searched"
    by (simp only: map_idI)
  then have out: "map (\<lambda>r. r\<lparr> showShortPayment_le := None \<rparr>) (ledgerData P state sel search) =
                  rev ?searched"
    by (simp only: ledgerData_def Let_def flagShortPayment_strip)
  show ?thesis
    using perm asc ties bal out by blast
qed

theorem C8_ledger_ordering_witness:
  "map id_le (ledgerAscending examplePlatform ledgerState ''all'') =
     [''led_inv_inv_3'', ''led_tx_tx_2'', ''led_tx_tx_3''] \<and>
   map date_le (ledgerAscending examplePlatform ledgerState ''all'') =
     [''2024-05-31'', ''2024-05-31'', ''2024-06-01''] \<and>
   balance_le (ledgerAscending examplePlatform ledgerState ''all'' ! 2) = 3000 \<and>
   map id_le (ledgerData examplePlatform ledgerState ''all'' []) =
     [''led_tx_tx_3'', ''led_tx_tx_2'', ''led_inv_inv_3''] \<and>
   map balance_le (ledgerData examplePlatform ledgerState ''all'' []) = [3000, 7000, 10000]"
proof -
  note inst = C8_ledger_ordering [OF ledger_rows_valid, of "[]"]
  have two: "(2::nat) < length (ledgerAscending examplePlatform ledgerState ''all'')"
    by (simp add: ledger_ascending)
  have bal: "balance_le (ledgerAscending examplePlatform ledgerState ''all'' ! 2) = 3000"
    unfolding inst [THEN conjunct2, THEN conjunct2, THEN conjunct2, THEN conjunct1, rule_format, OF two]
    by (simp add: ledger_ascending)
       (simp add: invoiceEntry_def transactionEntry_def Let_def mayInvoice_def exampleInvoice_def
          juneTx_def sameDayTx_def advanceTx_def)
  have rev: "map (\<lambda>r. r\<lparr> showShortPayment_le := None \<rparr>) (ledgerData examplePlatform ledgerState ''all'' []) =
       rev (ledgerAscending examplePlatform ledgerState ''all'')"
    using inst [THEN conjunct2, THEN conjunct2, THEN conjunct2, THEN conjunct2] by simp
  have ids: "map id_le (ledgerData examplePlatform ledgerState ''all'' []) =
       map id_le (map (\<lambda>r. r\<lparr> showShortPayment_le := None \<rparr>)
         (ledgerData examplePlatform ledgerState ''all'' []))"
    by simp
  have bals: "map balance_le (ledgerData examplePlatform ledgerState ''all'' []) =
       map balance_le (map (\<lambda>r. r\<lparr> showShortPayment_le := None \<rparr>)
         (ledgerData examplePlatform ledgerState ''all'' []))"
    by simp
  have a: "map id_le (ledgerAscending examplePlatform ledgerState ''all'') =
     [''led_inv_inv_3'', ''led_tx_tx_2'', ''led_tx_tx_3'']"
    by (simp add: ledger_ascending)
       (simp add: invoiceEntry_def transactionEntry_def Let_def mayInvoice_def exampleInvoice_def
          juneTx_def sameDayTx_def advanceTx_def)
  have b: "map date_le (ledgerAscending examplePlatform ledgerState ''all'') =
     [''2024-05-31'', ''2024-05-31'', ''2024-06-01'']"
    by (simp add: ledger_ascending)
       (simp add: invoiceEntry_def transactionEntry_def Let_def mayInvoice_def exampleInvoice_def
          juneTx_def sameDayTx_def advanceTx_def)
  have c: "map id_le (ledgerData examplePlatform ledgerState ''all'' []) =
     [''led_tx_tx_3'', ''led_tx_tx_2'', ''led_inv_inv_3'']"
    unfolding ids rev by (simp add: a rev_map [symmetric])
  have d: "map balance_le (ledgerData examplePlatform ledgerState ''all'' []) = [3000, 7000, 10000]"
    unfolding bals rev by (simp add: ledger_ascending)
  show ?thesis
    by (intro conjI a b bal c d)
qed


section \<open>The customer ledger: where the short payment shows\<close>

text \<open>
  C9, as stated, fails when the invoice row is the newest row of its group. The
  invoice of 30 June has one related transaction, the advance of 31 May with a short
  payment of 6000: newest first, the invoice row comes first, the row of the advance is
  the first row that is not the invoice row, and it is not flagged.
\<close>

theorem C9_short_payment_flag_counterexample:
  "map id_le (ledgerData examplePlatform advanceState ''all'' []) =
     [''led_inv_inv_2'', ''led_tx_tx_1''] \<and>
   map invoiceId_le (ledgerData examplePlatform advanceState ''all'' []) =
     [Some ''inv_2'', Some ''inv_2''] \<and>
   map category_le (ledgerData examplePlatform advanceState ''all'' []) =
     [''Invoice'', ''Advance payment - INV-002 ''] \<and>
   map shortPayment_le (ledgerData examplePlatform advanceState ''all'' []) = [Some 0, Some 6000] \<and>
   map showShortPayment_le (ledgerData examplePlatform advanceState ''all'' []) =
     [Some False, Some False]"
  unfolding advance_ledger
  by (simp add: invoiceEntry_def transactionEntry_def shortPaymentOf_def Let_def lateInvoice_def
      exampleInvoice_def advanceTx_def advanceState_def emptyState_def or0_def)

text \<open>
  C9, amended. A row of the returned list is flagged exactly when it has an invoice
  id, no row before it in the list (newest first) has the same invoice id, and its
  category is not "Invoice": the flag goes to the newest row of the group of an invoice,
  and only if that row is not the invoice row; when the invoice row is the newest of its
  group, no row of the group is flagged. So two flagged rows never have the same
  invoice id, and a row of category "Invoice" is never flagged.
\<close>

theorem C9_short_payment_flag:
  "(\<forall>k < length (ledgerData P state sel search).
      showShortPayment_le (ledgerData P state sel search ! k) =
        Some (\<exists>iid. invoiceId_le (ledgerData P state sel search ! k) = Some iid \<and> iid \<noteq> [] \<and>
                    (\<forall>j < k. invoiceId_le (ledgerData P state sel search ! j) \<noteq> Some iid) \<and>
                    category_le (ledgerData P state sel search ! k) \<noteq> ''Invoice'')) \<and>
   (\<forall>j k. j < k \<and> k < length (ledgerData P state sel search) \<and>
      showShortPayment_le (ledgerData P state sel search ! j) = Some True \<and>
      showShortPayment_le (ledgerData P state sel search ! k) = Some True \<longrightarrow>
      invoiceId_le (ledgerData P state sel search ! j) \<noteq>
      invoiceId_le (ledgerData P state sel search ! k)) \<and>
   (\<forall>k < length (ledgerData P state sel search).
      category_le (ledgerData P state sel search ! k) = ''Invoice'' \<longrightarrow>
      showShortPayment_le (ledgerData P state sel search ! k) = Some False)"
proof -
  let ?out = "ledgerData P state sel search"
  obtain xs where out: "?out = flagShortPayment {} xs"
    by (simp add: ledgerData_def Let_def)
  have len: "length ?out = length xs"
    by (simp add: out)
  have ids: "invoiceId_le (?out ! k) = invoiceId_le (xs ! k)" if "k < length xs" for k
    using that by (metis flagShortPayment_keeps(1) len nth_map out)
  have cats: "category_le (?out ! k) = category_le (xs ! k)" if "k < length xs" for k
    using that by (metis flagShortPayment_keeps(2) len nth_map out)
  have char: "showShortPayment_le (?out ! k) =
        Some (\<exists>iid. invoiceId_le (?out ! k) = Some iid \<and> iid \<noteq> [] \<and>
                    (\<forall>j < k. invoiceId_le (?out ! j) \<noteq> Some iid) \<and>
                    category_le (?out ! k) \<noteq> ''Invoice'')"
    if k: "k < length ?out" for k
  proof -
    have kx: "k < length xs"
      using k len by simp
    have "\<forall>j < k. invoiceId_le (?out ! j) = invoiceId_le (xs ! j)"
      using kx ids by simp
    then show ?thesis
      unfolding out [symmetric]
      using flagShortPayment_nth [OF kx, of "{}"] ids [OF kx] cats [OF kx]
      by (simp add: out)
  qed
  have once: "invoiceId_le (?out ! j) \<noteq> invoiceId_le (?out ! k)"
    if "j < k" "k < length ?out" "showShortPayment_le (?out ! j) = Some True"
       "showShortPayment_le (?out ! k) = Some True" for j k
  proof -
    from that(2,4) char [of k] obtain iid
      where "invoiceId_le (?out ! k) = Some iid"
        and "\<forall>i < k. invoiceId_le (?out ! i) \<noteq> Some iid"
      by auto
    then show ?thesis
      using that(1) by auto
  qed
  have never: "showShortPayment_le (?out ! k) = Some False"
    if "k < length ?out" "category_le (?out ! k) = ''Invoice''" for k
    using that char [of k] by simp
  show ?thesis
    using char once never by blast
qed

theorem C9_short_payment_flag_witness:
  "map category_le (ledgerData examplePlatform ledgerState ''all'' []) =
     [''Partial payment - INV-003 '', ''Partial payment - INV-003 '', ''Invoice''] \<and>
   showShortPayment_le (ledgerData examplePlatform ledgerState ''all'' [] ! 0) = Some True \<and>
   showShortPayment_le (ledgerData examplePlatform ledgerState ''all'' [] ! 1) = Some False \<and>
   showShortPayment_le (ledgerData examplePlatform ledgerState ''all'' [] ! 2) = Some False"
proof -
  note inst = C9_short_payment_flag [of examplePlatform ledgerState "''all''" "[]",
      THEN conjunct1, rule_format]
  have len: "length (ledgerData examplePlatform ledgerState ''all'' []) = 3"
    by (simp add: ledger_data)
  have ids: "map invoiceId_le (ledgerData examplePlatform ledgerState ''all'' []) =
      [Some ''inv_3'', Some ''inv_3'', Some ''inv_3'']"
    unfolding ledger_data
    by (simp add: invoiceEntry_def transactionEntry_def Let_def mayInvoice_def exampleInvoice_def
        juneTx_def sameDayTx_def advanceTx_def ledgerState_def emptyState_def)
  have cats: "map category_le (ledgerData examplePlatform ledgerState ''all'' []) =
     [''Partial payment - INV-003 '', ''Partial payment - INV-003 '', ''Invoice'']"
    unfolding ledger_data
    by (simp add: invoiceEntry_def transactionEntry_def Let_def mayInvoice_def exampleInvoice_def
        juneTx_def sameDayTx_def advanceTx_def ledgerState_def emptyState_def)
  have id_nth: "invoiceId_le (ledgerData examplePlatform ledgerState ''all'' [] ! k) = Some ''inv_3''"
    if "k < 3" for k
    using that len nth_map [of k "ledgerData examplePlatform ledgerState ''all'' []" invoiceId_le]
    by (simp add: ids less_Suc_eq numeral_3_eq_3)
       (auto simp: nth_Cons')
  have cat0: "category_le (ledgerData examplePlatform ledgerState ''all'' [] ! 0) =
      ''Partial payment - INV-003 ''"
    using len nth_map [of 0 "ledgerData examplePlatform ledgerState ''all'' []" category_le]
    by (simp add: cats)
  have cat2: "category_le (ledgerData examplePlatform ledgerState ''all'' [] ! 2) = ''Invoice''"
    using len nth_map [of 2 "ledgerData examplePlatform ledgerState ''all'' []" category_le]
    by (simp add: cats)
  have a: "showShortPayment_le (ledgerData examplePlatform ledgerState ''all'' [] ! 0) = Some True"
    using inst [of 0] by (simp add: len id_nth cat0)
  have b: "showShortPayment_le (ledgerData examplePlatform ledgerState ''all'' [] ! 1) = Some False"
    using inst [of 1] id_nth [of 0] by (simp add: len id_nth) 
  have c: "showShortPayment_le (ledgerData examplePlatform ledgerState ''all'' [] ! 2) = Some False"
    using inst [of 2] by (simp add: len cat2)
  show ?thesis
    by (intro conjI cats a b c)
qed

section \<open>The clock in the result\<close>

text \<open>
  Every branch that creates a record reads \<open>Date.now()\<close> for its id. Two calls of
  \<open>SWITCH_USER\<close> on the same state, one millisecond apart, differ in the id of the
  notification.
\<close>

lemma reducer_reads_clock:
  "appReducer examplePlatform exampleEnv emptyState (SWITCH_USER Accountant) \<noteq>
   appReducer examplePlatform laterEnv emptyState (SWITCH_USER Accountant) \<and>
   map id_ntf (notifications
     (appReducer examplePlatform exampleEnv emptyState (SWITCH_USER Accountant))) =
     [''n_1717200000123''] \<and>
   map id_ntf (notifications
     (appReducer examplePlatform laterEnv emptyState (SWITCH_USER Accountant))) =
     [''n_1717200000124'']"
proof -
  have a: "map id_ntf (notifications
     (appReducer examplePlatform exampleEnv emptyState (SWITCH_USER Accountant))) =
     [''n_1717200000123'']"
    by (simp add: switch_user_def notif_def dateNowStr_def examplePlatform_def exampleEnv_def
        emptyState_def showInt_def digitChar_def)
  have b: "map id_ntf (notifications
     (appReducer examplePlatform laterEnv emptyState (SWITCH_USER Accountant))) =
     [''n_1717200000124'']"
    by (simp add: switch_user_def notif_def dateNowStr_def examplePlatform_def laterEnv_def
        emptyState_def showInt_def digitChar_def)
  have "map id_ntf (notifications
     (appReducer examplePlatform exampleEnv emptyState (SWITCH_USER Accountant))) \<noteq>
     map id_ntf (notifications
     (appReducer examplePlatform laterEnv emptyState (SWITCH_USER Accountant)))"
    unfolding a b by simp
  then have "appReducer examplePlatform exampleEnv emptyState (SWITCH_USER Accountant) \<noteq>
   appReducer examplePlatform laterEnv emptyState (SWITCH_USER Accountant)"
    by auto
  then show ?thesis
    using a b by simp
qed

section \<open>RECORD_VENDOR_PAYMENT writes to the vendors of its input\<close>

lemma deref_update_other:
  "r \<notin> set refs \<Longrightarrow> deref (h(r \<mapsto> v)) refs = deref h refs"
  by (induction refs) (auto simp: deref_def split: option.splits)

lemma findRef_deref:
  assumes "distinct refs" "\<forall>r \<in> set refs. h r \<noteq> None"
  shows "case findRef h refs vid of
           None \<Rightarrow> find (\<lambda>v. id_vnd v = vid) (deref h refs) = None
         | Some r \<Rightarrow>
             (\<exists>v. h r = Some v \<and> r \<in> set refs \<and>
                  find (\<lambda>v. id_vnd v = vid) (deref h refs) = Some v \<and>
                  (\<forall>f. update_first (\<lambda>v. id_vnd v = vid) f (deref h refs) =
                        deref (h(r \<mapsto> f v)) refs))"
  using assms
proof (induction refs)
  case Nil
  then show ?case
    by (simp add: findRef_def deref_def)
next
  case (Cons r0 refs)
  then obtain v0 where v0: "h r0 = Some v0"
    by auto
  have fresh: "r0 \<notin> set refs"
    using Cons.prems by simp
  have head: "deref g (r0 # refs) = (case g r0 of None \<Rightarrow> deref g refs | Some v \<Rightarrow> v # deref g refs)"
    for g
    by (simp add: deref_def split: option.splits)
  show ?case
  proof (cases "id_vnd v0 = vid")
    case True
    then show ?thesis
      using v0 fresh by (simp add: findRef_def head deref_update_other)
  next
    case False
    have IH: "case findRef h refs vid of
           None \<Rightarrow> find (\<lambda>v. id_vnd v = vid) (deref h refs) = None
         | Some r \<Rightarrow>
             (\<exists>v. h r = Some v \<and> r \<in> set refs \<and>
                  find (\<lambda>v. id_vnd v = vid) (deref h refs) = Some v \<and>
                  (\<forall>f. update_first (\<lambda>v. id_vnd v = vid) f (deref h refs) =
                        deref (h(r \<mapsto> f v)) refs))"
      using Cons by simp
    have step: "findRef h (r0 # refs) vid = findRef h refs vid"
      using v0 False by (simp add: findRef_def)
    show ?thesis
    proof (cases "findRef h refs vid")
      case None
      then show ?thesis
        using IH step v0 False by (simp add: head)
    next
      case (Some r)
      then obtain v where v: "h r = Some v" "r \<in> set refs"
          "find (\<lambda>v. id_vnd v = vid) (deref h refs) = Some v"
          "\<forall>f. update_first (\<lambda>v. id_vnd v = vid) f (deref h refs) = deref (h(r \<mapsto> f v)) refs"
        using IH by auto
      have "r \<noteq> r0"
        using v(2) fresh by auto
      then show ?thesis
        using Some step v v0 False by (simp add: head)
    qed
  qed
qed

text \<open>One turn of the loop on the store is the turn on values, read through the store.\<close>

lemma vendorStepStore_refines:
  assumes "distinct refs" "\<forall>r \<in> set refs. h r \<noteq> None"
  shows "vendorStep P e p (deref h refs, txs) vid =
           (deref (fst (vendorStepStore P e p refs (h, txs) vid)) refs,
            snd (vendorStepStore P e p refs (h, txs) vid)) \<and>
         (\<forall>r \<in> set refs. fst (vendorStepStore P e p refs (h, txs) vid) r \<noteq> None)"
proof (cases "findRef h refs vid")
  case None
  then show ?thesis
    using findRef_deref [OF assms, of vid] assms(2)
    by (simp add: vendorStep_def vendorStepStore_def)
next
  case (Some r)
  then obtain v where v: "h r = Some v" "r \<in> set refs"
      "find (\<lambda>v. id_vnd v = vid) (deref h refs) = Some v"
      "\<forall>f. update_first (\<lambda>v. id_vnd v = vid) f (deref h refs) = deref (h(r \<mapsto> f v)) refs"
    using findRef_deref [OF assms, of vid] by auto
  show ?thesis
    using Some v assms(2) by (simp add: vendorStep_def vendorStepStore_def)
qed

lemma vendorLoopStore_refines_aux:
  assumes "distinct refs" "\<forall>r \<in> set refs. h r \<noteq> None"
  shows "foldl (vendorStep P e p) (deref h refs, txs) ids =
           (deref (fst (foldl (vendorStepStore P e p refs) (h, txs) ids)) refs,
            snd (foldl (vendorStepStore P e p refs) (h, txs) ids))"
  using assms(2)
proof (induction ids arbitrary: h txs)
  case Nil
  then show ?case by simp
next
  case (Cons vid ids)
  obtain h' txs' where next_acc: "vendorStepStore P e p refs (h, txs) vid = (h', txs')"
    by (cases "vendorStepStore P e p refs (h, txs) vid")
  have "vendorStep P e p (deref h refs, txs) vid = (deref h' refs, txs')"
    and "\<forall>r \<in> set refs. h' r \<noteq> None"
    using vendorStepStore_refines [OF assms(1) Cons.prems, of P e p txs vid] next_acc by simp_all
  then show ?case
    using Cons.IH [of h' txs'] next_acc by simp
qed

text \<open>
  With distinct, allocated references, the vendors that \<open>RECORD_VENDOR_PAYMENT\<close>
  returns are the array of the input state read in the store after the loop: the value
  model of the loop is right, and the vendors of the input state have changed with it.
\<close>

lemma vendorLoopStore_refines:
  assumes "distinct refs" "\<forall>r \<in> set refs. h r \<noteq> None"
      and "vendors state = deref h refs"
  shows "vendors (record_vendor_payment P e state p) =
           deref (fst (vendorLoopStore P e p refs h)) refs"
    and "transactions (record_vendor_payment P e state p) =
           snd (vendorLoopStore P e p refs h) @ transactions state"
  using vendorLoopStore_refines_aux [OF assms(1,2), of P e p "[]" "vendorIds_vpay p"] assms(3)
  by (simp_all add: record_vendor_payment_def vendorLoopStore_def Let_def)

text \<open>
  The branch on the store returns the state that the branch on values returns: the
  model on values gives the returned state, the model on the store adds what happens to
  the objects of the input state.
\<close>

lemma record_vendor_payment_store_refines:
  assumes "distinct refs" "\<forall>r \<in> set refs. h r \<noteq> None"
      and "vendors state = deref h refs"
  shows "snd (record_vendor_payment_store P e refs h state p) = record_vendor_payment P e state p"
  using vendorLoopStore_refines_aux [OF assms(1,2), of P e p "[]" "vendorIds_vpay p"] assms(3)
  by (simp add: record_vendor_payment_store_def record_vendor_payment_def vendorLoopStore_def
      Let_def)

lemma vendor_payment_loop_example:
  "vendorLoopStore examplePlatform exampleEnv vendorPayment [0] exampleStore =
     (exampleStore(0 \<mapsto> exampleVendor\<lparr> balance_vnd := 3980,
        lastActivity_vnd := Some ''2024-06-01T00:00:00.123Z'' \<rparr>),
      [vendorMainTransaction examplePlatform exampleEnv vendorPayment exampleVendor ''vnd_1'',
       vendorTdsTransaction examplePlatform exampleEnv vendorPayment exampleVendor ''vnd_1''])"
  by (simp add: vendorLoopStore_def vendorStepStore_def findRef_def
      exampleStore_def exampleVendor_def vendorPayment_def payVendor_def
      vendorTds_def tdsOf_round round_tds_1000 examplePlatform_def exampleEnv_def
      showInt_def digitChar_def)

text \<open>
  C3. The reducer writes to its input. The state \<open>tripState\<close> holds one vendor with
  balance 5000 and no last activity; its vendor array is \<open>[0]\<close> in the store
  \<open>exampleStore\<close>. After one \<open>RECORD_VENDOR_PAYMENT\<close> of 1000 with TDS, the vendor
  of the input state, read through the same array, has balance 3980 and a last
  activity, as the vendor of the returned state has. A second call with the same state
  object, the same action and the same clock reading starts from 3980 and returns 2960:
  the two calls do not return equal results.
\<close>

theorem C3_vendor_payment_writes_input:
  "vendors tripState = deref exampleStore [0] \<and>
   map balance_vnd (deref exampleStore [0]) = [5000] \<and>
   map lastActivity_vnd (deref exampleStore [0]) = [None] \<and>
   map balance_vnd (deref (fst (record_vendor_payment_store examplePlatform exampleEnv [0]
     exampleStore tripState vendorPayment)) [0]) = [3980] \<and>
   map lastActivity_vnd (deref (fst (record_vendor_payment_store examplePlatform exampleEnv [0]
     exampleStore tripState vendorPayment)) [0]) = [Some ''2024-06-01T00:00:00.123Z''] \<and>
   map balance_vnd (vendors (snd (record_vendor_payment_store examplePlatform exampleEnv [0]
     exampleStore tripState vendorPayment))) = [3980] \<and>
   map balance_vnd (vendors (snd (record_vendor_payment_store examplePlatform exampleEnv [0]
     (fst (record_vendor_payment_store examplePlatform exampleEnv [0]
        exampleStore tripState vendorPayment))
     tripState vendorPayment))) = [2960]"
proof -
  have first: "fst (record_vendor_payment_store examplePlatform exampleEnv [0]
       exampleStore tripState vendorPayment) =
     exampleStore(0 \<mapsto> exampleVendor\<lparr> balance_vnd := 3980,
        lastActivity_vnd := Some ''2024-06-01T00:00:00.123Z'' \<rparr>)"
    by (simp add: record_vendor_payment_store_def Let_def vendor_payment_loop_example)
  have a: "vendors tripState = deref exampleStore [0]"
    by (simp add: tripState_def emptyState_def deref_def exampleStore_def)
  have b: "map balance_vnd (deref exampleStore [0]) = [5000]"
    by (simp add: deref_def exampleStore_def exampleVendor_def)
  have c: "map lastActivity_vnd (deref exampleStore [0]) = [None]"
    by (simp add: deref_def exampleStore_def exampleVendor_def)
  have d: "map balance_vnd (deref (fst (record_vendor_payment_store examplePlatform exampleEnv [0]
     exampleStore tripState vendorPayment)) [0]) = [3980]"
    unfolding first by (simp add: deref_def)
  have e: "map lastActivity_vnd (deref (fst (record_vendor_payment_store examplePlatform
     exampleEnv [0] exampleStore tripState vendorPayment)) [0]) =
     [Some ''2024-06-01T00:00:00.123Z'']"
    unfolding first by (simp add: deref_def)
  have f: "map balance_vnd (vendors (snd (record_vendor_payment_store examplePlatform exampleEnv
     [0] exampleStore tripState vendorPayment))) = [3980]"
    by (simp add: record_vendor_payment_store_def Let_def vendor_payment_loop_example deref_def)
  have g: "map balance_vnd (vendors (snd (record_vendor_payment_store examplePlatform exampleEnv [0]
     (fst (record_vendor_payment_store examplePlatform exampleEnv [0]
        exampleStore tripState vendorPayment))
     tripState vendorPayment))) = [2960]"
    unfolding first
    by (simp add: record_vendor_payment_store_def Let_def vendorLoopStore_def vendorStepStore_def
        findRef_def deref_def exampleStore_def exampleVendor_def vendorPayment_def payVendor_def
        vendorTds_def tdsOf_round round_tds_1000)
  show ?thesis
    by (intro conjI a b c d e f g)
qed

end
